theory Spec2Isabelle
  imports Complex_Main "HOL-Library.Word" "HOL-Library.AList"
begin

unbundle bit_operations_syntax

section \<open>JavaScript strings\<close>

text \<open>
  A JavaScript string is a sequence of code units. It is modelled as a HOL \<open>string\<close>,
  one \<open>char\<close> per code unit, which covers the code units below 256 (Latin-1); the
  length of the list is the \<open>length\<close> property of the string.
\<close>

definition code_unit :: "char \<Rightarrow> nat" where
  "code_unit c = of_char c"

text \<open>\<open>String.prototype.toLowerCase\<close> on one code unit: A-Z, and the upper-case
  letters of Latin-1 (U+00C0 to U+00DE without the multiplication sign U+00D7).\<close>

definition lower_char :: "char \<Rightarrow> char" where
  "lower_char c =
     (let n = code_unit c
      in if (65 \<le> n \<and> n \<le> 90) \<or> (192 \<le> n \<and> n \<le> 222 \<and> n \<noteq> 215)
         then char_of (n + 32) else c)"

definition toLowerCase :: "string \<Rightarrow> string" where
  "toLowerCase s = map lower_char s"

text \<open>The white space and line terminators that \<open>String.prototype.trim\<close> strips:
  TAB, LF, VT, FF, CR, SPACE and NO-BREAK SPACE.\<close>

definition is_js_space :: "char \<Rightarrow> bool" where
  "is_js_space c = (code_unit c \<in> {9, 10, 11, 12, 13, 32, 160})"

definition trim :: "string \<Rightarrow> string" where
  "trim s = rev (dropWhile is_js_space (rev (dropWhile is_js_space s)))"

text \<open>\<open>String(n)\<close> for a non-negative integer: its decimal digits.\<close>

definition digit_char :: "nat \<Rightarrow> char" where
  "digit_char d = char_of (48 + d)"

fun string_of_nat :: "nat \<Rightarrow> string" where
  "string_of_nat n =
     (if n < 10 then [digit_char n] else string_of_nat (n div 10) @ [digit_char (n mod 10)])"

declare string_of_nat.simps [simp del]

definition string_of_int :: "int \<Rightarrow> string" where
  "string_of_int i = (if i < 0 then CHR ''-'' # string_of_nat (nat (- i)) else string_of_nat (nat i))"

section \<open>Session registry (sessions.js)\<close>

subsection \<open>slugify\<close>

text \<open>\<open>s.replace(/[P]+/g, r)\<close>: every maximal run of code units satisfying \<open>P\<close> is
  replaced by \<open>r\<close>.\<close>

function replace_runs :: "(char \<Rightarrow> bool) \<Rightarrow> string \<Rightarrow> string \<Rightarrow> string" where
  "replace_runs P r [] = []"
| "replace_runs P r (c # cs) =
     (if P c then r @ replace_runs P r (dropWhile P cs) else c # replace_runs P r cs)"
  by pat_completeness auto
termination
  by (relation "measure (\<lambda>(P, r, s). length s)") (auto simp: length_dropWhile_le less_Suc_eq_le)

definition is_slug_char :: "char \<Rightarrow> bool" where
  "is_slug_char c =
     (let n = code_unit c in (97 \<le> n \<and> n \<le> 122) \<or> (48 \<le> n \<and> n \<le> 57))"

definition is_dash :: "char \<Rightarrow> bool" where
  "is_dash c = (c = CHR ''-'')"

text \<open>\<open>s.replace(/^-+|-+$/g, '')\<close>: the leading and the trailing run of dashes go.\<close>

definition strip_dashes :: "string \<Rightarrow> string" where
  "strip_dashes s = rev (dropWhile is_dash (rev (dropWhile is_dash s)))"

definition slugify :: "string \<Rightarrow> string" where
  "slugify name =
     replace_runs is_dash ''-''
       (strip_dashes
         (replace_runs (\<lambda>c. \<not> is_slug_char c) ''-'' (toLowerCase name)))"

subsection \<open>generateRandomSuffix\<close>

text \<open>\<open>crypto.randomBytes(2).toString('hex')\<close>: the two random bytes are an input of the
  model; each is rendered as two lower-case hexadecimal digits.\<close>

definition hex_digit :: "nat \<Rightarrow> char" where
  "hex_digit d = (if d < 10 then char_of (48 + d) else char_of (87 + d))"

definition hex_of_byte :: "8 word \<Rightarrow> string" where
  "hex_of_byte b = [hex_digit (unat (drop_bit 4 b)), hex_digit (unat (b AND 15))]"

definition generateRandomSuffix :: "8 word \<times> 8 word \<Rightarrow> string" where
  "generateRandomSuffix rnd = hex_of_byte (fst rnd) @ hex_of_byte (snd rnd)"

definition is_hex_char :: "char \<Rightarrow> bool" where
  "is_hex_char c =
     (let n = code_unit c in (48 \<le> n \<and> n \<le> 57) \<or> (97 \<le> n \<and> n \<le> 102))"

subsection \<open>createSessionRegistry\<close>

record session_data =
  token :: string
  projectSlug :: string
  registeredAt :: nat

text \<open>The registry's own pending table: \<open>command\<close> and \<open>retryCount\<close> are stored with
  their defaults (\<open>''\<close> and \<open>0\<close>) filled in.\<close>

record reg_pending =
  rp_sessionId :: string
  rp_messageId :: int
  rp_tool :: string
  rp_command :: string
  rp_requestId :: string
  rp_retryCount :: nat
  rp_firstRequestAt :: nat

text \<open>The five collections closed over by the registry. A \<open>Map\<close> that is only read by key
  is a partial function; the ones the code iterates over are association lists in
  insertion order, and the \<open>Set\<close> is a duplicate-free list in insertion order.\<close>

record registry =
  sessionsBySessionId :: "string \<rightharpoonup> session_data"
  sessionsByToken :: "string \<rightharpoonup> string"
  afkEnabledSessions :: "string list"
  pendingByMessageId :: "(int \<times> reg_pending) list"
  pendingKeyToMessageId :: "(string \<times> int) list"

definition createSessionRegistry :: registry where
  "createSessionRegistry =
     \<lparr>sessionsBySessionId = Map.empty, sessionsByToken = Map.empty,
      afkEnabledSessions = [], pendingByMessageId = [], pendingKeyToMessageId = []\<rparr>"

definition makePendingKey :: "string \<Rightarrow> string \<Rightarrow> string \<Rightarrow> string" where
  "makePendingKey sessionId tool command = sessionId @ '':'' @ tool @ '':'' @ command"

text \<open>\<open>register\<close> returns the token and the updated registry. The random bytes and the
  clock reading are inputs.\<close>

definition register ::
  "string \<Rightarrow> string \<Rightarrow> 8 word \<times> 8 word \<Rightarrow> nat \<Rightarrow> registry \<Rightarrow> string \<times> registry" where
  "register sessionId projectName rnd now r =
     (case sessionsBySessionId r sessionId of
        Some d \<Rightarrow> (token d, r)
      | None \<Rightarrow>
          (let slug = slugify projectName;
               suffix = generateRandomSuffix rnd;
               tok = slug @ ''-'' @ suffix;
               sessionData = \<lparr>token = tok, projectSlug = slug, registeredAt = now\<rparr>
           in (tok, r\<lparr>sessionsBySessionId := (sessionsBySessionId r)(sessionId \<mapsto> sessionData),
                      sessionsByToken := (sessionsByToken r)(tok \<mapsto> sessionId)\<rparr>)))"

definition startsWith :: "string \<Rightarrow> string \<Rightarrow> bool" where
  "startsWith s p = (take (length p) s = p)"

definition unregister :: "string \<Rightarrow> registry \<Rightarrow> registry" where
  "unregister sessionId r =
     (case sessionsBySessionId r sessionId of
        None \<Rightarrow> r
      | Some session \<Rightarrow>
          r\<lparr>sessionsByToken := (sessionsByToken r)(token session := None),
            sessionsBySessionId := (sessionsBySessionId r)(sessionId := None),
            afkEnabledSessions := removeAll sessionId (afkEnabledSessions r),
            pendingByMessageId :=
              filter (\<lambda>(m, p). rp_sessionId p \<noteq> sessionId) (pendingByMessageId r),
            pendingKeyToMessageId :=
              filter (\<lambda>(k, m). \<not> startsWith k (sessionId @ '':''))
                (pendingKeyToMessageId r)\<rparr>)"

definition enableAfk :: "string \<Rightarrow> registry \<Rightarrow> registry" where
  "enableAfk sessionId r =
     (if sessionId \<in> set (afkEnabledSessions r) then r
      else r\<lparr>afkEnabledSessions := afkEnabledSessions r @ [sessionId]\<rparr>)"

definition disableAfk :: "string \<Rightarrow> registry \<Rightarrow> registry" where
  "disableAfk sessionId r = r\<lparr>afkEnabledSessions := removeAll sessionId (afkEnabledSessions r)\<rparr>"

definition isAfkEnabled :: "registry \<Rightarrow> string \<Rightarrow> bool" where
  "isAfkEnabled r sessionId = (sessionId \<in> set (afkEnabledSessions r))"

definition getAfkEnabledSessions :: "registry \<Rightarrow> string list" where
  "getAfkEnabledSessions r = afkEnabledSessions r"

definition addPendingRequest :: "string \<Rightarrow> reg_pending \<Rightarrow> registry \<Rightarrow> registry" where
  "addPendingRequest sessionId request r =
     (let pending = request\<lparr>rp_sessionId := sessionId\<rparr>;
          key = makePendingKey sessionId (rp_tool request) (rp_command request)
      in r\<lparr>pendingByMessageId := AList.update (rp_messageId request) pending (pendingByMessageId r),
            pendingKeyToMessageId := AList.update key (rp_messageId request) (pendingKeyToMessageId r)\<rparr>)"

definition incrementRetryCount :: "string \<Rightarrow> string \<Rightarrow> string \<Rightarrow> registry \<Rightarrow> registry" where
  "incrementRetryCount sessionId tool command r =
     (case map_of (pendingKeyToMessageId r) (makePendingKey sessionId tool command) of
        None \<Rightarrow> r
      | Some messageId \<Rightarrow>
          (case map_of (pendingByMessageId r) messageId of
             None \<Rightarrow> r
           | Some pending \<Rightarrow>
               r\<lparr>pendingByMessageId :=
                   AList.update messageId (pending\<lparr>rp_retryCount := rp_retryCount pending + 1\<rparr>)
                     (pendingByMessageId r)\<rparr>))"

definition removePendingByMessageId :: "int \<Rightarrow> registry \<Rightarrow> registry" where
  "removePendingByMessageId messageId r =
     (case map_of (pendingByMessageId r) messageId of
        None \<Rightarrow> r
      | Some pending \<Rightarrow>
          r\<lparr>pendingKeyToMessageId :=
              AList.delete (makePendingKey (rp_sessionId pending) (rp_tool pending) (rp_command pending))
                (pendingKeyToMessageId r),
            pendingByMessageId := AList.delete messageId (pendingByMessageId r)\<rparr>)"

definition getPendingCount :: "registry \<Rightarrow> nat" where
  "getPendingCount r = length (pendingByMessageId r)"

text \<open>\<open>importState\<close> adds the persisted AFK sessions, one \<open>Set.add\<close> each.\<close>

definition importState :: "string list \<Rightarrow> registry \<Rightarrow> registry" where
  "importState afkSessions r = fold enableAfk afkSessions r"

text \<open>The mutating methods of the registry object, as values, and a run of them.\<close>

datatype registry_call =
    Register string string "8 word \<times> 8 word" nat
  | Unregister string
  | EnableAfk string
  | DisableAfk string
  | AddPendingRequest string reg_pending
  | IncrementRetryCount string string string
  | RemovePendingByMessageId int
  | ImportState "string list"

fun registry_apply :: "registry_call \<Rightarrow> registry \<Rightarrow> registry" where
  "registry_apply (Register s n rnd now) r = snd (register s n rnd now r)"
| "registry_apply (Unregister s) r = unregister s r"
| "registry_apply (EnableAfk s) r = enableAfk s r"
| "registry_apply (DisableAfk s) r = disableAfk s r"
| "registry_apply (AddPendingRequest s p) r = addPendingRequest s p r"
| "registry_apply (IncrementRetryCount s t c) r = incrementRetryCount s t c r"
| "registry_apply (RemovePendingByMessageId m) r = removePendingByMessageId m r"
| "registry_apply (ImportState a) r = importState a r"

definition registry_run :: "registry_call list \<Rightarrow> registry \<Rightarrow> registry" where
  "registry_run calls r = fold registry_apply calls r"

text \<open>\<open>exportState().pendingRequests\<close>: an object keyed by session id, one entry per
  session (a later pending of the same session overwrites the earlier one).\<close>

definition exportState_pendingRequests :: "registry \<Rightarrow> (string \<times> reg_pending) list" where
  "exportState_pendingRequests r =
     fold (\<lambda>(messageId, pending) acc. AList.update (rp_sessionId pending) pending acc)
       (pendingByMessageId r) []"

section \<open>Remote-chat adapter (telegram.js)\<close>

text \<open>A thrown JavaScript error, with its message.\<close>

datatype js_error = Error string | TypeError string | ReferenceError string

fun error_message :: "js_error \<Rightarrow> string" where
  "error_message (Error m) = m"
| "error_message (TypeError m) = m"
| "error_message (ReferenceError m) = m"

text \<open>The fields of an update that the daemon reads. An absent field is \<open>None\<close>.\<close>

record tg_message =
  m_chat_id :: "int option"
  m_text :: "string option"
  m_reply_to :: "int option"
  m_date :: "int option"

record update =
  update_id :: int
  u_message :: "tg_message option"

record telegram_opts =
  botToken :: bool
  staleThreshold :: int

definition isConfigured :: "telegram_opts \<Rightarrow> bool" where
  "isConfigured opts = botToken opts"

text \<open>The filter of \<open>getUpdates\<close>. \<open>nowMs\<close> is \<open>Date.now()\<close>, in milliseconds; \<open>now\<close> and
  \<open>age\<close> are computed in exact arithmetic. \<open>!update.message.date\<close> holds for an absent
  date and for the number 0.\<close>

definition keep_update :: "telegram_opts \<Rightarrow> int \<Rightarrow> update \<Rightarrow> bool" where
  "keep_update opts nowMs u =
     (case u_message u of
        None \<Rightarrow> True
      | Some m \<Rightarrow>
          (case m_date m of
             None \<Rightarrow> True
           | Some d \<Rightarrow>
               if d = 0 then True
               else (let now = real_of_int nowMs / 1000;
                         age = now - real_of_int d
                     in age \<le> real_of_int (staleThreshold opts))))"

text \<open>\<open>getUpdates\<close>: the outcome of \<open>apiRequest('getUpdates', params)\<close> is an input, either
  the error it throws or the array of updates it returns.\<close>

definition getUpdates ::
  "telegram_opts \<Rightarrow> int \<Rightarrow> js_error + update list \<Rightarrow> js_error + update list" where
  "getUpdates opts nowMs api =
     (if \<not> botToken opts then Inr []
      else case api of
             Inl err \<Rightarrow> Inl err
           | Inr updates \<Rightarrow> Inr (filter (keep_update opts nowMs) updates))"

section \<open>Transcript probe (transcript.js)\<close>

text \<open>A transcript after \<open>content.split('\n').filter(line => line.trim())\<close>: one value per
  non-empty line. \<open>Malformed\<close> is a line on which \<open>JSON.parse\<close> or a property access
  throws; otherwise the line has a \<open>type\<close> and the value of \<open>message?.content\<close>.\<close>

datatype block = ToolResult "string option" bool | OtherBlock | NullBlock

datatype content = NoContent | TextContent string | Blocks "block list"

datatype line = Malformed | Entry "string option" content

record probe_result =
  found :: bool
  isError :: bool
  offset :: nat

text \<open>The loop over the blocks of an array content: the first \<open>tool_result\<close> block with
  the wanted \<open>tool_use_id\<close>, as \<open>Some (is_error === true)\<close>. Reading \<open>block.type\<close> of a
  \<open>null\<close> block throws; the \<open>catch\<close> of the line then skips the rest of the line.\<close>

fun first_tool_result :: "string option \<Rightarrow> block list \<Rightarrow> bool option" where
  "first_tool_result toolUseId [] = None"
| "first_tool_result toolUseId (NullBlock # bs) = None"
| "first_tool_result toolUseId (OtherBlock # bs) = first_tool_result toolUseId bs"
| "first_tool_result toolUseId (ToolResult i e # bs) =
     (if i = toolUseId then Some e else first_tool_result toolUseId bs)"

text \<open>One line: it must be a user entry whose \<open>message.content\<close> is an array.\<close>

fun line_tool_result :: "string option \<Rightarrow> line \<Rightarrow> bool option" where
  "line_tool_result toolUseId (Entry ty (Blocks bs)) =
     (if ty = Some ''user'' then first_tool_result toolUseId bs else None)"
| "line_tool_result toolUseId l = None"

text \<open>The loop \<open>for (let i = afterOffset; i < lines.length; i++)\<close> of \<open>findToolResult\<close>, on
  the lines from index \<open>i\<close> on.\<close>

fun scan_tool_result :: "string option \<Rightarrow> nat \<Rightarrow> line list \<Rightarrow> probe_result" where
  "scan_tool_result toolUseId i [] = \<lparr>found = False, isError = False, offset = i\<rparr>"
| "scan_tool_result toolUseId i (l # ls) =
     (case line_tool_result toolUseId l of
        Some e \<Rightarrow> \<lparr>found = True, isError = e, offset = i + 1\<rparr>
      | None \<Rightarrow> scan_tool_result toolUseId (i + 1) ls)"

text \<open>The file system is an input: \<open>files path\<close> is the transcript at \<open>path\<close>, or \<open>None\<close>
  when reading it throws. After a scan that starts beyond the end, the loop does not run
  and the offset returned is \<open>lines.length\<close>.\<close>

definition findToolResult ::
  "(string \<Rightarrow> line list option) \<Rightarrow> string option \<Rightarrow> string option \<Rightarrow> nat \<Rightarrow> probe_result option" where
  "findToolResult files transcriptPath toolUseId afterOffset =
     (case transcriptPath of
        None \<Rightarrow> None
      | Some path \<Rightarrow>
          (case files path of
             None \<Rightarrow> None
           | Some lines \<Rightarrow>
               if afterOffset < length lines
               then Some (scan_tool_result toolUseId afterOffset (drop afterOffset lines))
               else Some \<lparr>found = False, isError = False, offset = length lines\<rparr>))"

fun line_user_text :: "line \<Rightarrow> bool" where
  "line_user_text (Entry ty (TextContent s)) = (ty = Some ''user'' \<and> s \<noteq> [] \<and> trim s \<noteq> [])"
| "line_user_text l = False"

fun scan_user_message :: "nat \<Rightarrow> line list \<Rightarrow> probe_result" where
  "scan_user_message i [] = \<lparr>found = False, isError = False, offset = i\<rparr>"
| "scan_user_message i (l # ls) =
     (if line_user_text l then \<lparr>found = True, isError = False, offset = i + 1\<rparr>
      else scan_user_message (i + 1) ls)"

definition findUserMessage ::
  "(string \<Rightarrow> line list option) \<Rightarrow> string option \<Rightarrow> nat \<Rightarrow> probe_result option" where
  "findUserMessage files transcriptPath afterOffset =
     (case transcriptPath of
        None \<Rightarrow> None
      | Some path \<Rightarrow>
          (case files path of
             None \<Rightarrow> None
           | Some lines \<Rightarrow>
               if afterOffset < length lines
               then Some (scan_user_message afterOffset (drop afterOffset lines))
               else Some \<lparr>found = False, isError = False, offset = length lines\<rparr>))"

section \<open>The daemon (index.js): data\<close>

text \<open>A message id as a JavaScript value. The chat service returns numbers; the keys of
  \<open>state.pendingRequests\<close> and the elements of \<open>state.requestsBySession\<close> are the strings
  made by \<open>String(message_id)\<close>. A \<open>Map\<close> compares its keys without conversion, so the
  number 42 and the string "42" are different keys of \<open>waitingSockets\<close>.\<close>

datatype js_value = Num int | Str string | NaN

fun js_String :: "js_value \<Rightarrow> string" where
  "js_String (Num n) = string_of_int n"
| "js_String (Str s) = s"
| "js_String NaN = ''NaN''"

text \<open>\<open>Number(s)\<close> on a property key: a canonical decimal integer gives its value, every
  other string is sent to \<open>NaN\<close> here (the daemon only makes keys with \<open>String(message_id)\<close>).\<close>

definition is_digit :: "char \<Rightarrow> bool" where
  "is_digit c = (48 \<le> code_unit c \<and> code_unit c \<le> 57)"

definition nat_of_digits :: "string \<Rightarrow> nat" where
  "nat_of_digits ds = foldl (\<lambda>acc c. 10 * acc + (code_unit c - 48)) 0 ds"

definition js_Number :: "string \<Rightarrow> js_value" where
  "js_Number s =
     (case s of
        [] \<Rightarrow> NaN
      | c # cs \<Rightarrow>
          if c = CHR ''-'' \<and> cs \<noteq> [] \<and> list_all is_digit cs
               \<and> string_of_int (- int (nat_of_digits cs)) = s
          then Num (- int (nat_of_digits cs))
          else if list_all is_digit s \<and> string_of_nat (nat_of_digits s) = s
          then Num (int (nat_of_digits s))
          else NaN)"

text \<open>\<open>haystack.includes(needle)\<close>.\<close>

fun str_includes :: "string \<Rightarrow> string \<Rightarrow> bool" where
  "str_includes [] needle = (needle = [])"
| "str_includes (c # cs) needle = (startsWith (c # cs) needle \<or> str_includes cs needle)"

datatype request_type = Permission | Stop

text \<open>An entry of \<open>state.pendingRequests\<close> is an object; every property may be absent
  (\<open>None\<close> is \<open>undefined\<close>). The daemon's permission path sets all of them but
  \<open>messageId\<close>; the stop path sets neither \<open>tool\<close>, \<open>command\<close>, \<open>tool_use_id\<close> nor
  \<open>retryCount\<close>; an entry exported by the registry has \<open>messageId\<close>, \<open>tool\<close>, \<open>command\<close>,
  \<open>retryCount\<close> and \<open>firstRequestAt\<close> only.\<close>

record pending =
  sessionId :: "string option"
  tool :: "string option"
  command :: "string option"
  tool_use_id :: "string option"
  requestType :: "request_type option"
  transcriptPath :: "string option"
  projectDir :: "string option"
  terminalId :: "string option"
  lastCheckedOffset :: "nat option"
  firstRequestAt :: "nat option"
  requestId :: "string option"
  retryCount :: "nat option"
  socketAlive :: "bool option"
  messageId :: "int option"

definition exported_entry :: "reg_pending \<Rightarrow> pending" where
  "exported_entry p =
     \<lparr>sessionId = None, tool = Some (rp_tool p), command = Some (rp_command p),
      tool_use_id = None, requestType = None, transcriptPath = None, projectDir = None,
      terminalId = None, lastCheckedOffset = None, firstRequestAt = Some (rp_firstRequestAt p),
      requestId = None, retryCount = Some (rp_retryCount p), socketAlive = None,
      messageId = Some (rp_messageId p)\<rparr>"

text \<open>A property key made from a value that may be \<open>undefined\<close>.\<close>

fun prop_key :: "string option \<Rightarrow> string" where
  "prop_key None = ''undefined''"
| "prop_key (Some s) = s"

text \<open>A parked reply: the value stored in \<open>waitingSockets\<close>. The \<open>respond\<close> closure writes
  one frame to the socket the request came from, which is \<open>w_socket\<close>; sockets and timers
  are identified by numbers.\<close>

record waiting =
  w_socket :: nat
  w_requestId :: string
  w_sessionId :: string
  w_type :: request_type
  w_toolName :: "string option"
  w_allowBulkApproval :: bool
  w_timeout :: nat

text \<open>An armed timer: the variables its callback closes over.\<close>

record timer =
  t_type :: request_type
  t_messageId :: int
  t_socket :: nat
  t_sessionId :: string
  t_requestId :: string

record config =
  alwaysEnabled :: bool
  maxRetries :: nat
  permissionTimeout :: nat
  stopFollowupTimeout :: nat
  allowSinglePendingFallback :: bool
  bulkApprovalTools :: "string list option"
  telegram :: telegram_opts

definition DEFAULT_CONFIG :: "bool \<Rightarrow> config" where
  "DEFAULT_CONFIG hasToken =
     \<lparr>alwaysEnabled = False, maxRetries = 3, permissionTimeout = 3600,
      stopFollowupTimeout = 3600, allowSinglePendingFallback = True,
      bulkApprovalTools = Some [''Edit'', ''Write''],
      telegram = \<lparr>botToken = hasToken, staleThreshold = 300\<rparr>\<rparr>"

text \<open>What \<open>saveState(state)\<close> writes: the \<open>state\<close> object.\<close>

record persisted =
  s_chatId :: "int option"
  s_afkSessions :: "string list"
  s_pendingRequests :: "(string \<times> pending) list"
  s_requestsBySession :: "(string \<times> string list) list"
  s_sessionWhitelists :: "(string \<times> string list) list"

text \<open>The daemon: the \<open>state\<close> object and the variables of \<open>createDaemon\<close>. An object
  with string keys is an association list in insertion order (\<open>obj[k] = v\<close> is
  \<open>AList.update\<close>, \<open>delete obj[k]\<close> is \<open>AList.delete\<close>, \<open>obj[k]\<close> is \<open>map_of\<close>), and so is
  a \<open>Map\<close>. \<open>destroyed\<close> lists the sockets whose \<open>destroyed\<close> flag is set.\<close>

record daemon =
  chatId :: "int option"
  afkSessions :: "string list"
  pendingRequests :: "(string \<times> pending) list"
  requestsBySession :: "(string \<times> string list) list"
  sessionWhitelists :: "(string \<times> string list) list"
  reg :: registry
  waitingSockets :: "(js_value \<times> waiting) list"
  socketToMessageIds :: "(nat \<times> js_value list) list"
  timers :: "(nat \<times> timer) list"
  nextTimer :: nat
  destroyed :: "nat list"
  telegramOffset :: int
  consecutiveConflictErrors :: nat
  isPolling :: bool
  isPollingTranscripts :: bool

definition the_state :: "daemon \<Rightarrow> persisted" where
  "the_state d =
     \<lparr>s_chatId = chatId d, s_afkSessions = afkSessions d,
      s_pendingRequests = pendingRequests d, s_requestsBySession = requestsBySession d,
      s_sessionWhitelists = sessionWhitelists d\<rparr>"

datatype decision = Approved | Denied | ApprovedAll

datatype resolution = ResolvedApproved | ResolvedDenied | SocketClosedResolution | LocalFollowup

text \<open>The reply frames written to a hook, by \<open>status\<close>; the first argument is the echoed
  \<open>request_id\<close>.\<close>

datatype frame =
    NotEnabled string
  | NotConfigured string "string option"
  | BulkApproved string
  | TimeoutFinal string
  | TimeoutRetry string
  | ErrorFrame string string
  | VerdictFrame string decision
  | Continue string string
  | StopFrame string
  | ResolvedLocally string resolution
  | Enabled string
  | Disabled string
  | StatusResponse string
  | UnknownType string string

text \<open>The texts sent to the chat. The fixed texts are named; a notification carries the
  text composed for it.\<close>

datatype chat_text =
    Notification string
  | PairedConfirmation
  | AlreadyHandledLocally
  | UnableToDeliver
  | SessionEnded
  | DaemonRestarted "string option" "string option"
  | ConflictNotice
  | ReplyYesNo
  | ReplyYesNoAll
  | BulkConfirmation string
  | ResponseRecordedInactive
  | PleaseReplyDirectly
  | ExpiredOrHandled

text \<open>What a handler does to the outside, in order. A message to the chat is recorded as
  sent; the handlers that use the outcome of a send (the two request handlers) take it
  as an input, and for the others a failed send is either swallowed by a \<open>catch\<close> or
  outside what is stated here. A rejection that nothing handles is recorded too.\<close>

datatype effect =
    Respond nat frame
  | SendMessage "int option" chat_text
  | DeleteMessage "int option" js_value
  | SaveState persisted
  | SetTimeout nat nat
  | ClearTimeout nat
  | ConsoleError string
  | ConsoleLog string
  | UnhandledRejection js_error
  | ProcessExit int

section \<open>The daemon: module-level functions\<close>

definition escapeMarkdown :: "string \<Rightarrow> string" where
  "escapeMarkdown t =
     concat (map (\<lambda>c. if c \<in> {CHR ''_'', CHR ''*'', CHR 0x60, CHR ''[''}
                        then [CHR 0x5C, c] else [c]) t)"

definition formatPermissionNotification ::
  "string \<Rightarrow> string option \<Rightarrow> string \<Rightarrow> string \<Rightarrow> string \<Rightarrow> bool \<Rightarrow> string" where
  "formatPermissionNotification tok claudeContext toolName msg slug allowBulkApproval =
     ''['' @ escapeMarkdown slug @ ''] #'' @ tok @ [CHR 0x0A, CHR 0x0A]
     @ (case claudeContext of
          None \<Rightarrow> []
        | Some c \<Rightarrow> if c = [] then [] else escapeMarkdown c @ [CHR 0x0A, CHR 0x0A])
     @ ''*Permission:* '' @ escapeMarkdown toolName @ [CHR 0x0A]
     @ escapeMarkdown msg @ [CHR 0x0A, CHR 0x0A]
     @ (if allowBulkApproval then ''Reply: yes / no / all'' else ''Reply: yes / no'')"

definition formatStopNotification :: "string \<Rightarrow> string option \<Rightarrow> string \<Rightarrow> string" where
  "formatStopNotification tok claudeContext slug =
     ''['' @ slug @ ''] #'' @ tok @ [CHR 0x0A, CHR 0x0A]
     @ (case claudeContext of
          None \<Rightarrow> []
        | Some c \<Rightarrow> if c = [] then [] else c @ [CHR 0x0A, CHR 0x0A])
     @ ''Task complete. Reply with follow-up instructions or ignore to stop.''"

definition parsePermissionResponse :: "string \<Rightarrow> bool \<Rightarrow> decision option" where
  "parsePermissionResponse txt allowBulkApproval =
     (let normalized = toLowerCase (trim txt)
      in if normalized = ''yes'' \<or> normalized = ''y'' then Some Approved
         else if normalized = ''no'' \<or> normalized = ''n'' then Some Denied
         else if allowBulkApproval
                 \<and> (normalized = ''all'' \<or> normalized = ''yes all''
                      \<or> normalized = ''y all'' \<or> normalized = ''always'')
         then Some ApprovedAll
         else None)"

text \<open>The loop of \<open>findExistingPendingRequest\<close> over the message ids of the session.\<close>

fun find_request ::
  "(string \<times> pending) list \<Rightarrow> string option \<Rightarrow> string option \<Rightarrow> string list
   \<Rightarrow> (pending \<times> string) option" where
  "find_request prs toolName cmd [] = None"
| "find_request prs toolName cmd (msgId # rest) =
     (case map_of prs msgId of
        Some req \<Rightarrow>
          if tool req = toolName \<and> command req = cmd then Some (req, msgId)
          else find_request prs toolName cmd rest
      | None \<Rightarrow> find_request prs toolName cmd rest)"

definition findExistingPendingRequest ::
  "daemon \<Rightarrow> string \<Rightarrow> string option \<Rightarrow> string option \<Rightarrow> (pending \<times> string) option" where
  "findExistingPendingRequest d sid toolName cmd =
     (let sessionRequests = (case map_of (requestsBySession d) sid of Some xs \<Rightarrow> xs | None \<Rightarrow> [])
      in find_request (pendingRequests d) toolName cmd sessionRequests)"

text \<open>\<open>indexOf\<close> followed by \<open>splice(idx, 1)\<close> removes the first occurrence: \<open>remove1\<close>.\<close>

definition removeFromDualIndex :: "daemon \<Rightarrow> js_value \<Rightarrow> string \<Rightarrow> daemon" where
  "removeFromDualIndex d mid sid =
     (let msgIdStr = js_String mid;
          d1 = d\<lparr>pendingRequests := AList.delete msgIdStr (pendingRequests d)\<rparr>
      in case map_of (requestsBySession d1) sid of
           None \<Rightarrow> d1
         | Some sessionRequests \<Rightarrow>
             (let spliced = remove1 msgIdStr sessionRequests
              in if length spliced = 0
                 then d1\<lparr>requestsBySession := AList.delete sid (requestsBySession d1)\<rparr>
                 else d1\<lparr>requestsBySession := AList.update sid spliced (requestsBySession d1)\<rparr>))"

definition isMaxRetriesExceeded :: "nat \<Rightarrow> nat \<Rightarrow> bool" where
  "isMaxRetriesExceeded count limit = (count \<ge> limit)"

definition checkRequestExists :: "daemon \<Rightarrow> js_value \<Rightarrow> pending option" where
  "checkRequestExists d mid = map_of (pendingRequests d) (js_String mid)"

section \<open>The daemon: request handlers\<close>

text \<open>Truthiness of a value that may be absent: a string is truthy unless empty, a
  number unless 0.\<close>

fun truthy_str :: "string option \<Rightarrow> bool" where
  "truthy_str None = False"
| "truthy_str (Some s) = (s \<noteq> [])"

fun truthy_num :: "int option \<Rightarrow> bool" where
  "truthy_num None = False"
| "truthy_num (Some n) = (n \<noteq> 0)"

text \<open>A request frame from a hook, with the fields the handlers destructure.\<close>

record ipc_msg =
  msg_type :: string
  request_id :: string
  session_id :: string
  terminal_id :: "string option"
  tool_name :: string
  message :: "string option"
  transcript_path :: "string option"
  cwd :: "string option"

text \<open>The results of what a request handler awaits or asks of the platform, as inputs:
  the transcript reads, the outcome of \<open>telegram.sendMessage\<close> (the error thrown or the
  \<open>message_id\<close> of the result), the random bytes, the clock, and \<open>path.basename\<close>.
  \<open>lastToolUse\<close> is the \<open>id\<close> of the tool use and \<open>formatToolInput\<close> of it.\<close>

record io =
  lastClaudeMessage :: "string option"
  lastUserMessage :: "string option"
  lastToolUse :: "(string option \<times> string) option"
  sendResult :: "js_error + int"
  lineCount :: nat
  randomBytes :: "8 word \<times> 8 word"
  clock :: nat
  path_basename :: "string \<Rightarrow> string"

definition trackWaitingSocket :: "js_value \<Rightarrow> nat \<Rightarrow> waiting \<Rightarrow> daemon \<Rightarrow> daemon" where
  "trackWaitingSocket mid sock waitingData d =
     (let ids = (case map_of (socketToMessageIds d) sock of None \<Rightarrow> [] | Some xs \<Rightarrow> xs)
      in d\<lparr>waitingSockets := AList.update mid (waitingData\<lparr>w_socket := sock\<rparr>) (waitingSockets d),
            socketToMessageIds :=
              AList.update sock (if mid \<in> set ids then ids else ids @ [mid]) (socketToMessageIds d)\<rparr>)"

text \<open>\<open>socketToMessageIds.get(socket)\<close>, and if it is there, \<open>.delete(messageId)\<close> on it.\<close>

definition untrack_message :: "nat \<Rightarrow> js_value \<Rightarrow> daemon \<Rightarrow> daemon" where
  "untrack_message sock mid d =
     (case map_of (socketToMessageIds d) sock of
        None \<Rightarrow> d
      | Some ids \<Rightarrow>
          d\<lparr>socketToMessageIds := AList.update sock (removeAll mid ids) (socketToMessageIds d)\<rparr>)"

definition isToolWhitelisted :: "daemon \<Rightarrow> string \<Rightarrow> string \<Rightarrow> bool" where
  "isToolWhitelisted d sid toolName =
     (case map_of (sessionWhitelists d) sid of
        None \<Rightarrow> False
      | Some whitelist \<Rightarrow> toolName \<in> set whitelist)"

definition addToWhitelist :: "string \<Rightarrow> string \<Rightarrow> daemon \<Rightarrow> daemon \<times> effect list" where
  "addToWhitelist sid toolName d =
     (let whitelist = (case map_of (sessionWhitelists d) sid of None \<Rightarrow> [] | Some xs \<Rightarrow> xs);
          d1 = d\<lparr>sessionWhitelists := AList.update sid whitelist (sessionWhitelists d)\<rparr>
      in if toolName \<in> set whitelist then (d1, [])
         else (let d2 = d1\<lparr>sessionWhitelists :=
                              AList.update sid (whitelist @ [toolName]) (sessionWhitelists d1)\<rparr>
               in (d2, [SaveState (the_state d2)])))"

definition clearWhitelist :: "string \<Rightarrow> daemon \<Rightarrow> daemon \<times> effect list" where
  "clearWhitelist sid d =
     (case map_of (sessionWhitelists d) sid of
        None \<Rightarrow> (d, [])
      | Some whitelist \<Rightarrow>
          (let d1 = d\<lparr>sessionWhitelists := AList.delete sid (sessionWhitelists d)\<rparr>
           in (d1, [SaveState (the_state d1)])))"

definition isBulkApprovalAllowed :: "config \<Rightarrow> string option \<Rightarrow> bool" where
  "isBulkApprovalAllowed cfg toolName =
     (case bulkApprovalTools cfg of
        None \<Rightarrow> False
      | Some tools \<Rightarrow> (case toolName of None \<Rightarrow> False | Some t \<Rightarrow> t \<in> set tools))"

text \<open>\<open>path.basename(cwd || '.') || 'project'\<close>.\<close>

definition project_slug :: "io \<Rightarrow> string option \<Rightarrow> string" where
  "project_slug env dir =
     (let b = path_basename env (if truthy_str dir then the dir else ''.'')
      in if b = [] then ''project'' else b)"

text \<open>The second half of \<open>handlePermissionRequest\<close>, from the transcript reads on.
  \<open>carried\<close> is \<open>existing?.request.retryCount\<close>.\<close>

definition notify_permission ::
  "config \<Rightarrow> io \<Rightarrow> ipc_msg \<Rightarrow> nat \<Rightarrow> nat option \<Rightarrow> daemon \<Rightarrow> daemon \<times> effect list" where
  "notify_permission cfg env msg sock carried d =
     (let claudeContext =
            (if truthy_str (lastClaudeMessage env) then lastClaudeMessage env
             else if truthy_str (lastUserMessage env)
             then Some (''User: '' @ the (lastUserMessage env))
             else lastClaudeMessage env);
          actualCommand =
            (case lastToolUse env of
               Some (tid, formatted) \<Rightarrow> formatted
             | None \<Rightarrow> if truthy_str (message msg) then the (message msg) else ''(unknown)'');
          slug = project_slug env (cwd msg);
          registered = register (session_id msg) slug (randomBytes env) (clock env) (reg d);
          tok = fst registered;
          d1 = d\<lparr>reg := snd registered\<rparr>;
          allowBulkApproval = isBulkApprovalAllowed cfg (Some (tool_name msg))
      in case sendResult env of
           Inl err \<Rightarrow>
             (d1, [Respond sock (ErrorFrame (request_id msg)
                                   (''Failed to send notification: '' @ error_message err))])
         | Inr message_id \<Rightarrow>
             (let notificationText =
                    formatPermissionNotification tok claudeContext (tool_name msg) actualCommand
                      slug allowBulkApproval;
                  msgIdStr = js_String (Num message_id);
                  entry =
                    \<lparr>sessionId = Some (session_id msg), tool = Some (tool_name msg),
                     command = message msg,
                     tool_use_id = (case lastToolUse env of None \<Rightarrow> None | Some (tid, f) \<Rightarrow> tid),
                     requestType = Some Permission, transcriptPath = transcript_path msg,
                     projectDir = cwd msg, terminalId = terminal_id msg,
                     lastCheckedOffset = Some 0, firstRequestAt = Some (clock env),
                     requestId = Some (request_id msg),
                     retryCount = Some (case carried of None \<Rightarrow> 0 | Some n \<Rightarrow> n),
                     socketAlive = Some True, messageId = None\<rparr>;
                  d2 = d1\<lparr>pendingRequests := AList.update msgIdStr entry (pendingRequests d1)\<rparr>;
                  ids = (case map_of (requestsBySession d2) (session_id msg) of
                           None \<Rightarrow> [] | Some xs \<Rightarrow> xs);
                  d3 = d2\<lparr>requestsBySession :=
                             AList.update (session_id msg) (ids @ [msgIdStr]) (requestsBySession d2)\<rparr>;
                  permissionTimeoutId = nextTimer d3;
                  d4 = d3\<lparr>timers :=
                             AList.update permissionTimeoutId
                               \<lparr>t_type = Permission, t_messageId = message_id, t_socket = sock,
                                t_sessionId = session_id msg, t_requestId = request_id msg\<rparr>
                               (timers d3),
                           nextTimer := permissionTimeoutId + 1\<rparr>;
                  d5 = trackWaitingSocket (Num message_id) sock
                         \<lparr>w_socket = sock, w_requestId = request_id msg,
                          w_sessionId = session_id msg, w_type = Permission,
                          w_toolName = Some (tool_name msg),
                          w_allowBulkApproval = allowBulkApproval,
                          w_timeout = permissionTimeoutId\<rparr> d4
              in (d5, [SendMessage (chatId d) (Notification notificationText),
                       SetTimeout permissionTimeoutId (permissionTimeout cfg * 1000),
                       SaveState (the_state d5)])))"

definition handlePermissionRequest ::
  "config \<Rightarrow> io \<Rightarrow> ipc_msg \<Rightarrow> nat \<Rightarrow> daemon \<Rightarrow> daemon \<times> effect list" where
  "handlePermissionRequest cfg env msg sock d =
     (if \<not> alwaysEnabled cfg \<and> \<not> isAfkEnabled (reg d) (session_id msg)
      then (d, [Respond sock (NotEnabled (request_id msg))])
      else if \<not> isConfigured (telegram cfg)
      then (d, [Respond sock (NotConfigured (request_id msg)
                                (Some ''Telegram bot not configured. Run /claude-afk:setup''))])
      else if \<not> truthy_num (chatId d)
      then (d, [Respond sock (NotConfigured (request_id msg)
                                (Some ''No chat ID configured. Send /start to your Telegram bot''))])
      else if isToolWhitelisted d (session_id msg) (tool_name msg)
      then (d, [Respond sock (BulkApproved (request_id msg))])
      else
        (case findExistingPendingRequest d (session_id msg) (Some (tool_name msg)) (message msg) of
           None \<Rightarrow> notify_permission cfg env msg sock None d
         | Some (request, existingId) \<Rightarrow>
             (let count = (case retryCount request of None \<Rightarrow> 0 | Some n \<Rightarrow> n) + 1;
                  d1 = d\<lparr>pendingRequests :=
                            AList.update existingId (request\<lparr>retryCount := Some count\<rparr>)
                              (pendingRequests d)\<rparr>
              in if isMaxRetriesExceeded count (maxRetries cfg)
                 then (let d2 = removeFromDualIndex d1 (Str existingId) (session_id msg)
                       in (d2,
                           (if truthy_num (chatId d2) \<and> existingId \<noteq> []
                            then [DeleteMessage (chatId d2) (Str existingId)] else [])
                           @ [SaveState (the_state d2),
                              Respond sock (TimeoutFinal (request_id msg))]))
                 else notify_permission cfg env msg sock (Some count) d1)))"

definition handleStopRequest ::
  "config \<Rightarrow> io \<Rightarrow> ipc_msg \<Rightarrow> nat \<Rightarrow> daemon \<Rightarrow> daemon \<times> effect list" where
  "handleStopRequest cfg env msg sock d =
     (if \<not> alwaysEnabled cfg \<and> \<not> isAfkEnabled (reg d) (session_id msg)
      then (d, [Respond sock (NotEnabled (request_id msg))])
      else if \<not> isConfigured (telegram cfg) \<or> \<not> truthy_num (chatId d)
      then (d, [Respond sock (NotConfigured (request_id msg) None)])
      else
        (let slug = project_slug env (cwd msg);
             registered = register (session_id msg) slug (randomBytes env) (clock env) (reg d);
             tok = fst registered;
             d1 = d\<lparr>reg := snd registered\<rparr>
         in case sendResult env of
              Inl err \<Rightarrow>
                (d1, [Respond sock (ErrorFrame (request_id msg)
                                      (''Failed to send notification: '' @ error_message err))])
            | Inr message_id \<Rightarrow>
                (let notificationText = formatStopNotification tok (lastClaudeMessage env) slug;
                     msgIdStr = js_String (Num message_id);
                     entry =
                       \<lparr>sessionId = Some (session_id msg), tool = None, command = None,
                        tool_use_id = None, requestType = Some Stop,
                        transcriptPath = transcript_path msg, projectDir = cwd msg,
                        terminalId = terminal_id msg, lastCheckedOffset = Some (lineCount env),
                        firstRequestAt = Some (clock env), requestId = Some (request_id msg),
                        retryCount = None, socketAlive = Some True, messageId = None\<rparr>;
                     d2 = d1\<lparr>pendingRequests := AList.update msgIdStr entry (pendingRequests d1)\<rparr>;
                     ids = (case map_of (requestsBySession d2) (session_id msg) of
                              None \<Rightarrow> [] | Some xs \<Rightarrow> xs);
                     d3 = d2\<lparr>requestsBySession :=
                                AList.update (session_id msg) (ids @ [msgIdStr])
                                  (requestsBySession d2)\<rparr>;
                     stopTimeoutId = nextTimer d3;
                     d4 = d3\<lparr>timers :=
                                AList.update stopTimeoutId
                                  \<lparr>t_type = Stop, t_messageId = message_id, t_socket = sock,
                                   t_sessionId = session_id msg, t_requestId = request_id msg\<rparr>
                                  (timers d3),
                              nextTimer := stopTimeoutId + 1\<rparr>;
                     d5 = trackWaitingSocket (Num message_id) sock
                            \<lparr>w_socket = sock, w_requestId = request_id msg,
                             w_sessionId = session_id msg, w_type = Stop, w_toolName = None,
                             w_allowBulkApproval = False, w_timeout = stopTimeoutId\<rparr> d4
                 in (d5, [SendMessage (chatId d) (Notification notificationText),
                          SaveState (the_state d3),
                          SetTimeout stopTimeoutId (stopFollowupTimeout cfg * 1000)]))))"

definition handleEnableAfk :: "ipc_msg \<Rightarrow> nat \<Rightarrow> daemon \<Rightarrow> daemon \<times> effect list" where
  "handleEnableAfk msg sock d =
     (let r = enableAfk (session_id msg) (reg d);
          d1 = d\<lparr>reg := r, afkSessions := getAfkEnabledSessions r\<rparr>
      in (d1, [SaveState (the_state d1), Respond sock (Enabled (request_id msg))]))"

definition handleDisableAfk :: "ipc_msg \<Rightarrow> nat \<Rightarrow> daemon \<Rightarrow> daemon \<times> effect list" where
  "handleDisableAfk msg sock d =
     (let r = disableAfk (session_id msg) (reg d);
          cleared = clearWhitelist (session_id msg) (d\<lparr>reg := r\<rparr>);
          d1 = (fst cleared)\<lparr>afkSessions := getAfkEnabledSessions r\<rparr>
      in (d1, snd cleared @ [SaveState (the_state d1), Respond sock (Disabled (request_id msg))]))"

definition handleStatus :: "ipc_msg \<Rightarrow> nat \<Rightarrow> daemon \<Rightarrow> daemon \<times> effect list" where
  "handleStatus msg sock d = (d, [Respond sock (StatusResponse (request_id msg))])"

definition handleRequest ::
  "config \<Rightarrow> io \<Rightarrow> ipc_msg \<Rightarrow> nat \<Rightarrow> daemon \<Rightarrow> daemon \<times> effect list" where
  "handleRequest cfg env msg sock d =
     (if msg_type msg = ''permission_request'' then handlePermissionRequest cfg env msg sock d
      else if msg_type msg = ''stop_request'' then handleStopRequest cfg env msg sock d
      else if msg_type msg = ''enable_afk'' then handleEnableAfk msg sock d
      else if msg_type msg = ''disable_afk'' then handleDisableAfk msg sock d
      else if msg_type msg = ''status'' then handleStatus msg sock d
      else (d, [Respond sock (UnknownType (request_id msg) (msg_type msg))]))"

subsection \<open>Timers and socket close\<close>

text \<open>The callback of the permission timeout. It closes over the \<open>message_id\<close>, the socket,
  the session id and the request id of its request.\<close>

definition permissionTimeoutFired :: "timer \<Rightarrow> daemon \<Rightarrow> daemon \<times> effect list" where
  "permissionTimeoutFired t d =
     (case map_of (waitingSockets d) (Num (t_messageId t)) of
        None \<Rightarrow> (d, [])
      | Some parked \<Rightarrow>
          (let d1 = d\<lparr>waitingSockets := AList.delete (Num (t_messageId t)) (waitingSockets d)\<rparr>;
               d2 = untrack_message (t_socket t) (Num (t_messageId t)) d1;
               d3 = removeFromDualIndex d2 (Num (t_messageId t)) (t_sessionId t)
           in (d3,
               (if truthy_num (chatId d3) then [DeleteMessage (chatId d3) (Num (t_messageId t))]
                else [])
               @ [SaveState (the_state d3)]
               @ (if w_socket parked \<notin> set (destroyed d3)
                  then [Respond (w_socket parked) (TimeoutRetry (t_requestId t))] else []))))"

definition stopTimeoutFired :: "timer \<Rightarrow> daemon \<Rightarrow> daemon \<times> effect list" where
  "stopTimeoutFired t d =
     (case map_of (waitingSockets d) (Num (t_messageId t)) of
        None \<Rightarrow> (d, [])
      | Some parked \<Rightarrow>
          (let d1 = d\<lparr>waitingSockets := AList.delete (Num (t_messageId t)) (waitingSockets d)\<rparr>;
               d2 = untrack_message (t_socket t) (Num (t_messageId t)) d1
           in (d2,
               (if truthy_num (chatId d2) then [DeleteMessage (chatId d2) (Num (t_messageId t))]
                else [])
               @ [Respond (t_socket t) (StopFrame (t_requestId t))])))"

text \<open>A timer fires if it is armed, and is then gone.\<close>

definition timerFired :: "nat \<Rightarrow> daemon \<Rightarrow> daemon \<times> effect list" where
  "timerFired tid d =
     (case map_of (timers d) tid of
        None \<Rightarrow> (d, [])
      | Some t \<Rightarrow>
          (let d1 = d\<lparr>timers := AList.delete tid (timers d)\<rparr>
           in case t_type t of
                Permission \<Rightarrow> permissionTimeoutFired t d1
              | Stop \<Rightarrow> stopTimeoutFired t d1))"

text \<open>\<open>clearTimeout\<close>.\<close>

definition clearTimeout :: "nat \<Rightarrow> daemon \<Rightarrow> daemon" where
  "clearTimeout tid d = d\<lparr>timers := AList.delete tid (timers d)\<rparr>"

text \<open>The body of the loop of \<open>handleSocketDisconnect\<close>, for one message id of the socket.\<close>

definition disconnect_message :: "js_value \<Rightarrow> daemon \<times> effect list \<Rightarrow> daemon \<times> effect list" where
  "disconnect_message mid acc =
     (let d = fst acc
      in case map_of (waitingSockets d) mid of
           None \<Rightarrow> acc
         | Some parked \<Rightarrow>
             (let d1 = clearTimeout (w_timeout parked) d;
                  d2 = d1\<lparr>reg := (case mid of
                                     Num n \<Rightarrow> removePendingByMessageId n (reg d1)
                                   | _ \<Rightarrow> reg d1)\<rparr>;
                  d3 = d2\<lparr>waitingSockets := AList.delete mid (waitingSockets d2)\<rparr>
              in (d3, snd acc @ [ClearTimeout (w_timeout parked)]
                      @ (if truthy_num (chatId d3) then [DeleteMessage (chatId d3) mid] else []))))"

definition handleSocketDisconnect :: "nat \<Rightarrow> daemon \<Rightarrow> daemon \<times> effect list" where
  "handleSocketDisconnect sock d =
     (case map_of (socketToMessageIds d) sock of
        None \<Rightarrow> (d, [])
      | Some messageIds \<Rightarrow>
          if length messageIds = 0 then (d, [])
          else (let looped = fold disconnect_message messageIds (d, []);
                    d1 = (fst looped)\<lparr>socketToMessageIds :=
                                         AList.delete sock (socketToMessageIds (fst looped))\<rparr>;
                    d2 = d1\<lparr>pendingRequests :=
                               map (\<lambda>(k, p). (k, exported_entry p))
                                 (exportState_pendingRequests (reg d1))\<rparr>
                in (d2, snd looped @ [SaveState (the_state d2)])))"

section \<open>The daemon: reply dispatcher\<close>

text \<open>What the background tasks read from the outside during one tick, as inputs: the
  transcripts, the sub-agent transcripts next to a transcript, modification times, the
  terminal-binding files (\<open>None\<close> when reading or parsing throws, otherwise the
  \<open>sessionId\<close> property, which may be absent) and the clock in milliseconds.\<close>

record world =
  files :: "string \<Rightarrow> line list option"
  subagentFiles :: "string \<Rightarrow> string list"
  fileMtime :: "string \<Rightarrow> int option"
  sessionFile :: "string \<Rightarrow> string option option"
  nowMs :: int

fun default0 :: "nat option \<Rightarrow> nat" where
  "default0 None = 0"
| "default0 (Some n) = n"

definition checkTranscriptForResolution :: "world \<Rightarrow> pending \<Rightarrow> bool" where
  "checkTranscriptForResolution w request =
     (case requestType request of
        Some Permission \<Rightarrow>
          (case findToolResult (files w) (transcriptPath request) (tool_use_id request) 0 of
             None \<Rightarrow> False | Some r \<Rightarrow> found r)
      | Some Stop \<Rightarrow>
          (case findUserMessage (files w) (transcriptPath request)
                  (default0 (lastCheckedOffset request)) of
             None \<Rightarrow> False | Some r \<Rightarrow> found r)
      | None \<Rightarrow> False)"

text \<open>The \<open>try\<close>/\<open>catch\<close> at the end of both branches of \<open>handleResponse\<close>: the frame goes to
  the hook unless the socket is destroyed; then the transcript is consulted and the chat
  is told.\<close>

definition deliver :: "world \<Rightarrow> waiting \<Rightarrow> pending \<Rightarrow> frame \<Rightarrow> daemon \<Rightarrow> effect list" where
  "deliver w parked request fr d =
     (if w_socket parked \<in> set (destroyed d)
      then (if checkTranscriptForResolution w request
            then [SendMessage (chatId d) AlreadyHandledLocally]
            else [SendMessage (chatId d) UnableToDeliver])
      else [Respond (w_socket parked) fr])"

text \<open>The truncation of a stop reply.\<close>

definition truncate_instructions :: "string \<Rightarrow> string" where
  "truncate_instructions txt =
     (if length txt > 2000
      then take 1997 txt @ ''... (truncated, original was '' @ string_of_nat (length txt) @ '' chars)''
      else txt)"

text \<open>\<open>handleResponse\<close>. The reply text is absent when the chat message has no text; then
  \<open>text.trim()\<close> and \<open>instructions.length\<close> throw a TypeError (its message is the
  engine's and is abbreviated here), and since no caller awaits \<open>handleResponse\<close> the
  rejection is unhandled.\<close>

definition handleResponse ::
  "world \<Rightarrow> js_value \<Rightarrow> waiting \<Rightarrow> string option \<Rightarrow> daemon \<Rightarrow> daemon \<times> effect list" where
  "handleResponse w mid parked txt d =
     (case checkRequestExists d mid of
        None \<Rightarrow> (d, [SendMessage (chatId d) AlreadyHandledLocally, DeleteMessage (chatId d) mid])
      | Some request \<Rightarrow>
          (let d1 = clearTimeout (w_timeout parked) d;
               d2 = d1\<lparr>waitingSockets := AList.delete mid (waitingSockets d1)\<rparr>;
               d3 = untrack_message (w_socket parked) mid d2
           in case w_type parked of
                Permission \<Rightarrow>
                  (case txt of
                     None \<Rightarrow>
                       (d3, [ClearTimeout (w_timeout parked),
                             UnhandledRejection (TypeError ''text is undefined'')])
                   | Some t \<Rightarrow>
                       (case parsePermissionResponse t (w_allowBulkApproval parked) of
                          None \<Rightarrow>
                            (d3\<lparr>waitingSockets := AList.update mid parked (waitingSockets d3)\<rparr>,
                             [ClearTimeout (w_timeout parked),
                              SendMessage (chatId d3)
                                (if w_allowBulkApproval parked then ReplyYesNoAll else ReplyYesNo)])
                        | Some verdict \<Rightarrow>
                            (let listed =
                                   (if verdict = ApprovedAll \<and> truthy_str (w_toolName parked)
                                         \<and> w_sessionId parked \<noteq> []
                                    then (let a = addToWhitelist (w_sessionId parked)
                                                    (the (w_toolName parked)) d3
                                          in (fst a, snd a @ [SendMessage (chatId (fst a))
                                                (BulkConfirmation (the (w_toolName parked)))]))
                                    else (d3, []));
                                 d5 = removeFromDualIndex (fst listed) mid (w_sessionId parked)
                             in (d5, [ClearTimeout (w_timeout parked)] @ snd listed
                                     @ [SaveState (the_state d5)]
                                     @ deliver w parked request
                                         (VerdictFrame (w_requestId parked) verdict) d5))))
              | Stop \<Rightarrow>
                  (let d4 = removeFromDualIndex d3 mid (w_sessionId parked)
                   in case txt of
                        None \<Rightarrow>
                          (d4, [ClearTimeout (w_timeout parked), SaveState (the_state d4),
                                UnhandledRejection (TypeError ''text is undefined'')])
                      | Some t \<Rightarrow>
                          (d4, [ClearTimeout (w_timeout parked), SaveState (the_state d4)]
                               @ deliver w parked request
                                   (Continue (w_requestId parked) (truncate_instructions t)) d4))))"

text \<open>\<open>processUpdate\<close>. The third component is the error it throws, if any; what it did
  before stays done. \<open>chatId !== state.chatId\<close> lets a message through only when both are
  the same number.\<close>

definition processUpdate ::
  "config \<Rightarrow> world \<Rightarrow> update \<Rightarrow> daemon \<Rightarrow> daemon \<times> effect list \<times> js_error option" where
  "processUpdate cfg w upd d =
     (case u_message upd of
        None \<Rightarrow> (d, [], None)
      | Some msg \<Rightarrow>
          (let chat = m_chat_id msg;
               txt = map_option trim (m_text msg)
           in if txt = Some ''/start'' \<and> truthy_num chat
              then (let d1 = d\<lparr>chatId := chat\<rparr>
                    in (d1, [SaveState (the_state d1), SendMessage chat PairedConfirmation], None))
              else if chat = None \<or> chat \<noteq> chatId d then (d, [], None)
              else if \<not> truthy_num (m_reply_to msg)
              then (let pendingRequestCount = length (pendingRequests d)
                    in if allowSinglePendingFallback cfg \<and> pendingRequestCount = 1
                       then (let key = fst (hd (pendingRequests d));
                                 request = snd (hd (pendingRequests d))
                             in case map_of (waitingSockets d) (js_Number key) of
                                  Some parked \<Rightarrow>
                                    (let r = handleResponse w (js_Number key) parked txt d
                                     in (fst r, snd r, None))
                                | None \<Rightarrow>
                                    (case txt of
                                       None \<Rightarrow> (d, [], Some (TypeError ''text is undefined''))
                                     | Some t \<Rightarrow>
                                         (case parsePermissionResponse t
                                                 (isBulkApprovalAllowed cfg (tool request)) of
                                            Some verdict \<Rightarrow>
                                              (let d1 = removeFromDualIndex d (Str key)
                                                          (prop_key (sessionId request))
                                               in (d1, [SaveState (the_state d1),
                                                        DeleteMessage chat (Str key),
                                                        SendMessage chat ResponseRecordedInactive],
                                                   None))
                                          | None \<Rightarrow> (d, [SendMessage chat ReplyYesNo], None))))
                       else if pendingRequestCount > 0
                       then (d, [SendMessage chat PleaseReplyDirectly], None)
                       else (d, [], None))
              else (case map_of (waitingSockets d) (Num (the (m_reply_to msg))) of
                      None \<Rightarrow> (d, [SendMessage chat ExpiredOrHandled], None)
                    | Some parked \<Rightarrow>
                        (let r = handleResponse w (Num (the (m_reply_to msg))) parked txt d
                         in (fst r, snd r, None)))))"

text \<open>The \<open>for\<close> loop of \<open>processTelegramUpdates\<close>: it stops at the first update whose
  processing throws.\<close>

fun process_updates ::
  "config \<Rightarrow> world \<Rightarrow> update list \<Rightarrow> daemon \<Rightarrow> daemon \<times> effect list \<times> js_error option" where
  "process_updates cfg w [] d = (d, [], None)"
| "process_updates cfg w (u # us) d =
     (case processUpdate cfg w u (d\<lparr>telegramOffset := update_id u + 1\<rparr>) of
        (d1, es, Some err) \<Rightarrow> (d1, es, Some err)
      | (d1, es, None) \<Rightarrow>
          (case process_updates cfg w us d1 of (d2, es2, r) \<Rightarrow> (d2, es @ es2, r)))"

text \<open>The identifiers bound where \<open>processTelegramUpdates\<close> is written: the declarations of
  the module and of \<open>createDaemon\<close>. (The globals of the runtime have other names.)\<close>

definition bindings_in_scope :: "string list" where
  "bindings_in_scope =
     [''fs'', ''fsPromises'', ''path'', ''acquireLock'', ''getDefaultLockPath'',
      ''createIPCServer'', ''getDefaultPipePath'', ''createSessionRegistry'',
      ''createTelegramClient'', ''getBotToken'', ''getLastClaudeMessage'',
      ''getLastUserMessage'', ''getLastToolUse'', ''formatToolInput'', ''findToolResult'',
      ''findUserMessage'', ''getLineCount'', ''findSubagentTranscripts'', ''getFileMtime'',
      ''getClaudeAfkDir'', ''getSessionsDir'', ''DEFAULT_CONFIG'', ''deepMerge'',
      ''loadConfig'', ''loadState'', ''saveState'', ''escapeMarkdown'',
      ''formatPermissionNotification'', ''formatStopNotification'',
      ''parsePermissionResponse'', ''findExistingPendingRequest'', ''removeFromDualIndex'',
      ''isMaxRetriesExceeded'', ''checkRequestExists'', ''createDaemon'',
      ''config'', ''state'', ''registry'', ''telegram'', ''ipcServer'', ''lockRelease'',
      ''pollingInterval'', ''transcriptPollingInterval'', ''telegramOffset'',
      ''lastActivity'', ''running'', ''consecutiveConflictErrors'', ''isPolling'',
      ''isPollingTranscripts'', ''waitingSockets'', ''socketToMessageIds'',
      ''handleSocketDisconnect'', ''trackWaitingSocket'', ''handleRequest'',
      ''isToolWhitelisted'', ''addToWhitelist'', ''clearWhitelist'',
      ''isBulkApprovalAllowed'', ''handlePermissionRequest'', ''handleStopRequest'',
      ''handleEnableAfk'', ''handleDisableAfk'', ''handleStatus'',
      ''processTelegramUpdates'', ''processUpdate'', ''handleResponse'', ''pollTranscripts'',
      ''checkPermissionResolution'', ''checkStopResolution'', ''checkSessionValidity'',
      ''handleLocalResolution'', ''handleSessionExpired'', ''checkTranscriptForResolution'',
      ''start'', ''stop'']"

text \<open>The \<open>catch\<close> block of \<open>processTelegramUpdates\<close>. At the third conflict in a row it
  logs, notifies the paired chat, logs again and calls \<open>shutdown()\<close>; evaluating an
  identifier that is not bound throws a ReferenceError, which leaves the \<open>catch\<close> block
  before \<open>process.exit(0)\<close>.\<close>

definition poll_failed :: "js_error \<Rightarrow> daemon \<Rightarrow> daemon \<times> effect list" where
  "poll_failed err d =
     (if error_message err \<noteq> [] \<and> str_includes (error_message err) ''Conflict''
      then (let d1 = d\<lparr>consecutiveConflictErrors := consecutiveConflictErrors d + 1\<rparr>
            in if consecutiveConflictErrors d1 \<ge> 3
               then (d1,
                     [ConsoleError ''Telegram conflict: Another bot instance is polling. Shutting down this daemon.'']
                     @ (if truthy_num (chatId d1) then [SendMessage (chatId d1) ConflictNotice]
                        else [])
                     @ [ConsoleLog ''Exiting to avoid conflict with other daemon instance.'']
                     @ (if ''shutdown'' \<in> set bindings_in_scope then [ProcessExit 0]
                        else [UnhandledRejection (ReferenceError ''shutdown is not defined'')]))
               else (d1, []))
      else (d, [ConsoleError (''Telegram polling error: '' @ error_message err)]))"

text \<open>\<open>processTelegramUpdates\<close>: one tick of the update-fetch loop. The outcome of the
  request to the chat service and the clock are inputs.\<close>

definition processTelegramUpdates ::
  "config \<Rightarrow> world \<Rightarrow> js_error + update list \<Rightarrow> daemon \<Rightarrow> daemon \<times> effect list" where
  "processTelegramUpdates cfg w api d =
     (if \<not> isConfigured (telegram cfg) then (d, [])
      else if isPolling d then (d, [])
      else (case getUpdates (telegram cfg) (nowMs w) api of
              Inl err \<Rightarrow>
                (let r = poll_failed err (d\<lparr>isPolling := True\<rparr>)
                 in ((fst r)\<lparr>isPolling := False\<rparr>, snd r))
            | Inr updates \<Rightarrow>
                (case process_updates cfg w updates
                        (d\<lparr>isPolling := True, consecutiveConflictErrors := 0\<rparr>) of
                   (d1, es, None) \<Rightarrow> (d1\<lparr>isPolling := False\<rparr>, es)
                 | (d1, es, Some err) \<Rightarrow>
                     (let r = poll_failed err d1
                      in ((fst r)\<lparr>isPolling := False\<rparr>, es @ snd r)))))"

section \<open>The daemon: resolution watcher\<close>

definition handleLocalResolution ::
  "js_value \<Rightarrow> pending \<Rightarrow> resolution \<Rightarrow> daemon \<Rightarrow> daemon \<times> effect list" where
  "handleLocalResolution mid request res d =
     (let notified =
            (case map_of (waitingSockets d) mid of
               None \<Rightarrow> []
             | Some parked \<Rightarrow>
                 if w_socket parked \<notin> set (destroyed d)
                 then [Respond (w_socket parked) (ResolvedLocally (w_requestId parked) res)]
                 else []);
          d1 = removeFromDualIndex d mid (prop_key (sessionId request));
          d2 = d1\<lparr>waitingSockets := AList.delete mid (waitingSockets d1)\<rparr>
      in (d2, notified @ [DeleteMessage (chatId d) mid, SaveState (the_state d2)]))"

text \<open>The loop of \<open>handleSessionExpired\<close> over the message ids, then the session key goes.\<close>

definition expire_message :: "string \<Rightarrow> daemon \<times> effect list \<Rightarrow> daemon \<times> effect list" where
  "expire_message m acc =
     (let d = fst acc
      in (d\<lparr>pendingRequests := AList.delete (js_String (Str m)) (pendingRequests d),
            waitingSockets := AList.delete (Str m) (waitingSockets d)\<rparr>,
          snd acc @ [DeleteMessage (chatId d) (Str m)]))"

definition handleSessionExpired :: "string \<Rightarrow> string list \<Rightarrow> daemon \<Rightarrow> daemon \<times> effect list" where
  "handleSessionExpired sid messageIds d =
     (let looped = fold expire_message messageIds (d, [SendMessage (chatId d) SessionEnded]);
          d1 = (fst looped)\<lparr>requestsBySession := AList.delete sid (requestsBySession (fst looped))\<rparr>
      in (d1, snd looped @ [SaveState (the_state d1)]))"

text \<open>The first sub-agent transcript, among those modified in the last ten seconds, that
  holds the tool result.\<close>

fun sub_result :: "world \<Rightarrow> string option \<Rightarrow> string list \<Rightarrow> probe_result option" where
  "sub_result w toolUseId [] = None"
| "sub_result w toolUseId (file # rest) =
     (if truthy_num (fileMtime w file) \<and> the (fileMtime w file) > nowMs w - 10000
      then (case findToolResult (files w) (Some file) toolUseId 0 of
              Some r \<Rightarrow> if found r then Some r else sub_result w toolUseId rest
            | None \<Rightarrow> sub_result w toolUseId rest)
      else sub_result w toolUseId rest)"

definition resolution_of :: "probe_result \<Rightarrow> resolution" where
  "resolution_of r = (if isError r then ResolvedDenied else ResolvedApproved)"

text \<open>\<open>request.lastCheckedOffset = result.offset\<close> writes to the object stored under the
  message id.\<close>

definition set_offset :: "string \<Rightarrow> pending \<Rightarrow> nat \<Rightarrow> daemon \<Rightarrow> daemon" where
  "set_offset mid request n d =
     d\<lparr>pendingRequests :=
         AList.update mid (request\<lparr>lastCheckedOffset := Some n\<rparr>) (pendingRequests d)\<rparr>"

definition checkPermissionResolution ::
  "world \<Rightarrow> string \<Rightarrow> pending \<Rightarrow> daemon \<Rightarrow> daemon \<times> effect list" where
  "checkPermissionResolution w mid request d =
     (let result = findToolResult (files w) (transcriptPath request) (tool_use_id request)
                     (default0 (lastCheckedOffset request))
      in if (case result of None \<Rightarrow> False | Some r \<Rightarrow> found r)
         then handleLocalResolution (Str mid) request (resolution_of (the result)) d
         else (case (if truthy_str (projectDir request)
                     then sub_result w (tool_use_id request)
                            (case transcriptPath request of
                               None \<Rightarrow> [] | Some p \<Rightarrow> subagentFiles w p)
                     else None) of
                 Some subResult \<Rightarrow>
                   handleLocalResolution (Str mid) request (resolution_of subResult) d
               | None \<Rightarrow>
                   (case result of
                      None \<Rightarrow> (d, [])
                    | Some r \<Rightarrow> (set_offset mid request (offset r) d, []))))"

text \<open>In \<open>checkStopResolution\<close> the offset is written after a local resolution too, but
  then to an object that has left the store.\<close>

definition checkStopResolution ::
  "world \<Rightarrow> string \<Rightarrow> pending \<Rightarrow> daemon \<Rightarrow> daemon \<times> effect list" where
  "checkStopResolution w mid request d =
     (case findUserMessage (files w) (transcriptPath request)
             (default0 (lastCheckedOffset request)) of
        None \<Rightarrow> (d, [])
      | Some r \<Rightarrow>
          if found r then handleLocalResolution (Str mid) request LocalFollowup d
          else (set_offset mid request (offset r) d, []))"

text \<open>The body of the inner loop of \<open>pollTranscripts\<close>, for one message id of a session.
  The message id is an element of \<open>requestsBySession\<close>, a string, and is used as it is
  as the key into \<open>waitingSockets\<close>.\<close>

definition poll_request :: "world \<Rightarrow> string \<Rightarrow> daemon \<Rightarrow> daemon \<times> effect list" where
  "poll_request w mid d =
     (case map_of (pendingRequests d) mid of
        None \<Rightarrow> (d, [])
      | Some request \<Rightarrow>
          if (case map_of (waitingSockets d) (Str mid) of
                None \<Rightarrow> False
              | Some parked \<Rightarrow> w_socket parked \<in> set (destroyed d))
          then (let r = handleLocalResolution (Str mid) request SocketClosedResolution d
                in (fst r, ConsoleLog (''Socket dead for message '' @ mid @ '', cleaning up'') # snd r))
          else (case requestType request of
                  Some Permission \<Rightarrow> checkPermissionResolution w mid request d
                | Some Stop \<Rightarrow> checkStopResolution w mid request d
                | None \<Rightarrow> (d, [])))"

text \<open>The array of a session, as the loop sees it. The loop holds the array object taken
  from \<open>Object.entries\<close> at the start of the tick; within the tick nothing is added and a
  key is deleted only when its array has become empty or, by session expiry, after the
  loop over that array, so the object is the array under the key, or empty.\<close>

definition live_ids :: "daemon \<Rightarrow> string \<Rightarrow> string list" where
  "live_ids d sid = (case map_of (requestsBySession d) sid of None \<Rightarrow> [] | Some xs \<Rightarrow> xs)"

text \<open>The inner loop \<open>for (const messageId of messageIds)\<close>: the array iterator keeps an
  index and reads the array anew at every step, so an element that moves into the place
  of a removed one is passed over.\<close>

function poll_requests :: "world \<Rightarrow> string \<Rightarrow> nat \<Rightarrow> daemon \<times> effect list \<Rightarrow> daemon \<times> effect list" where
  "poll_requests w sid i acc =
     (if i < length (live_ids (fst acc) sid)
      then poll_requests w sid (Suc i)
             (fst (poll_request w (live_ids (fst acc) sid ! i) (fst acc)),
              snd acc @ snd (poll_request w (live_ids (fst acc) sid ! i) (fst acc)))
      else acc)"
  by pat_completeness auto
termination
proof (relation "measure (\<lambda>(w, sid, i, acc). length (live_ids (fst acc) sid) - i)")
  show "wf (measure (\<lambda>(w, sid, i, acc). length (live_ids (fst acc) sid) - i))"
    by simp
next
  fix w :: world and sid :: string and i :: nat and acc :: "daemon \<times> effect list"
  assume more: "i < length (live_ids (fst acc) sid)"
  have removal: "length (live_ids (removeFromDualIndex d mid s) sid) \<le> length (live_ids d sid)"
    for d mid s
    by (auto simp: removeFromDualIndex_def live_ids_def Let_def update_conv' delete_conv'
          length_remove1 split: option.splits)
  have resolved:
    "length (live_ids (fst (handleLocalResolution mid request res d)) sid) \<le> length (live_ids d sid)"
    for mid request res d
  proof -
    have "live_ids (fst (handleLocalResolution mid request res d)) sid
          = live_ids (removeFromDualIndex d mid (prop_key (sessionId request))) sid"
      by (simp add: handleLocalResolution_def Let_def live_ids_def)
    then show ?thesis by (simp add: removal)
  qed
  have offset_kept: "live_ids (set_offset mid request n d) sid = live_ids d sid"
    for mid request n d
    by (simp add: set_offset_def live_ids_def)
  have "length (live_ids (fst (poll_request w (live_ids (fst acc) sid ! i) (fst acc))) sid)
        \<le> length (live_ids (fst acc) sid)"
    by (auto simp: poll_request_def checkPermissionResolution_def checkStopResolution_def Let_def
          resolved offset_kept split: option.splits request_type.splits)
  with more show
    "((w, sid, Suc i,
       fst (poll_request w (live_ids (fst acc) sid ! i) (fst acc)),
       snd acc @ snd (poll_request w (live_ids (fst acc) sid ! i) (fst acc))),
      (w, sid, i, acc))
     \<in> measure (\<lambda>(w, sid, i, acc). length (live_ids (fst acc) sid) - i)"
    by simp
qed

declare poll_requests.simps [simp del]

text \<open>\<open>state.pendingRequests[messageIds[0]]\<close>: on an empty array the index is \<open>undefined\<close>
  and the key read is \<open>"undefined"\<close>.\<close>

definition first_request :: "daemon \<Rightarrow> string list \<Rightarrow> pending option" where
  "first_request d messageIds =
     map_of (pendingRequests d) (case messageIds of [] \<Rightarrow> ''undefined'' | m # ms \<Rightarrow> m)"

definition checkSessionValidity ::
  "world \<Rightarrow> string \<Rightarrow> string list \<Rightarrow> daemon \<Rightarrow> daemon \<times> effect list" where
  "checkSessionValidity w sid messageIds d =
     (case first_request d messageIds of
        None \<Rightarrow> (d, [])
      | Some firstRequest \<Rightarrow>
          if \<not> truthy_str (terminalId firstRequest) then (d, [])
          else (case sessionFile w (the (terminalId firstRequest)) of
                  None \<Rightarrow> handleSessionExpired sid messageIds d
                | Some recorded \<Rightarrow>
                    if recorded \<noteq> Some sid then handleSessionExpired sid messageIds d
                    else (d, [])))"

text \<open>One round of the outer loop: the requests of the session, then its validity.\<close>

definition poll_session :: "world \<Rightarrow> string \<Rightarrow> daemon \<times> effect list \<Rightarrow> daemon \<times> effect list" where
  "poll_session w sid acc =
     (let polled = poll_requests w sid 0 acc;
          messageIds = live_ids (fst polled) sid
      in case first_request (fst polled) messageIds of
           None \<Rightarrow> polled
         | Some firstRequest \<Rightarrow>
             (let r = checkSessionValidity w sid messageIds (fst polled)
              in (fst r, snd polled @ snd r)))"

definition pollTranscripts :: "world \<Rightarrow> daemon \<Rightarrow> daemon \<times> effect list" where
  "pollTranscripts w d =
     (if isPollingTranscripts d then (d, [])
      else (let r = fold (poll_session w) (map fst (requestsBySession d))
                      (d\<lparr>isPollingTranscripts := True\<rparr>, [])
            in ((fst r)\<lparr>isPollingTranscripts := False\<rparr>, snd r)))"

section \<open>The daemon: start-up and the event loop\<close>

text \<open>\<open>start\<close>, once the lock is acquired: the loaded state is imported, and if either
  index holds anything the user is told of each orphaned request and both are cleared.\<close>

definition start :: "config \<Rightarrow> persisted \<Rightarrow> daemon \<times> effect list" where
  "start cfg loaded =
     (let d = \<lparr>chatId = s_chatId loaded, afkSessions = s_afkSessions loaded,
               pendingRequests = s_pendingRequests loaded,
               requestsBySession = s_requestsBySession loaded,
               sessionWhitelists = s_sessionWhitelists loaded,
               reg = importState (s_afkSessions loaded) createSessionRegistry,
               waitingSockets = [], socketToMessageIds = [], timers = [], nextTimer = 0,
               destroyed = [], telegramOffset = 0, consecutiveConflictErrors = 0,
               isPolling = False, isPollingTranscripts = False\<rparr>;
          hasPendingRequests = (length (pendingRequests d) > 0);
          hasStaleSessionIndex = (length (requestsBySession d) > 0)
      in if hasPendingRequests \<or> hasStaleSessionIndex
         then (let d1 = d\<lparr>pendingRequests := [], requestsBySession := []\<rparr>
               in (d1,
                   (if hasPendingRequests \<and> isConfigured (telegram cfg) \<and> truthy_num (chatId d)
                    then map (\<lambda>(k, request).
                                SendMessage (chatId d)
                                  (DaemonRestarted (tool request) (command request)))
                           (pendingRequests d)
                    else [])
                   @ [SaveState (the_state d1)]))
         else (d, []))"

text \<open>What can happen to a running daemon: a request frame arrives on a socket, a socket
  closes, the runtime marks a socket destroyed, a timer fires, or one of the two
  periodic tasks ticks. Each is handled to its end before the next.\<close>

datatype event =
    HookRequest ipc_msg nat io
  | SocketClosed nat
  | SocketDestroyed nat
  | TimerFired nat
  | TelegramTick world "js_error + update list"
  | TranscriptTick world

fun step :: "config \<Rightarrow> event \<Rightarrow> daemon \<Rightarrow> daemon \<times> effect list" where
  "step cfg (HookRequest msg sock env) d = handleRequest cfg env msg sock d"
| "step cfg (SocketClosed sock) d = handleSocketDisconnect sock d"
| "step cfg (SocketDestroyed sock) d = (d\<lparr>destroyed := sock # destroyed d\<rparr>, [])"
| "step cfg (TimerFired tid) d = timerFired tid d"
| "step cfg (TelegramTick w api) d = processTelegramUpdates cfg w api d"
| "step cfg (TranscriptTick w) d = pollTranscripts w d"

definition run :: "config \<Rightarrow> event list \<Rightarrow> daemon \<Rightarrow> daemon" where
  "run cfg evs d = fold (\<lambda>ev s. fst (step cfg ev s)) evs d"

section \<open>Stated properties and example states\<close>

text \<open>No session id is mapped to an empty sequence.\<close>

definition nonempty_values :: "('k \<times> 'v list) list \<Rightarrow> bool" where
  "nonempty_values al = ([] \<notin> snd ` set al)"

definition no_empty_session :: "daemon \<Rightarrow> bool" where
  "no_empty_session d = nonempty_values (requestsBySession d)"

text \<open>A daemon with a bot token and the default configuration, paired with chat 12345,
  started on an empty state; session \<open>S\<close> then enables AFK mode and asks permission for a
  Bash command on socket 7, and the chat service numbers the notification 42.\<close>

definition example_config :: config where
  "example_config = DEFAULT_CONFIG True"

definition example_loaded :: persisted where
  "example_loaded =
     \<lparr>s_chatId = Some 12345, s_afkSessions = [], s_pendingRequests = [],
      s_requestsBySession = [], s_sessionWhitelists = []\<rparr>"

definition example_msg :: "string \<Rightarrow> string \<Rightarrow> ipc_msg" where
  "example_msg ty rid =
     \<lparr>msg_type = ty, request_id = rid, session_id = ''S'', terminal_id = Some ''T1'',
      tool_name = ''Bash'', message = Some ''npm test'', transcript_path = Some ''t.jsonl'',
      cwd = Some ''/p''\<rparr>"

definition example_io :: "int \<Rightarrow> io" where
  "example_io mid =
     \<lparr>lastClaudeMessage = None, lastUserMessage = None,
      lastToolUse = Some (Some ''tu1'', ''npm test''), sendResult = Inr mid, lineCount = 0,
      randomBytes = (0xa3, 0xf8), clock = 5, path_basename = (\<lambda>p. ''p'')\<rparr>"

definition example_started :: daemon where
  "example_started = fst (start example_config example_loaded)"

definition example_enabled :: daemon where
  "example_enabled =
     fst (step example_config (HookRequest (example_msg ''enable_afk'' ''r1'') 7 (example_io 0))
            example_started)"

definition example_parked :: daemon where
  "example_parked =
     fst (step example_config
            (HookRequest (example_msg ''permission_request'' ''r2'') 7 (example_io 42))
            example_enabled)"

definition example_entry :: pending where
  "example_entry =
     \<lparr>sessionId = Some ''S'', tool = Some ''Bash'', command = Some ''npm test'',
      tool_use_id = Some ''tu1'', requestType = Some Permission,
      transcriptPath = Some ''t.jsonl'', projectDir = Some ''/p'', terminalId = Some ''T1'',
      lastCheckedOffset = Some 0, firstRequestAt = Some 5, requestId = Some ''r2'',
      retryCount = Some 0, socketAlive = Some True, messageId = None\<rparr>"

definition example_waiting :: waiting where
  "example_waiting =
     \<lparr>w_socket = 7, w_requestId = ''r2'', w_sessionId = ''S'', w_type = Permission,
      w_toolName = Some ''Bash'', w_allowBulkApproval = False, w_timeout = 0\<rparr>"

text \<open>Dual-index consistency: every key of \<open>pendingRequests\<close> is in the sequence of its
  session, and every element of a sequence is a key of \<open>pendingRequests\<close> whose entry
  names that session.\<close>

definition dual_index_consistent :: "daemon \<Rightarrow> bool" where
  "dual_index_consistent d =
     (list_all (\<lambda>(m, p). case sessionId p of
                             None \<Rightarrow> False
                           | Some s \<Rightarrow> m \<in> set (live_ids d s))
        (pendingRequests d)
      \<and> list_all (\<lambda>(s, ms). list_all (\<lambda>m. case map_of (pendingRequests d) m of
                                              None \<Rightarrow> False
                                            | Some p \<Rightarrow> sessionId p = Some s) ms)
          (requestsBySession d))"

text \<open>The hook of the example goes away: socket 7 closes.\<close>

definition example_closed :: daemon where
  "example_closed = fst (step example_config (SocketClosed 7) example_parked)"

text \<open>The triple that identifies a permission request.\<close>

definition triple_of :: "pending \<Rightarrow> string option \<times> string option \<times> string option" where
  "triple_of p = (sessionId p, tool p, command p)"

text \<open>The hook of the example asks again, on socket 8, while its first request is still
  pending; the new notification is numbered 43.\<close>

definition example_retried :: daemon where
  "example_retried =
     fst (step example_config
            (HookRequest (example_msg ''permission_request'' ''r3'') 8 (example_io 43))
            example_parked)"

text \<open>The outside during a tick of the example: the transcript of the session holds the
  given lines, and the terminal binding still names session \<open>S\<close>.\<close>

definition example_world :: "line list \<Rightarrow> world" where
  "example_world ls =
     \<lparr>files = (\<lambda>p. if p = ''t.jsonl'' then Some ls else None), subagentFiles = (\<lambda>p. []),
      fileMtime = (\<lambda>p. None), sessionFile = (\<lambda>t. Some (Some ''S'')),
      nowMs = 1700000000000\<rparr>"

text \<open>A \<open>/start\<close> message from another chat, 222.\<close>

definition example_start_update :: update where
  "example_start_update =
     \<lparr>update_id = 1,
      u_message = Some \<lparr>m_chat_id = Some 222, m_text = Some ''/start'', m_reply_to = None,
                        m_date = Some 1700000000\<rparr>\<rparr>"

text \<open>Three replies to notification 42 from the paired chat: one dated at the epoch
  (date 0), one dated 10000 seconds before the clock of the example world, and one
  that is fresh; and the error of the chat service when another poller holds the slot.\<close>

definition example_reply :: "string \<Rightarrow> int \<Rightarrow> update" where
  "example_reply txt dt =
     \<lparr>update_id = 1,
      u_message = Some \<lparr>m_chat_id = Some 12345, m_text = Some txt, m_reply_to = Some 42,
                        m_date = Some dt\<rparr>\<rparr>"

definition example_conflict :: js_error where
  "example_conflict =
     Error ''Telegram API error: Conflict: terminated by other getUpdates request''"

text \<open>The session of the example stops instead: a stop request on socket 9, numbered
  50 by the chat service, with its stored entry and its parked reply.\<close>

definition example_stopped :: daemon where
  "example_stopped =
     fst (step example_config (HookRequest (example_msg ''stop_request'' ''r5'') 9 (example_io 50))
            example_enabled)"

definition example_stop_entry :: pending where
  "example_stop_entry =
     \<lparr>sessionId = Some ''S'', tool = None, command = None, tool_use_id = None,
      requestType = Some Stop, transcriptPath = Some ''t.jsonl'', projectDir = Some ''/p'',
      terminalId = Some ''T1'', lastCheckedOffset = Some 0, firstRequestAt = Some 5,
      requestId = Some ''r5'', retryCount = None, socketAlive = Some True, messageId = None\<rparr>"

definition example_stop_waiting :: waiting where
  "example_stop_waiting =
     \<lparr>w_socket = 9, w_requestId = ''r5'', w_sessionId = ''S'', w_type = Stop,
      w_toolName = None, w_allowBulkApproval = False, w_timeout = 0\<rparr>"

text \<open>A reply of 2001 characters.\<close>

definition example_long_text :: string where
  "example_long_text = replicate 1997 (CHR ''a'') @ ''bcde''"

text \<open>The tick of the resolution watcher on the example, when the transcript has gained
  the result of the tool use, without error.\<close>

definition example_resolved :: "daemon \<times> effect list" where
  "example_resolved =
     pollTranscripts (example_world [Entry (Some ''user'') (Blocks [ToolResult (Some ''tu1'') False])])
       example_parked"

text \<open>No two dashes are adjacent.\<close>

fun no_double_dash :: "string \<Rightarrow> bool" where
  "no_double_dash [] = True"
| "no_double_dash [c] = True"
| "no_double_dash (a # b # cs) = (\<not> (is_dash a \<and> is_dash b) \<and> no_double_dash (b # cs))"

section \<open>Properties of the session registry\<close>

subsection \<open>The third pass of slugify changes nothing\<close>

lemma collapse_dashes_id: "no_double_dash s \<Longrightarrow> replace_runs is_dash ''-'' s = s"
proof (induction s rule: no_double_dash.induct)
  case 1
  then show ?case by simp
next
  case (2 c)
  then show ?case by (simp add: is_dash_def)
next
  case (3 a b cs)
  then show ?case by (cases "is_dash b") (auto simp: is_dash_def)
qed

lemma no_double_dash_Cons:
  "no_double_dash s \<Longrightarrow> s = [] \<or> \<not> is_dash (hd s) \<or> \<not> is_dash c \<Longrightarrow> no_double_dash (c # s)"
  by (cases s) auto

lemma no_double_dash_tl: "no_double_dash (c # s) \<Longrightarrow> no_double_dash s"
  by (cases s) auto

lemma no_double_dash_dropWhile: "no_double_dash s \<Longrightarrow> no_double_dash (dropWhile P s)"
  by (induction s) (auto dest: no_double_dash_tl)

lemma no_double_dash_snoc2:
  "no_double_dash (xs @ [a, b]) = (no_double_dash (xs @ [a]) \<and> \<not> (is_dash a \<and> is_dash b))"
  by (induction xs rule: no_double_dash.induct) auto

lemma no_double_dash_rev: "no_double_dash (rev s) = no_double_dash s"
proof (induction s rule: no_double_dash.induct)
  case (3 a b cs)
  then show ?case using no_double_dash_snoc2[of "rev cs" b a] by auto
qed auto

lemma no_double_dash_strip: "no_double_dash s \<Longrightarrow> no_double_dash (strip_dashes s)"
  by (simp add: strip_dashes_def no_double_dash_rev no_double_dash_dropWhile)

lemma slug_char_not_dash: "is_slug_char c \<Longrightarrow> \<not> is_dash c"
  by (auto simp: is_slug_char_def is_dash_def code_unit_def Let_def)

lemma replace_runs_nonempty:
  "replace_runs (\<lambda>c. \<not> is_slug_char c) ''-'' s \<noteq> [] \<Longrightarrow>
   s \<noteq> [] \<and> (is_slug_char (hd s) \<longrightarrow> hd (replace_runs (\<lambda>c. \<not> is_slug_char c) ''-'' s) = hd s)"
  by (cases s) auto

lemma no_double_dash_replace: "no_double_dash (replace_runs (\<lambda>c. \<not> is_slug_char c) ''-'' s)"
proof (induction "\<lambda>c. \<not> is_slug_char c" "''-''" s rule: replace_runs.induct)
  case 1
  then show ?case by simp
next
  case (2 c cs)
  let ?R = "replace_runs (\<lambda>c. \<not> is_slug_char c) ''-''"
  show ?case
  proof (cases "is_slug_char c")
    case True
    with 2 have ih: "no_double_dash (?R cs)" by simp
    from True show ?thesis by (auto intro!: no_double_dash_Cons ih simp: slug_char_not_dash)
  next
    case False
    let ?d = "dropWhile (\<lambda>c. \<not> is_slug_char c) cs"
    from False 2 have ih: "no_double_dash (?R ?d)" by simp
    have "?R ?d = [] \<or> \<not> is_dash (hd (?R ?d))"
    proof (cases "?R ?d = []")
      case True
      then show ?thesis by simp
    next
      case nonempty: False
      then have "?d \<noteq> []" using replace_runs_nonempty by blast
      then have "is_slug_char (hd ?d)" using hd_dropWhile[of "\<lambda>c. \<not> is_slug_char c" cs] by simp
      then show ?thesis using replace_runs_nonempty[OF nonempty] slug_char_not_dash by simp
    qed
    with False ih show ?thesis by (auto intro!: no_double_dash_Cons)
  qed
qed

lemma slugify_two_passes:
  "slugify name = strip_dashes (replace_runs (\<lambda>c. \<not> is_slug_char c) ''-'' (toLowerCase name))"
  unfolding slugify_def
  by (intro collapse_dashes_id no_double_dash_strip no_double_dash_replace)

subsection \<open>The shape of a slug\<close>

text \<open>What \<open>slugify\<close> returns, in terms of the code units of the name alone.\<close>

lemma replace_runs_chars:
  "c \<in> set (replace_runs (\<lambda>c. \<not> is_slug_char c) ''-'' s) \<Longrightarrow> is_slug_char c \<or> c = CHR ''-''"
proof (induction "\<lambda>c. \<not> is_slug_char c" "''-''" s rule: replace_runs.induct)
  case 1 then show ?case by simp
next
  case (2 c' cs)
  then show ?case by (auto split: if_splits)
qed

lemma set_strip_dashes: "c \<in> set (strip_dashes s) \<Longrightarrow> c \<in> set s"
  unfolding strip_dashes_def
  by (auto dest!: set_dropWhileD)

lemma slugify_chars: "c \<in> set (slugify name) \<Longrightarrow> is_slug_char c \<or> c = CHR ''-''"
  using replace_runs_chars set_strip_dashes unfolding slugify_two_passes by blast

lemma slug_char_raw:
  "is_slug_char c \<longleftrightarrow> (of_char c :: nat) \<in> {48..57} \<union> {97..122}"
  by (auto simp: is_slug_char_def code_unit_def Let_def)

lemma alnum_raw:
  "is_slug_char (lower_char c) \<longleftrightarrow> (of_char c :: nat) \<in> {48..57} \<union> {65..90} \<union> {97..122}"
  by (auto simp: is_slug_char_def lower_char_def code_unit_def Let_def)

lemma lower_raw:
  "is_slug_char (lower_char c) \<Longrightarrow>
   lower_char c = (if (of_char c :: nat) \<in> {65..90} then char_of (of_char c + 32 :: nat) else c)"
  by (auto simp: is_slug_char_def lower_char_def code_unit_def Let_def)

lemma last_dropWhile: "dropWhile P xs \<noteq> [] \<Longrightarrow> last (dropWhile P xs) = last xs"
  by (induction xs) (auto split: if_splits)

lemma strip_dashes_ends:
  "strip_dashes s \<noteq> [] \<Longrightarrow> \<not> is_dash (hd (strip_dashes s)) \<and> \<not> is_dash (last (strip_dashes s))"
proof -
  assume ne: "strip_dashes s \<noteq> []"
  let ?l = "dropWhile is_dash s"
  let ?t = "dropWhile is_dash (rev ?l)"
  have t: "?t \<noteq> []" using ne by (simp add: strip_dashes_def)
  have l: "?l \<noteq> []"
    using t by (metis dropWhile.simps(1) rev.simps(1))
  have "\<not> is_dash (hd ?t)" using t hd_dropWhile by blast
  then have a: "\<not> is_dash (last (strip_dashes s))"
    using t by (simp add: strip_dashes_def last_rev)
  have "last ?t = last (rev ?l)" using t by (rule last_dropWhile)
  then have "last ?t = hd ?l" using l by (simp add: last_rev)
  moreover have "\<not> is_dash (hd ?l)" using l hd_dropWhile by blast
  ultimately have b: "\<not> is_dash (hd (strip_dashes s))"
    using t by (simp add: strip_dashes_def hd_rev)
  from a b show ?thesis by simp
qed

lemma slugify_edges:
  "take 1 (slugify name) \<noteq> ''-'' \<and> take 1 (rev (slugify name)) \<noteq> ''-''"
proof (cases "slugify name = []")
  case True then show ?thesis by simp
next
  case False
  then have "\<not> is_dash (hd (slugify name)) \<and> \<not> is_dash (last (slugify name))"
    using strip_dashes_ends unfolding slugify_two_passes by blast
  moreover have "take 1 (slugify name) = [hd (slugify name)]"
    using False by (cases "slugify name") simp_all
  moreover have "take 1 (rev (slugify name)) = [last (slugify name)]"
    using False by (cases "rev (slugify name)") (simp_all flip: hd_rev)
  ultimately show ?thesis
    by (simp add: is_dash_def)
qed

lemma no_double_dash_raw: "no_double_dash (a @ ''--'' @ b) \<Longrightarrow> False"
  by (induction a) (auto dest: no_double_dash_tl simp: is_dash_def)

lemma slugify_no_double: "slugify name \<noteq> a @ ''--'' @ b"
proof
  assume "slugify name = a @ ''--'' @ b"
  moreover have "no_double_dash (slugify name)"
    unfolding slugify_two_passes by (intro no_double_dash_strip no_double_dash_replace)
  ultimately show False using no_double_dash_raw by metis
qed

lemma filter_dropWhile_not: "filter P (dropWhile (\<lambda>c. \<not> P c) xs) = filter P xs"
  by (induction xs) auto

lemma filter_replace_runs:
  "filter is_slug_char (replace_runs (\<lambda>c. \<not> is_slug_char c) ''-'' s) = filter is_slug_char s"
proof (induction "\<lambda>c. \<not> is_slug_char c" "''-''" s rule: replace_runs.induct)
  case 1 then show ?case by simp
next
  case (2 c cs)
  have "\<not> is_slug_char CHR ''-''"
    by (simp add: is_slug_char_def code_unit_def)
  with 2 show ?case
    by (auto simp: filter_dropWhile_not)
qed

lemma filter_strip_dashes:
  "filter (\<lambda>c. \<not> is_dash c) (strip_dashes s) = filter (\<lambda>c. \<not> is_dash c) s"
proof -
  have a: "\<And>xs. filter (\<lambda>c. \<not> is_dash c) (dropWhile is_dash xs) = filter (\<lambda>c. \<not> is_dash c) xs"
    subgoal for xs by (induction xs) auto
    done
  show ?thesis
    by (simp add: strip_dashes_def a flip: rev_filter)
qed

lemma filter_not_dash_slug:
  "(\<And>c. c \<in> set s \<Longrightarrow> is_slug_char c \<or> c = CHR ''-'') \<Longrightarrow>
   filter (\<lambda>c. \<not> is_dash c) s = filter is_slug_char s"
  by (rule filter_cong) (auto simp: is_dash_def slug_char_raw)

lemma filter_lower:
  "filter is_slug_char (map lower_char s)
   = map (\<lambda>c. if (of_char c :: nat) \<in> {65..90} then char_of (of_char c + 32 :: nat) else c)
       (filter (\<lambda>c. (of_char c :: nat) \<in> {48..57} \<union> {65..90} \<union> {97..122}) s)"
  by (induction s) (simp_all add: alnum_raw lower_raw[symmetric] del: Un_iff atLeastAtMost_iff)

lemma slugify_content:
  "filter (\<lambda>c. c \<noteq> CHR ''-'') (slugify name)
   = map (\<lambda>c. if (of_char c :: nat) \<in> {65..90} then char_of (of_char c + 32 :: nat) else c)
       (filter (\<lambda>c. (of_char c :: nat) \<in> {48..57} \<union> {65..90} \<union> {97..122}) name)"
proof -
  let ?R = "replace_runs (\<lambda>c. \<not> is_slug_char c) ''-'' (toLowerCase name)"
  have "filter (\<lambda>c. \<not> is_dash c) (slugify name) = filter (\<lambda>c. \<not> is_dash c) ?R"
    unfolding slugify_two_passes by (rule filter_strip_dashes)
  also have "\<dots> = filter is_slug_char ?R"
    by (rule filter_not_dash_slug) (rule replace_runs_chars)
  also have "\<dots> = filter is_slug_char (toLowerCase name)"
    by (rule filter_replace_runs)
  finally show ?thesis
    by (simp add: toLowerCase_def filter_lower is_dash_def)
qed

lemma replace_runs_slug_prefix:
  "\<forall>c\<in>set w. is_slug_char c \<Longrightarrow>
   replace_runs (\<lambda>c. \<not> is_slug_char c) ''-'' (w @ t)
   = w @ replace_runs (\<lambda>c. \<not> is_slug_char c) ''-'' t"
  by (induction w) auto

lemma dropWhile_id: "xs = [] \<or> \<not> P (hd xs) \<Longrightarrow> dropWhile P xs = xs"
  by (cases xs) auto

lemma replace_runs_sep_prefix:
  assumes "p \<noteq> []" and "\<forall>c\<in>set p. \<not> is_slug_char c" and "t = [] \<or> is_slug_char (hd t)"
  shows "replace_runs (\<lambda>c. \<not> is_slug_char c) ''-'' (p @ t)
         = ''-'' @ replace_runs (\<lambda>c. \<not> is_slug_char c) ''-'' t"
proof -
  obtain c p' where p: "p = c # p'" using assms(1) by (cases p) auto
  have "dropWhile (\<lambda>c. \<not> is_slug_char c) (p' @ t) = dropWhile (\<lambda>c. \<not> is_slug_char c) t"
    using assms(2) p by simp
  also have "\<dots> = t"
    using assms(3) by (intro dropWhile_id) auto
  finally show ?thesis
    using assms(2) p by simp
qed

lemma replace_runs_sep_head:
  assumes "\<not> is_slug_char c"
  shows "\<exists>u. replace_runs (\<lambda>c. \<not> is_slug_char c) ''-'' (c # t) = ''-'' @ u
             \<and> (u = [] \<or> \<not> is_dash (hd u))"
proof -
  let ?d = "dropWhile (\<lambda>c. \<not> is_slug_char c) t"
  let ?u = "replace_runs (\<lambda>c. \<not> is_slug_char c) ''-'' ?d"
  have "?u = [] \<or> \<not> is_dash (hd ?u)"
  proof (cases "?u = []")
    case True then show ?thesis by simp
  next
    case nonempty: False
    then have "?d \<noteq> []" using replace_runs_nonempty by blast
    then have "is_slug_char (hd ?d)" using hd_dropWhile[of "\<lambda>c. \<not> is_slug_char c" t] by simp
    then show ?thesis using replace_runs_nonempty[OF nonempty] slug_char_not_dash by simp
  qed
  then show ?thesis using assms by auto
qed

lemma slug_law_lower:
  assumes "\<forall>c\<in>set p. \<not> is_slug_char c" and "w \<noteq> []" and "\<forall>c\<in>set w. is_slug_char c"
    and "t = [] \<or> \<not> is_slug_char (hd t)"
  shows "strip_dashes (replace_runs (\<lambda>c. \<not> is_slug_char c) ''-'' (p @ w @ t))
         = w @ (if strip_dashes (replace_runs (\<lambda>c. \<not> is_slug_char c) ''-'' t) = [] then []
                else ''-'' @ strip_dashes (replace_runs (\<lambda>c. \<not> is_slug_char c) ''-'' t))"
proof -
  define rstrip where "rstrip = (\<lambda>s. rev (dropWhile is_dash (rev s)))"
  let ?R = "replace_runs (\<lambda>c. \<not> is_slug_char c) ''-''"
  have strip_dashes_rstrip: "\<And>s. strip_dashes s = rstrip (dropWhile is_dash s)"
    by (simp add: strip_dashes_def rstrip_def)
  have rstrip_word: "rstrip (v @ x) = v @ rstrip x" if "v \<noteq> []" and "\<not> is_dash (last v)" for v x
  proof (cases "\<forall>c\<in>set (rev x). is_dash c")
    case True
    have a: "dropWhile is_dash (rev v) = rev v"
      using that by (intro dropWhile_id) (simp add: hd_rev)
    have b: "dropWhile is_dash (rev x @ rev v) = dropWhile is_dash (rev v)"
      using True by (intro dropWhile_append2) simp
    have c: "dropWhile is_dash (rev x) = []"
      using True by simp
    show ?thesis
      unfolding rstrip_def rev_append b a c by simp
  next
    case False
    then obtain c where "c \<in> set (rev x)" "\<not> is_dash c" by blast
    then show ?thesis
      by (simp add: rstrip_def)
  qed
  have rstrip_dash: "rstrip (''-'' @ u) = (if rstrip u = [] then [] else ''-'' @ rstrip u)"
    if "u = [] \<or> \<not> is_dash (hd u)" for u
  proof (cases "u = []")
    case True
    then show ?thesis by (simp add: rstrip_def is_dash_def)
  next
    case False
    with that have h: "\<not> is_dash (hd u)" by simp
    have "hd u \<in> set (rev u)" using False by simp
    then have d: "dropWhile is_dash (rev u @ ''-'') = dropWhile is_dash (rev u) @ ''-''"
      using h by (intro dropWhile_append1) auto
    have "dropWhile is_dash (rev u) \<noteq> []"
      using h False by (auto intro!: bexI[of _ "hd u"])
    then show ?thesis
      using d by (simp add: rstrip_def)
  qed
  have hw: "\<not> is_dash (hd w)" "\<not> is_dash (last w)"
    using assms(2,3) slug_char_not_dash by simp_all
  have wt: "?R (w @ t) = w @ ?R t"
    using assms(3) by (rule replace_runs_slug_prefix)
  have "dropWhile is_dash (?R (p @ w @ t)) = w @ ?R t"
  proof (cases "p = []")
    case True
    then show ?thesis using wt hw assms(2) by (cases w) auto
  next
    case False
    have "?R (p @ w @ t) = ''-'' @ ?R (w @ t)"
      using False assms(1) assms(2,3) by (intro replace_runs_sep_prefix) (cases w; auto)+
    then show ?thesis using wt hw assms(2) by (cases w) (auto simp: is_dash_def)
  qed
  then have a: "strip_dashes (?R (p @ w @ t)) = w @ rstrip (?R t)"
    using assms(2) hw by (simp add: strip_dashes_rstrip rstrip_word)
  have b: "rstrip (?R t) = (if strip_dashes (?R t) = [] then [] else ''-'' @ strip_dashes (?R t))"
  proof (cases t)
    case Nil
    then show ?thesis by (simp add: strip_dashes_def rstrip_def)
  next
    case (Cons c t')
    with assms(4) have "\<not> is_slug_char c" by simp
    then obtain u where u: "?R (c # t') = ''-'' @ u" "u = [] \<or> \<not> is_dash (hd u)"
      using replace_runs_sep_head by blast
    have "dropWhile is_dash (''-'' @ u) = u"
      using u(2) by (cases u) (auto simp: is_dash_def)
    then have "strip_dashes (?R t) = rstrip u"
      using u(1) Cons by (simp add: strip_dashes_rstrip)
    then show ?thesis
      using u Cons rstrip_dash[OF u(2)] by simp
  qed
  show ?thesis using a b by simp
qed

lemma slugify_word_law:
  assumes "\<forall>c\<in>set pre. (of_char c :: nat) \<notin> {48..57} \<union> {65..90} \<union> {97..122}"
    and "w \<noteq> []"
    and "\<forall>c\<in>set w. (of_char c :: nat) \<in> {48..57} \<union> {65..90} \<union> {97..122}"
    and "\<forall>c\<in>set (take 1 rest). (of_char c :: nat) \<notin> {48..57} \<union> {65..90} \<union> {97..122}"
  shows "slugify (pre @ w @ rest)
         = map (\<lambda>c. if (of_char c :: nat) \<in> {65..90} then char_of (of_char c + 32 :: nat) else c) w
           @ (if slugify rest = [] then [] else ''-'' @ slugify rest)"
proof -
  have 1: "\<forall>c\<in>set (map lower_char pre). \<not> is_slug_char c"
    using assms(1) by (simp add: alnum_raw del: Un_iff atLeastAtMost_iff)
  have 2: "map lower_char w \<noteq> []" using assms(2) by simp
  have 3: "\<forall>c\<in>set (map lower_char w). is_slug_char c"
    using assms(3) by (simp add: alnum_raw del: Un_iff atLeastAtMost_iff)
  have 4: "map lower_char rest = [] \<or> \<not> is_slug_char (hd (map lower_char rest))"
    using assms(4) by (cases rest) (simp_all add: alnum_raw del: Un_iff atLeastAtMost_iff)
  have 5: "map lower_char w
           = map (\<lambda>c. if (of_char c :: nat) \<in> {65..90} then char_of (of_char c + 32 :: nat) else c) w"
    using 3 by (intro map_cong refl lower_raw) simp
  show ?thesis
    unfolding slugify_two_passes toLowerCase_def map_append
    using slug_law_lower[OF 1 2 3 4] by (simp only: 5)
qed

lemma slugify_no_word:
  assumes "\<forall>c\<in>set seps. (of_char c :: nat) \<notin> {48..57} \<union> {65..90} \<union> {97..122}"
  shows "slugify seps = []"
proof (cases seps)
  case Nil
  then show ?thesis by (simp add: slugify_two_passes toLowerCase_def strip_dashes_def)
next
  case (Cons c cs)
  have 1: "\<forall>c\<in>set (map lower_char seps). \<not> is_slug_char c"
    using assms by (simp add: alnum_raw del: Un_iff atLeastAtMost_iff)
  have "map lower_char seps \<noteq> []" using Cons by simp
  from replace_runs_sep_prefix[OF this 1, of "[]"]
  show ?thesis
    by (simp add: slugify_two_passes toLowerCase_def strip_dashes_def is_dash_def)
qed

subsection \<open>The random suffix\<close>

lemma code_unit_char_of: "n < 256 \<Longrightarrow> code_unit (char_of n) = n"
  by (simp add: code_unit_def)

lemma hex_digit_is_hex: "d < 16 \<Longrightarrow> is_hex_char (hex_digit d)"
  by (simp add: is_hex_char_def hex_digit_def code_unit_char_of Let_def)

lemma unat_high_nibble: "unat (drop_bit 4 (b::8 word)) < 16"
proof -
  have "unat b < 256" using unsigned_less[of b] by simp
  then show ?thesis by (simp add: drop_bit_eq_div unat_div)
qed

lemma unat_low_nibble: "unat ((b::8 word) AND 15) < 16"
proof -
  have "b AND 15 = take_bit 4 b"
    using take_bit_eq_mask[of 4 b] by (simp add: mask_eq_exp_minus_1)
  then show ?thesis by (simp add: take_bit_eq_mod unat_mod)
qed

lemma hex_of_byte_shape: "length (hex_of_byte b) = 2 \<and> list_all is_hex_char (hex_of_byte b)"
  by (simp add: hex_of_byte_def hex_digit_is_hex unat_high_nibble unat_low_nibble)

lemma generateRandomSuffix_shape:
  "length (generateRandomSuffix rnd) = 4 \<and> list_all is_hex_char (generateRandomSuffix rnd)"
  by (simp add: generateRandomSuffix_def hex_of_byte_shape)

subsection \<open>A registered session stays registered\<close>

lemma importState_sessions: "sessionsBySessionId (fold enableAfk xs r) = sessionsBySessionId r"
  by (induction xs arbitrary: r) (auto simp: enableAfk_def)

lemma registry_apply_keeps_session:
  "sessionsBySessionId r s = Some d \<Longrightarrow> c \<noteq> Unregister s \<Longrightarrow>
   sessionsBySessionId (registry_apply c r) s = Some d"
  by (cases c)
     (auto simp: register_def unregister_def enableAfk_def disableAfk_def addPendingRequest_def
        incrementRetryCount_def removePendingByMessageId_def importState_def Let_def
        importState_sessions split: option.splits)

lemma registry_run_keeps_session:
  "sessionsBySessionId r s = Some d \<Longrightarrow> Unregister s \<notin> set calls \<Longrightarrow>
   sessionsBySessionId (registry_run calls r) s = Some d"
  unfolding registry_run_def
  by (induction calls arbitrary: r) (auto simp: registry_apply_keeps_session)

text \<open>
  Claim C9. Session registration is idempotent. The first \<open>register\<close> of a session id
  stores and returns the token \<open>slugify(project-name) + '-' +\<close> four hexadecimal
  characters, where slugify lowercases, replaces every run of characters outside
  \<open>[a-z0-9]\<close> by one dash and strips the leading and trailing dashes. After any further
  calls of the registry's methods that do not unregister the session, \<open>register\<close> with the
  same session id (and any project name) returns exactly that token and leaves the
  registry as it is.

  The slug is stated on the code units of the name, with a letter or digit being a code
  unit of \<open>0-9\<close>, \<open>A-Z\<close> or \<open>a-z\<close>. The slug consists of \<open>a-z\<close>, \<open>0-9\<close> and dashes only;
  it neither starts nor ends with a dash and has no two dashes in a row; without its dashes
  it is the letters and digits of the name, in order, with \<open>A-Z\<close> lowercased. The dashes
  stand where the name has separators between two words: a name made of a run of
  separators (possibly empty), a non-empty word of letters and digits, and a rest that is
  empty or starts with a separator, has the slug of the lowercased word followed, when
  the rest has a non-empty slug, by one dash and the slug of the rest; and a name without
  letters and digits has the empty slug.
\<close>

theorem register_idempotent:
  assumes "sessionsBySessionId r sid = None"
    and "Unregister sid \<notin> set calls"
  shows "(let fst_call = register sid name rnd now r;
              r' = registry_run calls (snd fst_call);
              snd_call = register sid name' rnd' now' r'
          in fst fst_call = slugify name @ ''-'' @ generateRandomSuffix rnd
           \<and> slugify name
               = strip_dashes (replace_runs (\<lambda>c. \<not> is_slug_char c) ''-'' (toLowerCase name))
           \<and> length (generateRandomSuffix rnd) = 4
           \<and> list_all is_hex_char (generateRandomSuffix rnd)
           \<and> map_option token (sessionsBySessionId (snd fst_call) sid) = Some (fst fst_call)
           \<and> fst snd_call = fst fst_call
           \<and> snd snd_call = r')
       \<and> (let alnum = (\<lambda>c. (of_char c :: nat) \<in> {48..57} \<union> {65..90} \<union> {97..122});
               lower = (\<lambda>c. if (of_char c :: nat) \<in> {65..90}
                             then char_of (of_char c + 32 :: nat) else c)
           in list_all (\<lambda>c. (of_char c :: nat) \<in> {48..57} \<union> {97..122} \<union> {45}) (slugify name)
            \<and> take 1 (slugify name) \<noteq> ''-''
            \<and> take 1 (rev (slugify name)) \<noteq> ''-''
            \<and> (\<forall>a b. slugify name \<noteq> a @ ''--'' @ b)
            \<and> filter (\<lambda>c. c \<noteq> CHR ''-'') (slugify name) = map lower (filter alnum name)
            \<and> (list_all (\<lambda>c. \<not> alnum c) pre \<and> word \<noteq> [] \<and> list_all alnum word
                  \<and> list_all (\<lambda>c. \<not> alnum c) (take 1 rest)
                \<longrightarrow> slugify (pre @ word @ rest)
                    = map lower word @ (if slugify rest = [] then [] else ''-'' @ slugify rest))
            \<and> (list_all (\<lambda>c. \<not> alnum c) seps \<longrightarrow> slugify seps = []))"
proof -
  let ?tok = "slugify name @ ''-'' @ generateRandomSuffix rnd"
  let ?d = "\<lparr>token = ?tok, projectSlug = slugify name, registeredAt = now\<rparr>"
  let ?r1 = "snd (register sid name rnd now r)"
  have first: "fst (register sid name rnd now r) = ?tok"
    using assms(1) by (simp add: register_def Let_def)
  have stored: "sessionsBySessionId ?r1 sid = Some ?d"
    using assms(1) by (simp add: register_def Let_def)
  have kept: "sessionsBySessionId (registry_run calls ?r1) sid = Some ?d"
    by (rule registry_run_keeps_session[OF stored assms(2)])
  have again: "register sid name' rnd' now' (registry_run calls ?r1) = (?tok, registry_run calls ?r1)"
    using kept by (simp add: register_def)
  have registry:
    "(let fst_call = register sid name rnd now r;
          r' = registry_run calls (snd fst_call);
          snd_call = register sid name' rnd' now' r'
      in fst fst_call = slugify name @ ''-'' @ generateRandomSuffix rnd
       \<and> slugify name
           = strip_dashes (replace_runs (\<lambda>c. \<not> is_slug_char c) ''-'' (toLowerCase name))
       \<and> length (generateRandomSuffix rnd) = 4
       \<and> list_all is_hex_char (generateRandomSuffix rnd)
       \<and> map_option token (sessionsBySessionId (snd fst_call) sid) = Some (fst fst_call)
       \<and> fst snd_call = fst fst_call
       \<and> snd snd_call = r')"
    using first stored again generateRandomSuffix_shape[of rnd] slugify_two_passes[of name]
    by (simp add: Let_def)
  have chars: "list_all (\<lambda>c. (of_char c :: nat) \<in> {48..57} \<union> {97..122} \<union> {45}) (slugify name)"
    unfolding list_all_iff
  proof
    fix c assume "c \<in> set (slugify name)"
    then have "is_slug_char c \<or> c = CHR ''-''" by (rule slugify_chars)
    then show "(of_char c :: nat) \<in> {48..57} \<union> {97..122} \<union> {45}"
      by (auto simp: slug_char_raw)
  qed
  have word: "slugify (pre @ word @ rest)
              = map (\<lambda>c. if (of_char c :: nat) \<in> {65..90}
                          then char_of (of_char c + 32 :: nat) else c) word
                @ (if slugify rest = [] then [] else ''-'' @ slugify rest)"
    if "list_all (\<lambda>c. (of_char c :: nat) \<notin> {48..57} \<union> {65..90} \<union> {97..122}) pre"
      and "word \<noteq> []"
      and "list_all (\<lambda>c. (of_char c :: nat) \<in> {48..57} \<union> {65..90} \<union> {97..122}) word"
      and "list_all (\<lambda>c. (of_char c :: nat) \<notin> {48..57} \<union> {65..90} \<union> {97..122}) (take 1 rest)"
    using that unfolding list_all_iff by (rule slugify_word_law)
  have none: "slugify seps = []"
    if "list_all (\<lambda>c. (of_char c :: nat) \<notin> {48..57} \<union> {65..90} \<union> {97..122}) seps"
    using that unfolding list_all_iff by (rule slugify_no_word)
  have shape:
    "(let alnum = (\<lambda>c. (of_char c :: nat) \<in> {48..57} \<union> {65..90} \<union> {97..122});
          lower = (\<lambda>c. if (of_char c :: nat) \<in> {65..90}
                        then char_of (of_char c + 32 :: nat) else c)
      in list_all (\<lambda>c. (of_char c :: nat) \<in> {48..57} \<union> {97..122} \<union> {45}) (slugify name)
       \<and> take 1 (slugify name) \<noteq> ''-''
       \<and> take 1 (rev (slugify name)) \<noteq> ''-''
       \<and> (\<forall>a b. slugify name \<noteq> a @ ''--'' @ b)
       \<and> filter (\<lambda>c. c \<noteq> CHR ''-'') (slugify name) = map lower (filter alnum name)
       \<and> (list_all (\<lambda>c. \<not> alnum c) pre \<and> word \<noteq> [] \<and> list_all alnum word
             \<and> list_all (\<lambda>c. \<not> alnum c) (take 1 rest)
           \<longrightarrow> slugify (pre @ word @ rest)
               = map lower word @ (if slugify rest = [] then [] else ''-'' @ slugify rest))
       \<and> (list_all (\<lambda>c. \<not> alnum c) seps \<longrightarrow> slugify seps = []))"
    unfolding Let_def
    using chars slugify_edges[of name] slugify_no_double[of name] slugify_content[of name]
      word none
    by blast
  show ?thesis
    using registry shape by (rule conjI)
qed

lemma slugify_examples:
  "slugify ''--Hello World--'' = ''hello-world''"
  "slugify '' World--'' = ''world''"
  "slugify ''My  Cool_App!!'' = ''my-cool-app''"
  "slugify ''___'' = ''''"
  by code_simp+

theorem register_idempotent_witness:
  "(let fst_call = register ''s1'' ''--Hello World--'' (0xa3, 0xf8) 5 createSessionRegistry;
        r' = registry_run [EnableAfk ''s1'', Register ''s2'' ''other'' (1, 2) 6]
               (snd fst_call);
        snd_call = register ''s1'' ''elsewhere'' (7, 7) 9 r'
    in fst fst_call = ''hello-world-a3f8'' \<and> fst snd_call = ''hello-world-a3f8'')
   \<and> slugify ''--Hello World--'' = ''hello-world''
   \<and> slugify (''--'' @ ''Hello'' @ '' World--'') = ''hello'' @ ''-'' @ slugify '' World--''
   \<and> slugify ''___'' = ''''"
proof -
  have a: "sessionsBySessionId createSessionRegistry ''s1'' = None"
    by (simp add: createSessionRegistry_def)
  have b: "Unregister ''s1'' \<notin> set [EnableAfk ''s1'', Register ''s2'' ''other'' (1, 2) 6]"
    by simp
  have suffix: "generateRandomSuffix (0xa3, 0xf8) = ''a3f8''"
    by code_simp
  note t = register_idempotent[OF a b, where name = "''--Hello World--''"
      and rnd = "(0xa3, 0xf8)" and now = 5 and name' = "''elsewhere''" and rnd' = "(7, 7)"
      and now' = 9 and pre = "''--''" and word = "''Hello''" and rest = "'' World--''"
      and seps = "''___''"]
  have tokens:
    "(let fst_call = register ''s1'' ''--Hello World--'' (0xa3, 0xf8) 5 createSessionRegistry;
          r' = registry_run [EnableAfk ''s1'', Register ''s2'' ''other'' (1, 2) 6]
                 (snd fst_call);
          snd_call = register ''s1'' ''elsewhere'' (7, 7) 9 r'
      in fst fst_call = ''hello-world-a3f8'' \<and> fst snd_call = ''hello-world-a3f8'')"
    using conjunct1[OF t] by (simp add: Let_def slugify_examples suffix)
  have law: "slugify (''--'' @ ''Hello'' @ '' World--'') = ''hello'' @ ''-'' @ slugify '' World--''"
    using conjunct2[OF t] by (simp add: Let_def slugify_examples)
  have none: "slugify ''___'' = ''''"
    using conjunct2[OF t] by (simp add: Let_def)
  show ?thesis
    using tokens law none by (simp add: slugify_examples)
qed

section \<open>Properties of the daemon\<close>

subsection \<open>No session is left with an empty sequence\<close>

lemma snd_set_update: "snd ` set (AList.update k v al) \<subseteq> insert v (snd ` set al)"
  by (induction al) auto

lemma snd_set_delete: "snd ` set (AList.delete k al) \<subseteq> snd ` set al"
  by (induction al) auto

lemma nonempty_values_update:
  "nonempty_values al \<Longrightarrow> v \<noteq> [] \<Longrightarrow> nonempty_values (AList.update k v al)"
  using snd_set_update[of k v al] by (auto simp: nonempty_values_def)

lemma nonempty_values_delete: "nonempty_values al \<Longrightarrow> nonempty_values (AList.delete k al)"
  using snd_set_delete[of k al] by (auto simp: nonempty_values_def)

lemma nonempty_values_Nil [simp]: "nonempty_values []"
  by (simp add: nonempty_values_def)

lemma no_empty_removeFromDualIndex:
  "no_empty_session d \<Longrightarrow> no_empty_session (removeFromDualIndex d mid sid)"
  by (auto simp: no_empty_session_def removeFromDualIndex_def Let_def
        intro!: nonempty_values_update nonempty_values_delete split: option.splits)

lemma no_empty_same:
  "requestsBySession d' = requestsBySession d \<Longrightarrow> no_empty_session d \<Longrightarrow> no_empty_session d'"
  by (simp add: no_empty_session_def)

lemma rbs_trackWaitingSocket [simp]:
  "requestsBySession (trackWaitingSocket mid sock wd d) = requestsBySession d"
  by (simp add: trackWaitingSocket_def Let_def)

lemma rbs_untrack_message [simp]: "requestsBySession (untrack_message sock mid d) = requestsBySession d"
  by (simp add: untrack_message_def split: option.splits)

lemma rbs_clearTimeout [simp]: "requestsBySession (clearTimeout t d) = requestsBySession d"
  by (simp add: clearTimeout_def)

lemma rbs_addToWhitelist [simp]: "requestsBySession (fst (addToWhitelist s t d)) = requestsBySession d"
  by (simp add: addToWhitelist_def Let_def)

lemma rbs_clearWhitelist [simp]: "requestsBySession (fst (clearWhitelist s d)) = requestsBySession d"
  by (simp add: clearWhitelist_def Let_def split: option.splits)

lemma rbs_set_offset [simp]: "requestsBySession (set_offset m r n d) = requestsBySession d"
  by (simp add: set_offset_def)

lemma no_empty_notify_permission:
  "no_empty_session d \<Longrightarrow> no_empty_session (fst (notify_permission cfg env msg sock carried d))"
  by (auto simp: notify_permission_def no_empty_session_def Let_def
        intro!: nonempty_values_update split: sum.splits)

lemma no_empty_handlePermissionRequest:
  assumes "no_empty_session d"
  shows "no_empty_session (fst (handlePermissionRequest cfg env msg sock d))"
proof -
  have upd: "\<And>k v. no_empty_session (d\<lparr>pendingRequests := AList.update k v (pendingRequests d)\<rparr>)"
    using assms by (simp add: no_empty_session_def)
  show ?thesis
    using assms upd
    by (auto simp: handlePermissionRequest_def Let_def
          intro!: no_empty_notify_permission no_empty_removeFromDualIndex
          split: option.splits prod.splits)
qed

lemma no_empty_handleStopRequest:
  "no_empty_session d \<Longrightarrow> no_empty_session (fst (handleStopRequest cfg env msg sock d))"
  by (auto simp: handleStopRequest_def no_empty_session_def Let_def
        intro!: nonempty_values_update split: sum.splits)

lemma rbs_afk_handlers [simp]:
  "requestsBySession (fst (handleEnableAfk msg sock d)) = requestsBySession d"
  "requestsBySession (fst (handleDisableAfk msg sock d)) = requestsBySession d"
  "requestsBySession (fst (handleStatus msg sock d)) = requestsBySession d"
  by (simp_all add: handleEnableAfk_def handleDisableAfk_def handleStatus_def Let_def)

lemma no_empty_handleRequest:
  "no_empty_session d \<Longrightarrow> no_empty_session (fst (handleRequest cfg env msg sock d))"
  unfolding handleRequest_def
  by (simp add: no_empty_handlePermissionRequest no_empty_handleStopRequest)
     (simp add: no_empty_session_def)

lemma no_empty_timerFired:
  "no_empty_session d \<Longrightarrow> no_empty_session (fst (timerFired tid d))"
proof -
  assume a: "no_empty_session d"
  have t: "\<And>x. no_empty_session (d\<lparr>timers := x\<rparr>)"
    using a by (simp add: no_empty_session_def)
  have p: "\<And>t d. no_empty_session d \<Longrightarrow> no_empty_session (fst (permissionTimeoutFired t d))"
  proof -
    fix t d
    assume n: "no_empty_session d"
    show "no_empty_session (fst (permissionTimeoutFired t d))"
    proof (cases "map_of (waitingSockets d) (Num (t_messageId t))")
      case None
      then show ?thesis using n by (simp add: permissionTimeoutFired_def)
    next
      case (Some parked)
      have "no_empty_session (untrack_message (t_socket t) (Num (t_messageId t))
               (d\<lparr>waitingSockets := AList.delete (Num (t_messageId t)) (waitingSockets d)\<rparr>))"
        by (rule no_empty_same[OF _ n]) simp
      then show ?thesis
        using Some by (simp add: permissionTimeoutFired_def Let_def no_empty_removeFromDualIndex)
    qed
  qed
  have s: "\<And>t d. no_empty_session d \<Longrightarrow> no_empty_session (fst (stopTimeoutFired t d))"
    unfolding stopTimeoutFired_def Let_def
    by (auto split: option.splits simp: no_empty_session_def)
  show ?thesis
    using a t p s by (auto simp: timerFired_def Let_def split: option.splits request_type.splits)
qed

lemma rbs_disconnect_message [simp]:
  "requestsBySession (fst (disconnect_message mid acc)) = requestsBySession (fst acc)"
  by (simp add: disconnect_message_def Let_def split: option.splits)

lemma rbs_fold_disconnect [simp]:
  "requestsBySession (fst (fold disconnect_message mids acc)) = requestsBySession (fst acc)"
  by (induction mids arbitrary: acc) simp_all

lemma rbs_handleSocketDisconnect [simp]:
  "requestsBySession (fst (handleSocketDisconnect sock d)) = requestsBySession d"
  by (simp add: handleSocketDisconnect_def Let_def split: option.splits)

lemma no_empty_handleResponse:
  "no_empty_session d \<Longrightarrow> no_empty_session (fst (handleResponse w mid parked txt d))"
proof -
  assume a: "no_empty_session d"
  let ?d3 = "untrack_message (w_socket parked) mid
      ((clearTimeout (w_timeout parked) d)\<lparr>waitingSockets :=
          AList.delete mid (waitingSockets (clearTimeout (w_timeout parked) d))\<rparr>)"
  have d3: "no_empty_session ?d3" using a by (simp add: no_empty_session_def)
  have d3w: "\<And>x. no_empty_session (?d3\<lparr>waitingSockets := x\<rparr>)"
    using a by (simp add: no_empty_session_def)
  have wl: "\<And>s t. no_empty_session (fst (addToWhitelist s t ?d3))"
    using a by (simp add: no_empty_session_def)
  show ?thesis
    unfolding handleResponse_def Let_def
    using a d3 d3w wl
    by (auto split: option.splits request_type.splits intro!: no_empty_removeFromDualIndex)
qed

lemma no_empty_processUpdate:
  "no_empty_session d \<Longrightarrow> no_empty_session (fst (processUpdate cfg w upd d))"
proof -
  assume a: "no_empty_session d"
  have c: "\<And>x. no_empty_session (d\<lparr>chatId := x\<rparr>)" using a by (simp add: no_empty_session_def)
  show ?thesis
    unfolding processUpdate_def Let_def
    using a c
    by (auto split: option.splits intro!: no_empty_removeFromDualIndex no_empty_handleResponse)
qed

lemma no_empty_process_updates:
  "no_empty_session d \<Longrightarrow> no_empty_session (fst (process_updates cfg w us d))"
proof (induction us arbitrary: d)
  case Nil
  then show ?case by simp
next
  case (Cons u us)
  have "no_empty_session (d\<lparr>telegramOffset := update_id u + 1\<rparr>)"
    using Cons.prems by (simp add: no_empty_session_def)
  then have "no_empty_session (fst (processUpdate cfg w u (d\<lparr>telegramOffset := update_id u + 1\<rparr>)))"
    by (rule no_empty_processUpdate)
  then have "no_empty_session (fst (process_updates cfg w us
                 (fst (processUpdate cfg w u (d\<lparr>telegramOffset := update_id u + 1\<rparr>)))))"
    by (rule Cons.IH)
  then show ?case
    using \<open>no_empty_session (fst (processUpdate cfg w u (d\<lparr>telegramOffset := update_id u + 1\<rparr>)))\<close>
    by (auto split: prod.splits option.splits)
qed

lemma rbs_poll_failed [simp]: "requestsBySession (fst (poll_failed err d)) = requestsBySession d"
  by (simp add: poll_failed_def Let_def)

lemma no_empty_processTelegramUpdates:
  "no_empty_session d \<Longrightarrow> no_empty_session (fst (processTelegramUpdates cfg w api d))"
proof -
  assume a: "no_empty_session d"
  let ?d0 = "d\<lparr>isPolling := True, consecutiveConflictErrors := 0\<rparr>"
  have "no_empty_session ?d0" using a by (simp add: no_empty_session_def)
  then have "\<And>us. no_empty_session (fst (process_updates cfg w us ?d0))"
    by (rule no_empty_process_updates)
  then have "\<And>us. nonempty_values (requestsBySession (fst (process_updates cfg w us ?d0)))"
    by (simp add: no_empty_session_def)
  then show ?thesis
    using a
    by (auto simp: processTelegramUpdates_def Let_def no_empty_session_def
          split: sum.splits prod.splits option.splits) (metis fst_conv)+
qed

lemma no_empty_handleLocalResolution:
  "no_empty_session d \<Longrightarrow> no_empty_session (fst (handleLocalResolution mid request res d))"
proof -
  assume n: "no_empty_session d"
  have "no_empty_session (removeFromDualIndex d mid (prop_key (sessionId request)))"
    using n by (rule no_empty_removeFromDualIndex)
  then show ?thesis
    by (simp add: handleLocalResolution_def Let_def no_empty_session_def)
qed

lemma rbs_expire_message [simp]:
  "requestsBySession (fst (expire_message m acc)) = requestsBySession (fst acc)"
  by (simp add: expire_message_def Let_def)

lemma rbs_fold_expire [simp]:
  "requestsBySession (fst (fold expire_message ms acc)) = requestsBySession (fst acc)"
  by (induction ms arbitrary: acc) simp_all

lemma no_empty_handleSessionExpired:
  "no_empty_session d \<Longrightarrow> no_empty_session (fst (handleSessionExpired sid ms d))"
  by (simp add: handleSessionExpired_def Let_def no_empty_session_def nonempty_values_delete)

lemma no_empty_set_offset: "no_empty_session d \<Longrightarrow> no_empty_session (set_offset m r n d)"
  by (simp add: no_empty_session_def)

lemma no_empty_checkPermissionResolution:
  "no_empty_session d \<Longrightarrow> no_empty_session (fst (checkPermissionResolution w mid request d))"
  by (auto simp: checkPermissionResolution_def Let_def no_empty_handleLocalResolution
        no_empty_set_offset split: option.splits)

lemma no_empty_checkStopResolution:
  "no_empty_session d \<Longrightarrow> no_empty_session (fst (checkStopResolution w mid request d))"
  by (auto simp: checkStopResolution_def Let_def no_empty_handleLocalResolution
        no_empty_set_offset split: option.splits)

lemma no_empty_poll_request:
  "no_empty_session d \<Longrightarrow> no_empty_session (fst (poll_request w mid d))"
  by (auto simp: poll_request_def Let_def no_empty_handleLocalResolution
        no_empty_checkPermissionResolution no_empty_checkStopResolution
        split: option.splits request_type.splits)

lemma no_empty_poll_requests:
  "no_empty_session (fst acc) \<Longrightarrow> no_empty_session (fst (poll_requests w sid i acc))"
proof (induction w sid i acc rule: poll_requests.induct)
  case (1 w sid i acc)
  show ?case
  proof (cases "i < length (live_ids (fst acc) sid)")
    case True
    have "no_empty_session (fst (poll_request w (live_ids (fst acc) sid ! i) (fst acc)))"
      using "1.prems" by (rule no_empty_poll_request)
    then have "no_empty_session (fst (poll_requests w sid (Suc i)
        (fst (poll_request w (live_ids (fst acc) sid ! i) (fst acc)),
         snd acc @ snd (poll_request w (live_ids (fst acc) sid ! i) (fst acc)))))"
      using "1.IH"[OF True] by simp
    then show ?thesis using True by (subst poll_requests.simps) simp
  next
    case False
    then show ?thesis using "1.prems" by (subst poll_requests.simps) simp
  qed
qed

lemma no_empty_checkSessionValidity:
  "no_empty_session d \<Longrightarrow> no_empty_session (fst (checkSessionValidity w sid ms d))"
  by (auto simp: checkSessionValidity_def no_empty_handleSessionExpired split: option.splits)

lemma no_empty_poll_session:
  "no_empty_session (fst acc) \<Longrightarrow> no_empty_session (fst (poll_session w sid acc))"
  by (auto simp: poll_session_def Let_def no_empty_poll_requests no_empty_checkSessionValidity
        split: option.splits)

lemma no_empty_fold_poll_session:
  "no_empty_session (fst acc) \<Longrightarrow> no_empty_session (fst (fold (poll_session w) sids acc))"
  by (induction sids arbitrary: acc) (simp_all add: no_empty_poll_session)

lemma no_empty_pollTranscripts:
  "no_empty_session d \<Longrightarrow> no_empty_session (fst (pollTranscripts w d))"
proof -
  assume n: "no_empty_session d"
  have "no_empty_session (fst (d\<lparr>isPollingTranscripts := True\<rparr>, [] :: effect list))"
    using n by (simp add: no_empty_session_def)
  then have "no_empty_session (fst (fold (poll_session w) (map fst (requestsBySession d))
                 (d\<lparr>isPollingTranscripts := True\<rparr>, [])))"
    by (rule no_empty_fold_poll_session)
  then show ?thesis using n by (simp add: pollTranscripts_def Let_def no_empty_session_def)
qed

lemma no_empty_step: "no_empty_session d \<Longrightarrow> no_empty_session (fst (step cfg ev d))"
proof (cases ev)
  case (SocketClosed sock)
  assume "no_empty_session d"
  then show ?thesis using SocketClosed by (simp add: no_empty_session_def)
next
  case (SocketDestroyed sock)
  assume "no_empty_session d"
  then show ?thesis using SocketDestroyed by (simp add: no_empty_session_def)
qed (simp_all add: no_empty_handleRequest no_empty_timerFired no_empty_processTelegramUpdates
       no_empty_pollTranscripts)

lemma no_empty_run: "no_empty_session d \<Longrightarrow> no_empty_session (run cfg evs d)"
  unfolding run_def by (induction evs arbitrary: d) (simp_all add: no_empty_step)

lemma no_empty_start: "no_empty_session (fst (start cfg loaded))"
proof (cases "s_requestsBySession loaded")
  case Nil
  then show ?thesis by (simp add: start_def Let_def no_empty_session_def)
next
  case (Cons a list)
  then show ?thesis by (simp add: start_def Let_def no_empty_session_def)
qed

subsection \<open>The example states\<close>

lemma example_started_facts:
  "chatId example_started = Some 12345" "pendingRequests example_started = []"
  "requestsBySession example_started = []" "sessionWhitelists example_started = []"
  "afkSessions example_started = []"
  "afkEnabledSessions (reg example_started) = []" "waitingSockets example_started = []"
  "socketToMessageIds example_started = []" "timers example_started = []"
  "nextTimer example_started = 0" "destroyed example_started = []"
  "pendingByMessageId (reg example_started) = []"
  "sessionsBySessionId (reg example_started) = Map.empty"
  "consecutiveConflictErrors example_started = 0" "isPolling example_started = False"
  "isPollingTranscripts example_started = False"
  by (simp_all add: example_started_def start_def example_loaded_def Let_def importState_def
        createSessionRegistry_def)

lemma example_enabled_facts:
  "chatId example_enabled = Some 12345" "pendingRequests example_enabled = []"
  "requestsBySession example_enabled = []" "sessionWhitelists example_enabled = []"
  "afkSessions example_enabled = [''S'']"
  "afkEnabledSessions (reg example_enabled) = [''S'']" "waitingSockets example_enabled = []"
  "socketToMessageIds example_enabled = []" "timers example_enabled = []"
  "nextTimer example_enabled = 0" "destroyed example_enabled = []"
  "pendingByMessageId (reg example_enabled) = []"
  "sessionsBySessionId (reg example_enabled) = Map.empty"
  "consecutiveConflictErrors example_enabled = 0" "isPolling example_enabled = False"
  "isPollingTranscripts example_enabled = False"
  by (simp_all add: example_enabled_def handleRequest_def handleEnableAfk_def example_msg_def
        Let_def enableAfk_def getAfkEnabledSessions_def example_started_facts)

lemma string_of_42: "string_of_int 42 = ''42''"
  by code_simp

lemma example_parked_facts:
  "chatId example_parked = Some 12345"
  "pendingRequests example_parked = [(''42'', example_entry)]"
  "requestsBySession example_parked = [(''S'', [''42''])]"
  "sessionWhitelists example_parked = []"
  "afkSessions example_parked = [''S'']"
  "afkEnabledSessions (reg example_parked) = [''S'']"
  "waitingSockets example_parked = [(Num 42, example_waiting)]"
  "socketToMessageIds example_parked = [(7, [Num 42])]"
  "timers example_parked =
     [(0, \<lparr>t_type = Permission, t_messageId = 42, t_socket = 7, t_sessionId = ''S'',
           t_requestId = ''r2''\<rparr>)]"
  "nextTimer example_parked = 1" "destroyed example_parked = []"
  "pendingByMessageId (reg example_parked) = []"
  "consecutiveConflictErrors example_parked = 0" "isPolling example_parked = False"
  "isPollingTranscripts example_parked = False"
  by (simp_all add: example_parked_def handleRequest_def handlePermissionRequest_def
        notify_permission_def example_msg_def example_io_def example_config_def
        DEFAULT_CONFIG_def isConfigured_def isAfkEnabled_def isToolWhitelisted_def
        findExistingPendingRequest_def trackWaitingSocket_def register_def
        isBulkApprovalAllowed_def example_entry_def example_waiting_def
        Let_def example_enabled_facts string_of_42)

lemma example_closed_facts:
  "pendingRequests example_closed = []"
  "requestsBySession example_closed = [(''S'', [''42''])]"
  by (simp_all add: example_closed_def handleSocketDisconnect_def disconnect_message_def
        clearTimeout_def removePendingByMessageId_def exportState_pendingRequests_def
        Let_def example_parked_facts)

subsection \<open>Dual-index consistency and the socket close\<close>

text \<open>
  Claim C1. Dual-index consistency should hold in every reachable state, every mutation
  updating both indices together. The socket-close path does not: in the example, where
  one permission request is parked on socket 7 and the indices are consistent, the close
  of socket 7 empties \<open>pendingRequests\<close> and leaves message id 42 in
  \<open>requestsBySession\<close>, so the indices are no longer consistent.
\<close>

theorem socket_close_breaks_dual_index:
  "dual_index_consistent example_parked
   \<and> pendingRequests example_closed = []
   \<and> requestsBySession example_closed = [(''S'', [''42''])]
   \<and> \<not> dual_index_consistent example_closed"
  by (simp add: dual_index_consistent_def live_ids_def example_parked_facts
        example_closed_facts example_entry_def)

subsection \<open>The three mutations of the session index\<close>

lemma removeFromDualIndex_last:
  "map_of (requestsBySession d) sid = Some [js_String mid] \<Longrightarrow>
   map_of (requestsBySession (removeFromDualIndex d mid sid)) sid = None"
  by (simp add: removeFromDualIndex_def Let_def delete_conv')

lemma handleSessionExpired_key:
  "map_of (requestsBySession (fst (handleSessionExpired sid ms d))) sid = None"
  by (simp add: handleSessionExpired_def Let_def delete_conv')

lemma notify_permission_appends:
  "sendResult env = Inr m \<Longrightarrow>
   live_ids (fst (notify_permission cfg env msg sock carried d)) (session_id msg)
   = live_ids d (session_id msg) @ [js_String (Num m)]"
  by (simp add: notify_permission_def Let_def live_ids_def update_conv' split: option.splits)

text \<open>
  Claim C10. In every state reached from start-up by any events, \<open>requestsBySession\<close>
  maps no session id to an empty sequence. Removing the last message id of a session
  with \<open>removeFromDualIndex\<close> deletes the key, session expiry deletes the key, and the
  insertion of the permission path appends the new message id to the sequence of the
  session (the empty one if the key is new).
\<close>

theorem requests_by_session_never_empty:
  "no_empty_session (run cfg evs (fst (start cfg loaded)))
   \<and> (map_of (requestsBySession d) sid = Some [js_String mid] \<longrightarrow>
        map_of (requestsBySession (removeFromDualIndex d mid sid)) sid = None)
   \<and> map_of (requestsBySession (fst (handleSessionExpired sid ms d))) sid = None
   \<and> (sendResult env = Inr m \<longrightarrow>
        live_ids (fst (notify_permission cfg env msg sock carried d)) (session_id msg)
        = live_ids d (session_id msg) @ [js_String (Num m)])"
  using no_empty_run[OF no_empty_start] removeFromDualIndex_last handleSessionExpired_key
    notify_permission_appends
  by blast

lemma example_parked_run:
  "run example_config
     [HookRequest (example_msg ''enable_afk'' ''r1'') 7 (example_io 0),
      HookRequest (example_msg ''permission_request'' ''r2'') 7 (example_io 42)]
     (fst (start example_config example_loaded)) = example_parked"
  by (simp add: run_def example_parked_def example_enabled_def example_started_def)

lemma string_of_43: "string_of_int 43 = ''43''"
  by code_simp

theorem requests_by_session_never_empty_witness:
  "no_empty_session example_parked
   \<and> map_of (requestsBySession example_parked) ''S'' = Some [js_String (Num 42)]
   \<and> map_of (requestsBySession (removeFromDualIndex example_parked (Num 42) ''S'')) ''S'' = None
   \<and> sendResult (example_io 43) = Inr 43
   \<and> live_ids (fst (notify_permission example_config (example_io 43)
                      (example_msg ''permission_request'' ''r3'') 8 None example_parked)) ''S''
      = [''42'', ''43'']"
proof -
  have a: "map_of (requestsBySession example_parked) ''S'' = Some [js_String (Num 42)]"
    by (simp add: example_parked_facts string_of_42)
  have b: "sendResult (example_io 43) = Inr 43"
    by (simp add: example_io_def)
  have c: "session_id (example_msg ''permission_request'' ''r3'') = ''S''"
    by (simp add: example_msg_def)
  have d: "live_ids example_parked ''S'' @ [js_String (Num 43)] = [''42'', ''43'']"
    by (simp add: live_ids_def example_parked_facts string_of_43)
  note t = requests_by_session_never_empty[where cfg = example_config
        and evs = "[HookRequest (example_msg ''enable_afk'' ''r1'') 7 (example_io 0),
          HookRequest (example_msg ''permission_request'' ''r2'') 7 (example_io 42)]"
        and loaded = example_loaded and d = example_parked and sid = "''S''" and mid = "Num 42"
        and ms = "[]" and env = "example_io 43" and m = 43
        and msg = "example_msg ''permission_request'' ''r3''" and sock = 8 and carried = None]
  show ?thesis
    using t a b c d unfolding example_parked_run by simp
qed

subsection \<open>Retries of a permission request\<close>

lemma pendingRequests_removeFromDualIndex:
  "pendingRequests (removeFromDualIndex d mid sid) = AList.delete (js_String mid) (pendingRequests d)"
  by (simp add: removeFromDualIndex_def Let_def split: option.splits)

lemma example_parked_existing:
  "findExistingPendingRequest example_parked ''S'' (Some ''Bash'') (Some ''npm test'')
   = Some (example_entry, ''42'')"
  by (simp add: findExistingPendingRequest_def example_parked_facts example_entry_def)

lemma example_retried_pending:
  "pendingRequests example_retried
   = [(''42'', example_entry\<lparr>retryCount := Some 1\<rparr>),
      (''43'', example_entry\<lparr>requestId := Some ''r3'', retryCount := Some 1\<rparr>)]"
  by (simp add: example_retried_def handleRequest_def handlePermissionRequest_def
        notify_permission_def example_msg_def example_io_def example_config_def
        DEFAULT_CONFIG_def isConfigured_def isAfkEnabled_def isToolWhitelisted_def
        isMaxRetriesExceeded_def trackWaitingSocket_def register_def
        isBulkApprovalAllowed_def example_entry_def
        Let_def example_parked_facts example_parked_existing[unfolded example_entry_def] string_of_43)

text \<open>
  Claim C3, as stated: at most one PendingRequest exists per (session-id, tool-name,
  command-text) triple. It fails: after the second, identical request of the example
  the store holds two entries, under message ids 42 and 43, with the same triple.
\<close>

theorem retry_leaves_two_pendings:
  "map_option triple_of (map_of (pendingRequests example_retried) ''42'')
     = Some (Some ''S'', Some ''Bash'', Some ''npm test'')
   \<and> map_option triple_of (map_of (pendingRequests example_retried) ''43'')
     = Some (Some ''S'', Some ''Bash'', Some ''npm test'')"
  by (simp add: example_retried_pending triple_of_def example_entry_def)

text \<open>
  Claim C3, amended. A new permission request that passes the gates and matches the
  triple of an existing pending increments the retry-count of that pending. If the new
  count reaches max-retries, the existing pending is removed from the store, nothing is
  added, and the last frame is \<open>timeout_final\<close>. Otherwise the existing pending stays in
  the store with the new count, and, when the notification is sent, a further pending
  with the same triple and the same count is stored under the new message id.
\<close>

theorem retry_carries_count:
  assumes "alwaysEnabled cfg \<or> isAfkEnabled (reg d) (session_id msg)"
    and "isConfigured (telegram cfg)"
    and "truthy_num (chatId d)"
    and "\<not> isToolWhitelisted d (session_id msg) (tool_name msg)"
    and "findExistingPendingRequest d (session_id msg) (Some (tool_name msg)) (message msg)
         = Some (request, existingId)"
  shows "(let count = (case retryCount request of None \<Rightarrow> 0 | Some n \<Rightarrow> n) + 1;
              bumped = request\<lparr>retryCount := Some count\<rparr>;
              r = handlePermissionRequest cfg env msg sock d
          in (count \<ge> maxRetries cfg \<longrightarrow>
                map_of (pendingRequests (fst r)) = (map_of (pendingRequests d))(existingId := None)
                \<and> last (snd r) = Respond sock (TimeoutFinal (request_id msg)))
           \<and> (count < maxRetries cfg \<longrightarrow>
                (case sendResult env of
                   Inl err \<Rightarrow>
                     map_of (pendingRequests (fst r))
                     = (map_of (pendingRequests d))(existingId \<mapsto> bumped)
                 | Inr m \<Rightarrow>
                     (js_String (Num m) \<noteq> existingId \<longrightarrow>
                        map_of (pendingRequests (fst r)) existingId = Some bumped)
                     \<and> map_option triple_of (map_of (pendingRequests (fst r)) (js_String (Num m)))
                        = Some (Some (session_id msg), Some (tool_name msg), message msg)
                     \<and> map_option retryCount (map_of (pendingRequests (fst r)) (js_String (Num m)))
                        = Some (Some count))))"
proof -
  let ?count = "(case retryCount request of None \<Rightarrow> 0 | Some n \<Rightarrow> n) + 1"
  let ?d1 = "d\<lparr>pendingRequests :=
                 AList.update existingId (request\<lparr>retryCount := Some ?count\<rparr>) (pendingRequests d)\<rparr>"
  have final: "?count \<ge> maxRetries cfg \<Longrightarrow>
      handlePermissionRequest cfg env msg sock d
      = (removeFromDualIndex ?d1 (Str existingId) (session_id msg),
         (if truthy_num (chatId (removeFromDualIndex ?d1 (Str existingId) (session_id msg)))
              \<and> existingId \<noteq> []
          then [DeleteMessage (chatId (removeFromDualIndex ?d1 (Str existingId) (session_id msg)))
                  (Str existingId)] else [])
         @ [SaveState (the_state (removeFromDualIndex ?d1 (Str existingId) (session_id msg))),
            Respond sock (TimeoutFinal (request_id msg))])"
    using assms by (auto simp: handlePermissionRequest_def Let_def isMaxRetriesExceeded_def)
  have again: "?count < maxRetries cfg \<Longrightarrow>
      handlePermissionRequest cfg env msg sock d
      = notify_permission cfg env msg sock (Some ?count) ?d1"
    using assms by (auto simp: handlePermissionRequest_def Let_def isMaxRetriesExceeded_def)
  have a: "?count \<ge> maxRetries cfg \<Longrightarrow>
      map_of (pendingRequests (fst (handlePermissionRequest cfg env msg sock d)))
        = (map_of (pendingRequests d))(existingId := None)
      \<and> last (snd (handlePermissionRequest cfg env msg sock d))
        = Respond sock (TimeoutFinal (request_id msg))"
    by (simp add: final pendingRequests_removeFromDualIndex delete_conv' update_conv')
  have b: "?count < maxRetries cfg \<Longrightarrow>
      (case sendResult env of
         Inl err \<Rightarrow>
           map_of (pendingRequests (fst (handlePermissionRequest cfg env msg sock d)))
           = (map_of (pendingRequests d))(existingId \<mapsto> request\<lparr>retryCount := Some ?count\<rparr>)
       | Inr m \<Rightarrow>
           (js_String (Num m) \<noteq> existingId \<longrightarrow>
              map_of (pendingRequests (fst (handlePermissionRequest cfg env msg sock d))) existingId
              = Some (request\<lparr>retryCount := Some ?count\<rparr>))
           \<and> map_option triple_of
                (map_of (pendingRequests (fst (handlePermissionRequest cfg env msg sock d)))
                   (js_String (Num m)))
              = Some (Some (session_id msg), Some (tool_name msg), message msg)
           \<and> map_option retryCount
                (map_of (pendingRequests (fst (handlePermissionRequest cfg env msg sock d)))
                   (js_String (Num m)))
              = Some (Some ?count))"
    by (simp add: again notify_permission_def Let_def update_conv' triple_of_def
          trackWaitingSocket_def split: sum.splits)
  show ?thesis
    unfolding Let_def using a b by blast
qed

theorem retry_carries_count_witness:
  "findExistingPendingRequest example_parked ''S'' (Some ''Bash'') (Some ''npm test'')
     = Some (example_entry, ''42'')
   \<and> map_option retryCount (map_of (pendingRequests example_retried) ''42'') = Some (Some 1)
   \<and> map_option retryCount (map_of (pendingRequests example_retried) ''43'') = Some (Some 1)"
proof -
  have g1: "alwaysEnabled example_config
            \<or> isAfkEnabled (reg example_parked) (session_id (example_msg ''permission_request'' ''r3''))"
    by (simp add: isAfkEnabled_def example_parked_facts example_msg_def)
  have g2: "isConfigured (telegram example_config)"
    by (simp add: isConfigured_def example_config_def DEFAULT_CONFIG_def)
  have g3: "truthy_num (chatId example_parked)"
    by (simp add: example_parked_facts)
  have g4: "\<not> isToolWhitelisted example_parked (session_id (example_msg ''permission_request'' ''r3''))
              (tool_name (example_msg ''permission_request'' ''r3''))"
    by (simp add: isToolWhitelisted_def example_parked_facts)
  have g5: "findExistingPendingRequest example_parked
              (session_id (example_msg ''permission_request'' ''r3''))
              (Some (tool_name (example_msg ''permission_request'' ''r3'')))
              (message (example_msg ''permission_request'' ''r3''))
            = Some (example_entry, ''42'')"
    by (simp add: example_msg_def example_parked_existing)
  have r: "fst (handlePermissionRequest example_config (example_io 43)
                  (example_msg ''permission_request'' ''r3'') 8 example_parked)
           = example_retried"
    by (simp add: example_retried_def handleRequest_def example_msg_def)
  have c: "retryCount example_entry = Some 0" "maxRetries example_config = 3"
    "sendResult (example_io 43) = Inr 43"
    by (simp_all add: example_entry_def example_config_def DEFAULT_CONFIG_def example_io_def)
  show ?thesis
    using retry_carries_count[OF g1 g2 g3 g4 g5, of "example_io 43" 8] example_parked_existing
    by (simp add: Let_def r c string_of_43)
qed

subsection \<open>A reply that is delivered\<close>

lemma string_of_42_nat: "string_of_nat 42 = ''42''"
  by code_simp

lemma example_parked_exists:
  "checkRequestExists example_parked (Num 42) = Some example_entry"
  by (simp add: checkRequestExists_def example_parked_facts string_of_42)


lemma trim_yes: "trim ''yes'' = ''yes''"
  by (simp add: trim_def is_js_space_def code_unit_def)

lemma parse_yes: "parsePermissionResponse ''yes'' b = Some Approved"
  by (simp add: parsePermissionResponse_def trim_yes toLowerCase_def lower_char_def code_unit_def
        Let_def)

lemma example_yes_delivered:
  "snd (handleResponse w (Num 42) example_waiting (Some ''yes'') example_parked)
   = [ClearTimeout 0,
      SaveState (the_state (fst (handleResponse w (Num 42) example_waiting (Some ''yes'')
                                    example_parked))),
      Respond 7 (VerdictFrame ''r2'' Approved)]"
  by (simp add: handleResponse_def example_parked_exists parse_yes Let_def example_waiting_def
        deliver_def clearTimeout_def untrack_message_def example_parked_facts
        removeFromDualIndex_def string_of_42)

subsection \<open>Pairing\<close>

lemma chatId_removeFromDualIndex [simp]: "chatId (removeFromDualIndex d mid sid) = chatId d"
  by (simp add: removeFromDualIndex_def Let_def split: option.splits)

lemma chatId_small_steps [simp]:
  "chatId (clearTimeout t d) = chatId d"
  "chatId (untrack_message sock mid d) = chatId d"
  "chatId (fst (addToWhitelist s tn d)) = chatId d"
  by (simp_all add: clearTimeout_def untrack_message_def addToWhitelist_def Let_def
        split: option.splits)

lemma chatId_handleResponse [simp]:
  "chatId (fst (handleResponse w mid parked txt d)) = chatId d"
  by (simp add: handleResponse_def Let_def split: option.splits request_type.splits)

text \<open>
  The paired chat id after an update, for every update and every state: a message whose
  trimmed text is \<open>/start\<close> and whose chat id is a non-zero number makes that chat id the
  paired one; every other update leaves the paired chat id as it is.
\<close>

lemma pairing_rule:
  "chatId (fst (processUpdate cfg w upd d)) =
     (case u_message upd of
        None \<Rightarrow> chatId d
      | Some msg \<Rightarrow>
          if map_option trim (m_text msg) = Some ''/start'' \<and> truthy_num (m_chat_id msg)
          then m_chat_id msg else chatId d)"
  by (simp add: processUpdate_def Let_def split: option.splits)

text \<open>
  Claim C2. The paired chat id is written once: a \<open>/start\<close> message records the chat id of
  its sender only when none is set, and no update changes a paired chat id that is set.
  The code does not keep to it. The example daemon is paired with chat 12345 and holds a
  pending permission request; processing the \<open>/start\<close> message of chat 222 makes 222
  the paired chat id, saves the state with it and sends the confirmation to chat 222.
  From then on the reply \<open>yes\<close> of chat 12345 to notification 42 is dropped without any
  effect, where before the \<open>/start\<close> it sent the verdict to the hook.
\<close>

theorem start_overwrites_pairing:
  "chatId example_parked = Some 12345
   \<and> processUpdate example_config (example_world []) example_start_update example_parked
     = (example_parked\<lparr>chatId := Some 222\<rparr>,
        [SaveState (the_state (example_parked\<lparr>chatId := Some 222\<rparr>)),
         SendMessage (Some 222) PairedConfirmation],
        None)
   \<and> s_chatId (the_state (example_parked\<lparr>chatId := Some 222\<rparr>)) = Some 222
   \<and> processUpdate example_config (example_world []) (example_reply ''yes'' 1700000000)
        (example_parked\<lparr>chatId := Some 222\<rparr>)
     = (example_parked\<lparr>chatId := Some 222\<rparr>, [], None)
   \<and> snd (processUpdate example_config (example_world []) (example_reply ''yes'' 1700000000)
            example_parked)
     = ([ClearTimeout 0,
         SaveState (the_state (fst (handleResponse (example_world []) (Num 42) example_waiting
                                       (Some ''yes'') example_parked))),
         Respond 7 (VerdictFrame ''r2'' Approved)], None)"
proof -
  have paired: "chatId example_parked = Some 12345"
    by (simp add: example_parked_facts)
  have start: "processUpdate example_config (example_world []) example_start_update
                 example_parked
     = (example_parked\<lparr>chatId := Some 222\<rparr>,
        [SaveState (the_state (example_parked\<lparr>chatId := Some 222\<rparr>)),
         SendMessage (Some 222) PairedConfirmation],
        None)"
    by (simp add: processUpdate_def example_start_update_def Let_def trim_def is_js_space_def
          code_unit_def)
  have saved: "s_chatId (the_state (example_parked\<lparr>chatId := Some 222\<rparr>)) = Some 222"
    by (simp add: the_state_def)
  have dropped: "processUpdate example_config (example_world [])
                   (example_reply ''yes'' 1700000000) (example_parked\<lparr>chatId := Some 222\<rparr>)
     = (example_parked\<lparr>chatId := Some 222\<rparr>, [], None)"
    by (simp add: processUpdate_def example_reply_def Let_def trim_yes)
  have before: "snd (processUpdate example_config (example_world [])
                       (example_reply ''yes'' 1700000000) example_parked)
     = ([ClearTimeout 0,
         SaveState (the_state (fst (handleResponse (example_world []) (Num 42) example_waiting
                                       (Some ''yes'') example_parked))),
         Respond 7 (VerdictFrame ''r2'' Approved)], None)"
    by (simp add: processUpdate_def example_reply_def example_parked_facts Let_def trim_yes
          example_yes_delivered)
  show ?thesis
    using paired start saved dropped before by blast
qed

subsection \<open>The staleness filter\<close>


lemma filter_keep_removeAll:
  "\<not> P u \<Longrightarrow> filter P (removeAll u us) = filter P us"
  by (induction us) auto

text \<open>
  For every date other than 0 the filter does discard: an update returned by the chat
  service whose message date is not 0 and is more than the staleness threshold older than
  the clock is not among the updates that \<open>getUpdates\<close> returns, and the tick does what
  it would do had the chat service not sent it, so it produces no resolution. An update
  with no message, or whose message has no date, is kept.
\<close>

lemma undated_update_kept:
  "keep_update opts now \<lparr>update_id = i, u_message = None\<rparr>"
  "keep_update opts now
     \<lparr>update_id = i,
      u_message = Some \<lparr>m_chat_id = c, m_text = t, m_reply_to = r, m_date = None\<rparr>\<rparr>"
  by (simp_all add: keep_update_def)

lemma stale_updates_discarded:
  assumes "u \<in> set updates"
    and "u_message u = Some m"
    and "m_date m = Some dt"
    and "dt \<noteq> 0"
    and "real_of_int (nowMs w) / 1000 - real_of_int dt > real_of_int (staleThreshold (telegram cfg))"
  shows "(case getUpdates (telegram cfg) (nowMs w) (Inr updates) of
            Inl err \<Rightarrow> False
          | Inr kept \<Rightarrow> u \<notin> set kept)
         \<and> processTelegramUpdates cfg w (Inr updates) d
           = processTelegramUpdates cfg w (Inr (removeAll u updates)) d"
proof -
  have drop: "\<not> keep_update (telegram cfg) (nowMs w) u"
    using assms(2-5) by (simp add: keep_update_def Let_def)
  have same: "getUpdates (telegram cfg) (nowMs w) (Inr (removeAll u updates))
              = getUpdates (telegram cfg) (nowMs w) (Inr updates)"
    using drop by (simp add: getUpdates_def filter_keep_removeAll)
  have gone: "(case getUpdates (telegram cfg) (nowMs w) (Inr updates) of
                 Inl err \<Rightarrow> False | Inr kept \<Rightarrow> u \<notin> set kept)"
    using drop by (simp add: getUpdates_def)
  show ?thesis
    using gone by (simp add: processTelegramUpdates_def same)
qed

lemma stale_updates_discarded_example:
  "real_of_int (nowMs (example_world [])) / 1000 - real_of_int 1699990000
     > real_of_int (staleThreshold (telegram example_config))
   \<and> getUpdates (telegram example_config) (nowMs (example_world []))
        (Inr [example_reply ''yes'' 1699990000]) = Inr []
   \<and> processTelegramUpdates example_config (example_world [])
        (Inr [example_reply ''yes'' 1699990000]) example_parked
      = processTelegramUpdates example_config (example_world []) (Inr []) example_parked"
proof -
  have a: "example_reply ''yes'' 1699990000 \<in> set [example_reply ''yes'' 1699990000]"
    by simp
  have b: "u_message (example_reply ''yes'' 1699990000)
           = Some \<lparr>m_chat_id = Some 12345, m_text = Some ''yes'', m_reply_to = Some 42,
                   m_date = Some 1699990000\<rparr>"
    by (simp add: example_reply_def)
  have c: "m_date \<lparr>m_chat_id = Some 12345, m_text = Some ''yes'', m_reply_to = Some 42,
                   m_date = Some 1699990000\<rparr> = Some 1699990000"
    by simp
  have d: "(1699990000 :: int) \<noteq> 0"
    by simp
  have e: "real_of_int (nowMs (example_world [])) / 1000 - real_of_int 1699990000
           > real_of_int (staleThreshold (telegram example_config))"
    by (simp add: example_world_def example_config_def DEFAULT_CONFIG_def)
  have k: "getUpdates (telegram example_config) (nowMs (example_world []))
             (Inr [example_reply ''yes'' 1699990000]) = Inr []"
    by (simp add: getUpdates_def keep_update_def example_reply_def example_world_def
          example_config_def DEFAULT_CONFIG_def)
  show ?thesis
    using stale_updates_discarded[OF a b c d e, of example_parked] e k by simp
qed

subsection \<open>Three conflicts in a row\<close>

lemma shutdown_unbound: "''shutdown'' \<notin> set bindings_in_scope"
  by (simp add: bindings_in_scope_def)

lemma conflict_tick:
  assumes "isConfigured (telegram cfg)" and "\<not> isPolling d"
    and "str_includes (error_message err) ''Conflict''"
  shows "processTelegramUpdates cfg w (Inl err) d
         = (let r = poll_failed err (d\<lparr>isPolling := True\<rparr>) in ((fst r)\<lparr>isPolling := False\<rparr>, snd r))"
  using assms by (simp add: processTelegramUpdates_def getUpdates_def isConfigured_def)

lemma includes_nonempty: "str_includes s ''Conflict'' \<Longrightarrow> s \<noteq> []"
  by (cases s) auto

lemma counted_conflict:
  assumes "isConfigured (telegram cfg)" and "\<not> isPolling d"
    and "str_includes (error_message err) ''Conflict''"
    and "consecutiveConflictErrors d + 1 < 3"
  shows "snd (processTelegramUpdates cfg w (Inl err) d) = []
         \<and> \<not> isPolling (fst (processTelegramUpdates cfg w (Inl err) d))
         \<and> consecutiveConflictErrors (fst (processTelegramUpdates cfg w (Inl err) d))
           = consecutiveConflictErrors d + 1
         \<and> chatId (fst (processTelegramUpdates cfg w (Inl err) d)) = chatId d"
  using assms includes_nonempty[OF assms(3)]
  by (simp add: conflict_tick poll_failed_def Let_def)

lemma third_conflict:
  assumes "isConfigured (telegram cfg)" and "\<not> isPolling d"
    and "str_includes (error_message err) ''Conflict''"
    and "consecutiveConflictErrors d = 2"
  shows "snd (processTelegramUpdates cfg w (Inl err) d)
         = [ConsoleError ''Telegram conflict: Another bot instance is polling. Shutting down this daemon.'']
           @ (if truthy_num (chatId d) then [SendMessage (chatId d) ConflictNotice] else [])
           @ [ConsoleLog ''Exiting to avoid conflict with other daemon instance.'',
              UnhandledRejection (ReferenceError ''shutdown is not defined'')]"
  using assms includes_nonempty[OF assms(3)]
  by (simp add: conflict_tick poll_failed_def Let_def shutdown_unbound)

text \<open>
  Claim C5. After three consecutive conflict errors of the update-fetch loop the daemon
  should notify the paired user once and exit with status zero. The code notifies, then
  calls \<open>shutdown\<close>, a name bound nowhere in the module: the call throws a ReferenceError,
  the tick ends in an unhandled rejection, and \<open>process.exit(0)\<close> is not reached.
\<close>

theorem third_conflict_never_exits:
  assumes "isConfigured (telegram cfg)" and "\<not> isPolling d"
    and "consecutiveConflictErrors d = 0"
    and "str_includes (error_message e1) ''Conflict''"
    and "str_includes (error_message e2) ''Conflict''"
    and "str_includes (error_message e3) ''Conflict''"
  shows "(let r1 = processTelegramUpdates cfg w1 (Inl e1) d;
              r2 = processTelegramUpdates cfg w2 (Inl e2) (fst r1);
              r3 = processTelegramUpdates cfg w3 (Inl e3) (fst r2)
          in snd r1 = [] \<and> snd r2 = []
           \<and> snd r3 =
               [ConsoleError ''Telegram conflict: Another bot instance is polling. Shutting down this daemon.'']
               @ (if truthy_num (chatId d) then [SendMessage (chatId d) ConflictNotice] else [])
               @ [ConsoleLog ''Exiting to avoid conflict with other daemon instance.'',
                  UnhandledRejection (ReferenceError ''shutdown is not defined'')]
           \<and> ProcessExit 0 \<notin> set (snd r3))"
proof -
  let ?r1 = "processTelegramUpdates cfg w1 (Inl e1) d"
  let ?r2 = "processTelegramUpdates cfg w2 (Inl e2) (fst ?r1)"
  let ?r3 = "processTelegramUpdates cfg w3 (Inl e3) (fst ?r2)"
  have t1: "snd ?r1 = [] \<and> \<not> isPolling (fst ?r1) \<and> consecutiveConflictErrors (fst ?r1) = 1
            \<and> chatId (fst ?r1) = chatId d"
    using counted_conflict[OF assms(1,2,4), of w1] assms(3) by simp
  have t2: "snd ?r2 = [] \<and> \<not> isPolling (fst ?r2) \<and> consecutiveConflictErrors (fst ?r2) = 2
            \<and> chatId (fst ?r2) = chatId d"
    using counted_conflict[OF assms(1) _ assms(5), of "fst ?r1" w2] t1 by simp
  have t3: "snd ?r3
            = [ConsoleError ''Telegram conflict: Another bot instance is polling. Shutting down this daemon.'']
               @ (if truthy_num (chatId d) then [SendMessage (chatId d) ConflictNotice] else [])
               @ [ConsoleLog ''Exiting to avoid conflict with other daemon instance.'',
                  UnhandledRejection (ReferenceError ''shutdown is not defined'')]"
    using third_conflict[OF assms(1) _ assms(6), of "fst ?r2" w3] t2 by simp
  show ?thesis
    unfolding Let_def using t1 t2 t3 by simp
qed

theorem third_conflict_never_exits_witness:
  "(let r1 = processTelegramUpdates example_config (example_world []) (Inl example_conflict)
               example_started;
        r2 = processTelegramUpdates example_config (example_world []) (Inl example_conflict)
               (fst r1);
        r3 = processTelegramUpdates example_config (example_world []) (Inl example_conflict)
               (fst r2)
    in snd r3 =
         [ConsoleError ''Telegram conflict: Another bot instance is polling. Shutting down this daemon.'',
          SendMessage (Some 12345) ConflictNotice,
          ConsoleLog ''Exiting to avoid conflict with other daemon instance.'',
          UnhandledRejection (ReferenceError ''shutdown is not defined'')])"
proof -
  have a: "isConfigured (telegram example_config)"
    by (simp add: isConfigured_def example_config_def DEFAULT_CONFIG_def)
  have b: "\<not> isPolling example_started" "consecutiveConflictErrors example_started = 0"
    by (simp_all add: example_started_facts)
  have c: "str_includes (error_message example_conflict) ''Conflict''"
    by (simp add: example_conflict_def startsWith_def)
  show ?thesis
    using third_conflict_never_exits[OF a b c c c, of "example_world []" "example_world []"
        "example_world []"]
    by (simp add: Let_def example_started_facts)
qed

subsection \<open>Verdict parsing\<close>

lemma notify_permission_parks:
  "sendResult env = Inr m \<Longrightarrow>
   map_option w_allowBulkApproval
     (map_of (waitingSockets (fst (notify_permission cfg env msg sock carried d))) (Num m))
   = Some (isBulkApprovalAllowed cfg (Some (tool_name msg)))"
  by (simp add: notify_permission_def Let_def trackWaitingSocket_def update_conv')

lemma invalid_reply_restores:
  assumes "checkRequestExists d mid = Some request"
    and "w_type parked = Permission"
    and "parsePermissionResponse reply (w_allowBulkApproval parked) = None"
  shows "pendingRequests (fst (handleResponse w mid parked (Some reply) d)) = pendingRequests d"
    and "requestsBySession (fst (handleResponse w mid parked (Some reply) d)) = requestsBySession d"
    and "map_of (waitingSockets (fst (handleResponse w mid parked (Some reply) d))) mid = Some parked"
    and "snd (handleResponse w mid parked (Some reply) d)
         = [ClearTimeout (w_timeout parked),
            SendMessage (chatId d)
              (if w_allowBulkApproval parked then ReplyYesNoAll else ReplyYesNo)]"
  using assms
  by (simp_all add: handleResponse_def Let_def clearTimeout_def untrack_message_def update_conv'
        split: option.splits)

lemma js_space_raw: "is_js_space c \<longleftrightarrow> (of_char c :: nat) \<in> {9, 10, 11, 12, 13, 32, 160}"
  by (simp add: is_js_space_def code_unit_def)

lemma trim_decomposition:
  "\<exists>pre post. s = pre @ trim s @ post \<and> (\<forall>c\<in>set pre. is_js_space c) \<and> (\<forall>c\<in>set post. is_js_space c)"
proof -
  let ?l = "dropWhile is_js_space s"
  let ?pre = "takeWhile is_js_space s"
  let ?post = "rev (takeWhile is_js_space (rev ?l))"
  have l: "?l = trim s @ ?post"
    unfolding trim_def by (metis rev_append rev_rev_ident takeWhile_dropWhile_id)
  have "s = ?pre @ ?l" by simp
  with l have "s = ?pre @ trim s @ ?post" by simp
  moreover have "\<forall>c\<in>set ?pre. is_js_space c" by (auto dest: set_takeWhileD)
  moreover have "\<forall>c\<in>set ?post. is_js_space c" by (auto dest: set_takeWhileD)
  ultimately show ?thesis by blast
qed

lemma trim_padded:
  assumes "\<forall>c\<in>set pre. is_js_space c" and "\<forall>c\<in>set post. is_js_space c"
    and "core = [] \<or> (\<not> is_js_space (hd core) \<and> \<not> is_js_space (last core))"
  shows "trim (pre @ core @ post) = core"
proof (cases "core = []")
  case True
  have e: "dropWhile is_js_space (pre @ post) = []"
    using assms(1,2) by auto
  show ?thesis
    unfolding True trim_def append_Nil e by simp
next
  case False
  with assms(3) have h: "\<not> is_js_space (hd core)" "\<not> is_js_space (last core)" by simp_all
  have "hd core \<in> set core" using False by simp
  then have a: "dropWhile is_js_space (core @ post) = core @ post"
    using h(1) False by (intro dropWhile_id) simp
  have b: "dropWhile is_js_space (pre @ core @ post) = core @ post"
    using assms(1) a by simp
  have c: "dropWhile is_js_space (rev post @ rev core) = dropWhile is_js_space (rev core)"
    using assms(2) by (intro dropWhile_append2) simp
  have d: "dropWhile is_js_space (rev core) = rev core"
    using h(2) False by (intro dropWhile_id) (simp add: hd_rev)
  show ?thesis
    unfolding trim_def b rev_append c d by simp
qed

lemma folded_lower:
  assumes "a = b \<or> ((of_char a :: nat) \<in> {65..90} \<and> (of_char b :: nat) = of_char a + 32)"
    and "lower_char b = b"
  shows "lower_char a = b"
proof (cases "a = b")
  case True
  then show ?thesis using assms(2) by simp
next
  case False
  with assms(1) have u: "(of_char a :: nat) \<in> {65..90}" "(of_char b :: nat) = of_char a + 32"
    by auto
  have "lower_char a = char_of (of_char a + 32 :: nat)"
    using u(1) by (simp add: lower_char_def code_unit_def Let_def)
  also have "\<dots> = char_of (of_char b :: nat)"
    using u(2) by simp
  also have "\<dots> = b"
    by simp
  finally show ?thesis .
qed

lemma lower_folded:
  "lower_char a = b \<Longrightarrow> (of_char b :: nat) < 192 \<Longrightarrow>
   a = b \<or> ((of_char a :: nat) \<in> {65..90} \<and> (of_char b :: nat) = of_char a + 32)"
  by (auto simp: lower_char_def code_unit_def Let_def split: if_splits)

lemma folded_not_space:
  "a = b \<or> ((of_char a :: nat) \<in> {65..90} \<and> (of_char b :: nat) = of_char a + 32) \<Longrightarrow>
   \<not> is_js_space b \<Longrightarrow> \<not> is_js_space a"
  by (auto simp: is_js_space_def code_unit_def)

lemma normalized_iff:
  assumes "\<forall>c\<in>set word. (of_char c :: nat) < 192 \<and> lower_char c = c"
    and "word \<noteq> []" and "\<not> is_js_space (hd word)" and "\<not> is_js_space (last word)"
  shows "toLowerCase (trim reply) = word \<longleftrightarrow>
         (\<exists>pre core post. reply = pre @ core @ post
            \<and> (\<forall>c\<in>set pre. (of_char c :: nat) \<in> {9, 10, 11, 12, 13, 32, 160})
            \<and> (\<forall>c\<in>set post. (of_char c :: nat) \<in> {9, 10, 11, 12, 13, 32, 160})
            \<and> list_all2 (\<lambda>a b. a = b \<or> ((of_char a :: nat) \<in> {65..90}
                                       \<and> (of_char b :: nat) = of_char a + 32)) core word)"
    (is "?L \<longleftrightarrow> ?R")
proof
  assume L: ?L
  obtain pre post where d: "reply = pre @ trim reply @ post"
    "\<forall>c\<in>set pre. is_js_space c" "\<forall>c\<in>set post. is_js_space c"
    using trim_decomposition by blast
  have "list_all2 (\<lambda>a b. a = b \<or> ((of_char a :: nat) \<in> {65..90}
                                       \<and> (of_char b :: nat) = of_char a + 32)) (trim reply) word"
    unfolding list_all2_conv_all_nth
  proof (intro conjI allI impI)
    show "length (trim reply) = length word"
      using L by (auto simp: toLowerCase_def)
  next
    fix i assume i: "i < length (trim reply)"
    then have "lower_char (trim reply ! i) = word ! i"
      using L by (auto simp: toLowerCase_def)
    moreover have "(of_char (word ! i) :: nat) < 192"
      using assms(1) i L by (auto simp: toLowerCase_def)
    ultimately show "trim reply ! i = word ! i \<or> ((of_char (trim reply ! i) :: nat) \<in> {65..90}
                        \<and> (of_char (word ! i) :: nat) = of_char (trim reply ! i) + 32)"
      by (rule lower_folded)
  qed
  with d show ?R
    unfolding js_space_raw by blast
next
  assume ?R
  then obtain pre core post where r: "reply = pre @ core @ post"
    "\<forall>c\<in>set pre. is_js_space c" "\<forall>c\<in>set post. is_js_space c"
    "list_all2 (\<lambda>a b. a = b \<or> ((of_char a :: nat) \<in> {65..90}
                                       \<and> (of_char b :: nat) = of_char a + 32)) core word"
    unfolding js_space_raw by blast
  have len: "length core = length word" using r(4) by (rule list_all2_lengthD)
  then have ne: "core \<noteq> []" using assms(2) by auto
  have nth: "\<And>i. i < length core \<Longrightarrow> core ! i = word ! i \<or> ((of_char (core ! i) :: nat) \<in> {65..90}
                        \<and> (of_char (word ! i) :: nat) = of_char (core ! i) + 32)"
    using r(4) by (simp add: list_all2_conv_all_nth)
  have "\<not> is_js_space (hd core)"
    using nth[of 0] ne assms(2,3) folded_not_space[of "core ! 0" "word ! 0"]
    by (simp add: hd_conv_nth)
  moreover have "\<not> is_js_space (last core)"
    using nth[of "length core - 1"] ne assms(2,4) len
      folded_not_space[of "core ! (length core - 1)" "word ! (length word - 1)"]
    by (simp add: last_conv_nth)
  ultimately have t: "trim reply = core"
    using r(1-3) by (simp add: trim_padded)
  have "map lower_char core = word"
  proof (rule nth_equalityI)
    show "length (map lower_char core) = length word" using len by simp
  next
    fix i assume "i < length (map lower_char core)"
    then have i: "i < length core" by simp
    then have "lower_char (word ! i) = word ! i" using assms(1) len by simp
    with nth[OF i] have "lower_char (core ! i) = word ! i" by (rule folded_lower)
    with i show "map lower_char core ! i = word ! i" by simp
  qed
  with t show ?L by (simp add: toLowerCase_def)
qed


lemma verdict_word:
  assumes "word \<in> {''yes'', ''y'', ''no'', ''n'', ''all'', ''yes all'', ''y all'', ''always''}"
  shows "(\<exists>pre core post. reply = pre @ core @ post
            \<and> (\<forall>c\<in>set pre. (of_char c :: nat) \<in> {9, 10, 11, 12, 13, 32, 160})
            \<and> (\<forall>c\<in>set post. (of_char c :: nat) \<in> {9, 10, 11, 12, 13, 32, 160})
            \<and> list_all2 (\<lambda>a b. a = b \<or> ((of_char a :: nat) \<in> {65..90}
                                       \<and> (of_char b :: nat) = of_char a + 32)) core word)
         \<longleftrightarrow> toLowerCase (trim reply) = word"
proof -
  have 1: "\<forall>c\<in>set word. (of_char c :: nat) < 192 \<and> lower_char c = c"
    using assms by (auto simp: lower_char_def code_unit_def Let_def)
  have 2: "word \<noteq> []" using assms by auto
  have 3: "\<not> is_js_space (hd word)" using assms by (auto simp: is_js_space_def code_unit_def)
  have 4: "\<not> is_js_space (last word)" using assms by (auto simp: is_js_space_def code_unit_def)
  show ?thesis
    using normalized_iff[OF 1 2 3 4, of reply] by simp
qed

lemma parse_raw:
  "(let ws = (\<lambda>s. \<forall>c\<in>set s. (of_char c :: nat) \<in> {9, 10, 11, 12, 13, 32, 160});
        folded = list_all2 (\<lambda>a b. a = b \<or> ((of_char a :: nat) \<in> {65..90}
                                        \<and> (of_char b :: nat) = of_char a + 32));
        reads = (\<lambda>word. \<exists>pre core post. reply = pre @ core @ post
                          \<and> ws pre \<and> ws post \<and> folded core word);
        verdict = parsePermissionResponse reply allowed
    in (verdict = Some Approved \<longleftrightarrow> reads ''yes'' \<or> reads ''y'')
     \<and> (verdict = Some Denied \<longleftrightarrow> reads ''no'' \<or> reads ''n'')
     \<and> (verdict = Some ApprovedAll \<longleftrightarrow>
          allowed \<and> (reads ''all'' \<or> reads ''yes all'' \<or> reads ''y all'' \<or> reads ''always''))
     \<and> (verdict = None \<longleftrightarrow>
          \<not> reads ''yes'' \<and> \<not> reads ''y'' \<and> \<not> reads ''no'' \<and> \<not> reads ''n''
          \<and> \<not> (allowed \<and> (reads ''all'' \<or> reads ''yes all'' \<or> reads ''y all''
                             \<or> reads ''always''))))"
proof -
  let ?reads = "\<lambda>word. \<exists>pre core post. reply = pre @ core @ post
            \<and> (\<forall>c\<in>set pre. (of_char c :: nat) \<in> {9, 10, 11, 12, 13, 32, 160})
            \<and> (\<forall>c\<in>set post. (of_char c :: nat) \<in> {9, 10, 11, 12, 13, 32, 160})
            \<and> list_all2 (\<lambda>a b. a = b \<or> ((of_char a :: nat) \<in> {65..90}
                                       \<and> (of_char b :: nat) = of_char a + 32)) core word"
  have 1: "?reads ''yes'' \<longleftrightarrow> toLowerCase (trim reply) = ''yes''"
    by (rule verdict_word) simp
  have 2: "?reads ''y'' \<longleftrightarrow> toLowerCase (trim reply) = ''y''"
    by (rule verdict_word) simp
  have 3: "?reads ''no'' \<longleftrightarrow> toLowerCase (trim reply) = ''no''"
    by (rule verdict_word) simp
  have 4: "?reads ''n'' \<longleftrightarrow> toLowerCase (trim reply) = ''n''"
    by (rule verdict_word) simp
  have 5: "?reads ''all'' \<longleftrightarrow> toLowerCase (trim reply) = ''all''"
    by (rule verdict_word) simp
  have 6: "?reads ''yes all'' \<longleftrightarrow> toLowerCase (trim reply) = ''yes all''"
    by (rule verdict_word) simp
  have 7: "?reads ''y all'' \<longleftrightarrow> toLowerCase (trim reply) = ''y all''"
    by (rule verdict_word) simp
  have 8: "?reads ''always'' \<longleftrightarrow> toLowerCase (trim reply) = ''always''"
    by (rule verdict_word) simp
  show ?thesis
    unfolding Let_def 1 2 3 4 5 6 7 8
    by (auto simp: parsePermissionResponse_def Let_def)
qed

text \<open>
  Claim C7. With the reply text trimmed and lowercased, the verdict is \<open>approved\<close>
  exactly for \<open>yes\<close> and \<open>y\<close>, \<open>denied\<close> exactly for \<open>no\<close> and \<open>n\<close>, \<open>approved_all\<close>
  exactly for \<open>all\<close>, \<open>yes all\<close>, \<open>y all\<close> and \<open>always\<close> when the tool name is in the
  configured bulk-approval list (which is what the permission path parks with the
  reply), and invalid for every other text. On an invalid reply to a pending permission
  request, the two indices are unchanged, one correction is sent to the chat, and the
  parked reply is back under its message id.

  Trimming and lowercasing are also stated on the code units of the reply itself: a reply
  reads as a word when it is the word with any of its letters in upper case (\<open>A-Z\<close> for
  \<open>a-z\<close>), preceded and followed by any number of white-space code units (TAB, LF, VT,
  FF, CR, SPACE, NO-BREAK SPACE). The verdict is \<open>approved\<close> exactly for the replies that
  read as \<open>yes\<close> or \<open>y\<close>, \<open>denied\<close> exactly for those that read as \<open>no\<close> or \<open>n\<close>,
  \<open>approved_all\<close> exactly for those that read as one of the four bulk words when the tool
  is in the list, and invalid for every other reply.
\<close>

theorem permission_verdict_parsing:
  "(let normalized = toLowerCase (trim reply);
        allowed = isBulkApprovalAllowed cfg (Some toolName);
        verdict = parsePermissionResponse reply allowed
    in (verdict = Some Approved \<longleftrightarrow> normalized = ''yes'' \<or> normalized = ''y'')
     \<and> (verdict = Some Denied \<longleftrightarrow> normalized = ''no'' \<or> normalized = ''n'')
     \<and> (verdict = Some ApprovedAll \<longleftrightarrow>
          (normalized = ''all'' \<or> normalized = ''yes all'' \<or> normalized = ''y all''
           \<or> normalized = ''always'') \<and> allowed)
     \<and> (verdict = None \<longleftrightarrow>
          normalized \<noteq> ''yes'' \<and> normalized \<noteq> ''y'' \<and> normalized \<noteq> ''no'' \<and> normalized \<noteq> ''n''
          \<and> \<not> ((normalized = ''all'' \<or> normalized = ''yes all'' \<or> normalized = ''y all''
                 \<or> normalized = ''always'') \<and> allowed))
     \<and> (allowed \<longleftrightarrow>
          toolName \<in> set (case bulkApprovalTools cfg of None \<Rightarrow> [] | Some tools \<Rightarrow> tools)))
   \<and> (sendResult env = Inr m \<longrightarrow>
        map_option w_allowBulkApproval
          (map_of (waitingSockets (fst (notify_permission cfg env msg sock carried d0))) (Num m))
        = Some (isBulkApprovalAllowed cfg (Some (tool_name msg))))
   \<and> (checkRequestExists d mid = Some request \<and> w_type parked = Permission
        \<and> parsePermissionResponse reply (w_allowBulkApproval parked) = None \<longrightarrow>
        pendingRequests (fst (handleResponse w mid parked (Some reply) d)) = pendingRequests d
        \<and> requestsBySession (fst (handleResponse w mid parked (Some reply) d)) = requestsBySession d
        \<and> map_of (waitingSockets (fst (handleResponse w mid parked (Some reply) d))) mid = Some parked
        \<and> snd (handleResponse w mid parked (Some reply) d)
          = [ClearTimeout (w_timeout parked),
             SendMessage (chatId d)
               (if w_allowBulkApproval parked then ReplyYesNoAll else ReplyYesNo)])
   \<and> (let ws = (\<lambda>s. \<forall>c\<in>set s. (of_char c :: nat) \<in> {9, 10, 11, 12, 13, 32, 160});
           folded = list_all2 (\<lambda>a b. a = b \<or> ((of_char a :: nat) \<in> {65..90}
                                           \<and> (of_char b :: nat) = of_char a + 32));
           reads = (\<lambda>word. \<exists>pre core post. reply = pre @ core @ post
                             \<and> ws pre \<and> ws post \<and> folded core word);
           allowed = isBulkApprovalAllowed cfg (Some toolName);
           verdict = parsePermissionResponse reply allowed
       in (verdict = Some Approved \<longleftrightarrow> reads ''yes'' \<or> reads ''y'')
        \<and> (verdict = Some Denied \<longleftrightarrow> reads ''no'' \<or> reads ''n'')
        \<and> (verdict = Some ApprovedAll \<longleftrightarrow>
             allowed \<and> (reads ''all'' \<or> reads ''yes all'' \<or> reads ''y all'' \<or> reads ''always''))
        \<and> (verdict = None \<longleftrightarrow>
             \<not> reads ''yes'' \<and> \<not> reads ''y'' \<and> \<not> reads ''no'' \<and> \<not> reads ''n''
             \<and> \<not> (allowed \<and> (reads ''all'' \<or> reads ''yes all'' \<or> reads ''y all''
                                \<or> reads ''always''))))"
proof -
  have parse: "(let normalized = toLowerCase (trim reply);
        allowed = isBulkApprovalAllowed cfg (Some toolName);
        verdict = parsePermissionResponse reply allowed
    in (verdict = Some Approved \<longleftrightarrow> normalized = ''yes'' \<or> normalized = ''y'')
     \<and> (verdict = Some Denied \<longleftrightarrow> normalized = ''no'' \<or> normalized = ''n'')
     \<and> (verdict = Some ApprovedAll \<longleftrightarrow>
          (normalized = ''all'' \<or> normalized = ''yes all'' \<or> normalized = ''y all''
           \<or> normalized = ''always'') \<and> allowed)
     \<and> (verdict = None \<longleftrightarrow>
          normalized \<noteq> ''yes'' \<and> normalized \<noteq> ''y'' \<and> normalized \<noteq> ''no'' \<and> normalized \<noteq> ''n''
          \<and> \<not> ((normalized = ''all'' \<or> normalized = ''yes all'' \<or> normalized = ''y all''
                 \<or> normalized = ''always'') \<and> allowed))
     \<and> (allowed \<longleftrightarrow>
          toolName \<in> set (case bulkApprovalTools cfg of None \<Rightarrow> [] | Some tools \<Rightarrow> tools)))"
    by (auto simp: parsePermissionResponse_def isBulkApprovalAllowed_def Let_def
          split: option.splits)
  have raw: "(let ws = (\<lambda>s. \<forall>c\<in>set s. (of_char c :: nat) \<in> {9, 10, 11, 12, 13, 32, 160});
           folded = list_all2 (\<lambda>a b. a = b \<or> ((of_char a :: nat) \<in> {65..90}
                                           \<and> (of_char b :: nat) = of_char a + 32));
           reads = (\<lambda>word. \<exists>pre core post. reply = pre @ core @ post
                             \<and> ws pre \<and> ws post \<and> folded core word);
           allowed = isBulkApprovalAllowed cfg (Some toolName);
           verdict = parsePermissionResponse reply allowed
       in (verdict = Some Approved \<longleftrightarrow> reads ''yes'' \<or> reads ''y'')
        \<and> (verdict = Some Denied \<longleftrightarrow> reads ''no'' \<or> reads ''n'')
        \<and> (verdict = Some ApprovedAll \<longleftrightarrow>
             allowed \<and> (reads ''all'' \<or> reads ''yes all'' \<or> reads ''y all'' \<or> reads ''always''))
        \<and> (verdict = None \<longleftrightarrow>
             \<not> reads ''yes'' \<and> \<not> reads ''y'' \<and> \<not> reads ''no'' \<and> \<not> reads ''n''
             \<and> \<not> (allowed \<and> (reads ''all'' \<or> reads ''yes all'' \<or> reads ''y all''
                                \<or> reads ''always''))))"
    using parse_raw[of reply "isBulkApprovalAllowed cfg (Some toolName)"]
    unfolding Let_def .
  have old: "(let normalized = toLowerCase (trim reply);
        allowed = isBulkApprovalAllowed cfg (Some toolName);
        verdict = parsePermissionResponse reply allowed
    in (verdict = Some Approved \<longleftrightarrow> normalized = ''yes'' \<or> normalized = ''y'')
     \<and> (verdict = Some Denied \<longleftrightarrow> normalized = ''no'' \<or> normalized = ''n'')
     \<and> (verdict = Some ApprovedAll \<longleftrightarrow>
          (normalized = ''all'' \<or> normalized = ''yes all'' \<or> normalized = ''y all''
           \<or> normalized = ''always'') \<and> allowed)
     \<and> (verdict = None \<longleftrightarrow>
          normalized \<noteq> ''yes'' \<and> normalized \<noteq> ''y'' \<and> normalized \<noteq> ''no'' \<and> normalized \<noteq> ''n''
          \<and> \<not> ((normalized = ''all'' \<or> normalized = ''yes all'' \<or> normalized = ''y all''
                 \<or> normalized = ''always'') \<and> allowed))
     \<and> (allowed \<longleftrightarrow>
          toolName \<in> set (case bulkApprovalTools cfg of None \<Rightarrow> [] | Some tools \<Rightarrow> tools)))
   \<and> (sendResult env = Inr m \<longrightarrow>
        map_option w_allowBulkApproval
          (map_of (waitingSockets (fst (notify_permission cfg env msg sock carried d0))) (Num m))
        = Some (isBulkApprovalAllowed cfg (Some (tool_name msg))))
   \<and> (checkRequestExists d mid = Some request \<and> w_type parked = Permission
        \<and> parsePermissionResponse reply (w_allowBulkApproval parked) = None \<longrightarrow>
        pendingRequests (fst (handleResponse w mid parked (Some reply) d)) = pendingRequests d
        \<and> requestsBySession (fst (handleResponse w mid parked (Some reply) d)) = requestsBySession d
        \<and> map_of (waitingSockets (fst (handleResponse w mid parked (Some reply) d))) mid = Some parked
        \<and> snd (handleResponse w mid parked (Some reply) d)
          = [ClearTimeout (w_timeout parked),
             SendMessage (chatId d)
               (if w_allowBulkApproval parked then ReplyYesNoAll else ReplyYesNo)])"
    using parse notify_permission_parks[of env m cfg msg sock carried d0]
      invalid_reply_restores[of d mid request parked reply w]
    by simp
  show ?thesis
    by (rule conjI[OF conjunct1[OF old]
          conjI[OF conjunct1[OF conjunct2[OF old]] conjI[OF conjunct2[OF conjunct2[OF old]] raw]]])
qed

lemma normalize_maybe: "toLowerCase (trim '' Maybe '') = ''maybe''"
  by code_simp

theorem permission_verdict_parsing_witness:
  "checkRequestExists example_parked (Num 42) = Some example_entry
   \<and> w_type example_waiting = Permission
   \<and> parsePermissionResponse '' Maybe '' (w_allowBulkApproval example_waiting) = None
   \<and> pendingRequests (fst (handleResponse (example_world []) (Num 42) example_waiting
                              (Some '' Maybe '') example_parked))
     = [(''42'', example_entry)]
   \<and> map_of (waitingSockets (fst (handleResponse (example_world []) (Num 42) example_waiting
                                     (Some '' Maybe '') example_parked))) (Num 42)
     = Some example_waiting
   \<and> snd (handleResponse (example_world []) (Num 42) example_waiting (Some '' Maybe '')
            example_parked)
     = [ClearTimeout 0, SendMessage (Some 12345) ReplyYesNo]
   \<and> sendResult (example_io 42) = Inr 42
   \<and> map_option w_allowBulkApproval
        (map_of (waitingSockets (fst (notify_permission example_config (example_io 42)
                   (example_msg ''permission_request'' ''r2'') 7 None example_enabled))) (Num 42))
     = Some False
   \<and> parsePermissionResponse ([CHR 0x09, CHR 0x20] @ ''YeS'' @ [CHR 0xA0, CHR 0x0A])
        (isBulkApprovalAllowed example_config (Some ''Bash'')) = Some Approved
   \<and> parsePermissionResponse ([CHR 0x0D] @ ''No'' @ [CHR 0x0B, CHR 0x0C])
        (isBulkApprovalAllowed example_config (Some ''Bash'')) = Some Denied
   \<and> parsePermissionResponse ([] @ ''Yes ALL'' @ [CHR 0x20])
        (isBulkApprovalAllowed example_config (Some ''Edit'')) = Some ApprovedAll"
proof -
  let ?ws = "\<lambda>s. \<forall>c\<in>set s. (of_char c :: nat) \<in> {9, 10, 11, 12, 13, 32, 160}"
  let ?folded = "list_all2 (\<lambda>a b. a = b \<or> ((of_char a :: nat) \<in> {65..90}
                                           \<and> (of_char b :: nat) = of_char a + 32))"
  have a: "checkRequestExists example_parked (Num 42) = Some example_entry"
    by (rule example_parked_exists)
  have b: "w_type example_waiting = Permission" "w_allowBulkApproval example_waiting = False"
    "w_timeout example_waiting = 0"
    by (simp_all add: example_waiting_def)
  have c: "parsePermissionResponse '' Maybe '' (w_allowBulkApproval example_waiting) = None"
    by (simp add: parsePermissionResponse_def normalize_maybe b Let_def)
  have e: "sendResult (example_io 42) = Inr 42"
    by (simp add: example_io_def)
  have bash: "isBulkApprovalAllowed example_config (Some ''Bash'') = False"
    "tool_name (example_msg ''permission_request'' ''r2'') = ''Bash''"
    "isBulkApprovalAllowed example_config (Some ''Edit'') = True"
    by (simp_all add: isBulkApprovalAllowed_def example_config_def DEFAULT_CONFIG_def
          example_msg_def)
  note t = permission_verdict_parsing[where d = example_parked and mid = "Num 42"
        and request = example_entry and parked = example_waiting and reply = "'' Maybe ''"
        and w = "example_world []" and env = "example_io 42" and m = 42
        and cfg = example_config and msg = "example_msg ''permission_request'' ''r2''"
        and sock = 7 and carried = None and ?d0.0 = example_enabled]
  have invalid:
    "pendingRequests (fst (handleResponse (example_world []) (Num 42) example_waiting
                              (Some '' Maybe '') example_parked))
     = [(''42'', example_entry)]
     \<and> map_of (waitingSockets (fst (handleResponse (example_world []) (Num 42) example_waiting
                                     (Some '' Maybe '') example_parked))) (Num 42)
       = Some example_waiting
     \<and> snd (handleResponse (example_world []) (Num 42) example_waiting (Some '' Maybe '')
            example_parked)
       = [ClearTimeout 0, SendMessage (Some 12345) ReplyYesNo]"
    using conjunct1[OF conjunct2[OF conjunct2[OF t]]] a b c by (simp add: example_parked_facts)
  have parked: "map_option w_allowBulkApproval
        (map_of (waitingSockets (fst (notify_permission example_config (example_io 42)
                   (example_msg ''permission_request'' ''r2'') 7 None example_enabled))) (Num 42))
     = Some False"
    using conjunct1[OF conjunct2[OF t]] e by (simp add: bash)
  have yes: "\<exists>pre core post. [CHR 0x09, CHR 0x20] @ ''YeS'' @ [CHR 0xA0, CHR 0x0A] = pre @ core @ post
               \<and> ?ws pre \<and> ?ws post \<and> ?folded core ''yes''"
    by (rule exI[of _ "[CHR 0x09, CHR 0x20]"], rule exI[of _ "''YeS''"],
        rule exI[of _ "[CHR 0xA0, CHR 0x0A]"]) simp
  have no: "\<exists>pre core post. [CHR 0x0D] @ ''No'' @ [CHR 0x0B, CHR 0x0C] = pre @ core @ post
               \<and> ?ws pre \<and> ?ws post \<and> ?folded core ''no''"
    by (rule exI[of _ "[CHR 0x0D]"], rule exI[of _ "''No''"],
        rule exI[of _ "[CHR 0x0B, CHR 0x0C]"]) simp
  have all: "\<exists>pre core post. [] @ ''Yes ALL'' @ [CHR 0x20] = pre @ core @ post
               \<and> ?ws pre \<and> ?ws post \<and> ?folded core ''yes all''"
    by (rule exI[of _ "[]"], rule exI[of _ "''Yes ALL''"], rule exI[of _ "[CHR 0x20]"]) simp
  have approved: "parsePermissionResponse ([CHR 0x09, CHR 0x20] @ ''YeS'' @ [CHR 0xA0, CHR 0x0A])
        (isBulkApprovalAllowed example_config (Some ''Bash'')) = Some Approved"
    using conjunct2[OF conjunct2[OF conjunct2[OF
            permission_verdict_parsing[where reply = "[CHR 0x09, CHR 0x20] @ ''YeS'' @ [CHR 0xA0, CHR 0x0A]"
              and cfg = example_config and toolName = "''Bash''"]]]] yes
    unfolding Let_def by blast
  have denied: "parsePermissionResponse ([CHR 0x0D] @ ''No'' @ [CHR 0x0B, CHR 0x0C])
        (isBulkApprovalAllowed example_config (Some ''Bash'')) = Some Denied"
    using conjunct2[OF conjunct2[OF conjunct2[OF
            permission_verdict_parsing[where reply = "[CHR 0x0D] @ ''No'' @ [CHR 0x0B, CHR 0x0C]"
              and cfg = example_config and toolName = "''Bash''"]]]] no
    unfolding Let_def by blast
  have approved_all: "parsePermissionResponse ([] @ ''Yes ALL'' @ [CHR 0x20])
        (isBulkApprovalAllowed example_config (Some ''Edit'')) = Some ApprovedAll"
    using conjunct2[OF conjunct2[OF conjunct2[OF
            permission_verdict_parsing[where reply = "[] @ ''Yes ALL'' @ [CHR 0x20]"
              and cfg = example_config and toolName = "''Edit''"]]]] all bash(3)
    unfolding Let_def by blast
  show ?thesis
    using a b(1) c invalid e parked approved denied approved_all by blast
qed

subsection \<open>The stop reply\<close>

lemma string_of_50: "string_of_int 50 = ''50''"
  by code_simp

lemma example_stopped_facts:
  "chatId example_stopped = Some 12345"
  "pendingRequests example_stopped = [(''50'', example_stop_entry)]"
  "requestsBySession example_stopped = [(''S'', [''50''])]"
  "waitingSockets example_stopped = [(Num 50, example_stop_waiting)]"
  "socketToMessageIds example_stopped = [(9, [Num 50])]"
  "destroyed example_stopped = []"
  by (simp_all add: example_stopped_def handleRequest_def handleStopRequest_def
        example_msg_def example_io_def example_config_def
        DEFAULT_CONFIG_def isConfigured_def isAfkEnabled_def
        trackWaitingSocket_def register_def example_stop_entry_def example_stop_waiting_def
        Let_def example_enabled_facts string_of_50)

lemma string_of_2001: "string_of_nat 2001 = ''2001''"
  by code_simp

lemma example_long_text_facts:
  "length example_long_text = 2001"
  "take 1997 example_long_text = replicate 1997 (CHR ''a'')"
  "take 2000 example_long_text = replicate 1997 (CHR ''a'') @ ''bcd''"
  by (simp_all add: example_long_text_def)

lemma example_long_text_truncated:
  "truncate_instructions example_long_text
   = replicate 1997 (CHR ''a'') @ ''... (truncated, original was 2001 chars)''"
  by (simp add: truncate_instructions_def example_long_text_facts string_of_2001)

lemma stop_reply_delivery:
  assumes "checkRequestExists d mid = Some request"
    and "w_type parked = Stop"
    and "w_socket parked \<notin> set (destroyed d)"
  shows "handleResponse w mid parked (Some txt) d
         = (let d' = removeFromDualIndex
                       (untrack_message (w_socket parked) mid
                          ((clearTimeout (w_timeout parked) d)\<lparr>waitingSockets :=
                             AList.delete mid (waitingSockets (clearTimeout (w_timeout parked) d))\<rparr>))
                       mid (w_sessionId parked)
            in (d', [ClearTimeout (w_timeout parked), SaveState (the_state d'),
                     Respond (w_socket parked)
                       (Continue (w_requestId parked) (truncate_instructions txt))]))"
proof -
  have "destroyed (removeFromDualIndex
                       (untrack_message (w_socket parked) mid
                          ((clearTimeout (w_timeout parked) d)\<lparr>waitingSockets :=
                             AList.delete mid (waitingSockets (clearTimeout (w_timeout parked) d))\<rparr>))
                       mid (w_sessionId parked)) = destroyed d"
    by (simp add: removeFromDualIndex_def untrack_message_def clearTimeout_def Let_def
          split: option.splits)
  then show ?thesis
    using assms by (simp add: handleResponse_def Let_def deliver_def)
qed

lemma live_ids_removed:
  "live_ids (removeFromDualIndex d mid sid) sid = remove1 (js_String mid) (live_ids d sid)"
  by (simp add: removeFromDualIndex_def live_ids_def Let_def update_conv' delete_conv'
        split: option.splits)

text \<open>
  Claim C8. For a stop reply of more than 2000 characters to a pending stop request whose
  hook socket is alive, the instructions delivered in the frame
  \<open>{ status: "continue", instructions }\<close> are the text truncated to 2000 characters,
  that is its first 1997 characters and the ellipsis \<open>...\<close>, followed by the visible
  suffix \<open> (truncated, original was N chars)\<close>, N the length of the text in decimal.
  The frame is the last thing done: before it the timer is cleared and the state is saved
  with the pending already removed from both indices.
\<close>

theorem stop_reply_truncation:
  assumes "checkRequestExists d mid = Some request"
    and "w_type parked = Stop"
    and "w_socket parked \<notin> set (destroyed d)"
    and "length txt > 2000"
  shows "snd (handleResponse w mid parked (Some txt) d)
         = [ClearTimeout (w_timeout parked),
            SaveState (the_state (fst (handleResponse w mid parked (Some txt) d))),
            Respond (w_socket parked)
              (Continue (w_requestId parked)
                 (take 1997 txt @ ''... (truncated, original was ''
                  @ string_of_nat (length txt) @ '' chars)''))]
         \<and> map_of (pendingRequests (fst (handleResponse w mid parked (Some txt) d)))
             (js_String mid) = None
         \<and> live_ids (fst (handleResponse w mid parked (Some txt) d)) (w_sessionId parked)
           = remove1 (js_String mid) (live_ids d (w_sessionId parked))
         \<and> take 2000 (take 1997 txt @ ''... (truncated, original was ''
                        @ string_of_nat (length txt) @ '' chars)'')
           = take 1997 txt @ ''...''
         \<and> drop 2000 (take 1997 txt @ ''... (truncated, original was ''
                        @ string_of_nat (length txt) @ '' chars)'')
           = '' (truncated, original was '' @ string_of_nat (length txt) @ '' chars)''"
proof -
  have live: "live_ids (untrack_message (w_socket parked) mid
                ((clearTimeout (w_timeout parked) d)\<lparr>waitingSockets :=
                   AList.delete mid (waitingSockets (clearTimeout (w_timeout parked) d))\<rparr>))
                (w_sessionId parked) = live_ids d (w_sessionId parked)"
    by (simp add: live_ids_def)
  have main: "snd (handleResponse w mid parked (Some txt) d)
         = [ClearTimeout (w_timeout parked),
            SaveState (the_state (fst (handleResponse w mid parked (Some txt) d))),
            Respond (w_socket parked)
              (Continue (w_requestId parked)
                 (take 1997 txt @ ''... (truncated, original was ''
                  @ string_of_nat (length txt) @ '' chars)''))]
         \<and> map_of (pendingRequests (fst (handleResponse w mid parked (Some txt) d)))
             (js_String mid) = None
         \<and> live_ids (fst (handleResponse w mid parked (Some txt) d)) (w_sessionId parked)
           = remove1 (js_String mid) (live_ids d (w_sessionId parked))"
    using assms(4)
    by (simp add: stop_reply_delivery[OF assms(1-3)] Let_def truncate_instructions_def
          pendingRequests_removeFromDualIndex delete_conv' live_ids_removed live)
  have len: "length (take 1997 txt) = 1997"
    using assms(4) by simp
  have cut: "take 2000 (take 1997 txt @ ''... (truncated, original was ''
                        @ string_of_nat (length txt) @ '' chars)'')
           = take 1997 txt @ ''...''"
    using len by (simp del: length_take)
  have rest: "drop 2000 (take 1997 txt @ ''... (truncated, original was ''
                        @ string_of_nat (length txt) @ '' chars)'')
           = '' (truncated, original was '' @ string_of_nat (length txt) @ '' chars)''"
    using len by (simp del: length_take)
  show ?thesis
    using main cut rest by blast
qed

theorem stop_reply_truncation_witness:
  "checkRequestExists example_stopped (Num 50) = Some example_stop_entry
   \<and> length example_long_text > 2000
   \<and> snd (handleResponse (example_world []) (Num 50) example_stop_waiting
            (Some example_long_text) example_stopped)
     = [ClearTimeout 0,
        SaveState (the_state (fst (handleResponse (example_world []) (Num 50)
                                      example_stop_waiting (Some example_long_text)
                                      example_stopped))),
        Respond 9 (Continue ''r5''
          (replicate 1997 (CHR ''a'') @ ''... (truncated, original was 2001 chars)''))]
   \<and> live_ids (fst (handleResponse (example_world []) (Num 50) example_stop_waiting
                      (Some example_long_text) example_stopped)) ''S'' = []
   \<and> take 2000 (replicate 1997 (CHR ''a'') @ ''... (truncated, original was 2001 chars)'')
     = replicate 1997 (CHR ''a'') @ ''...''"
proof -
  have a: "checkRequestExists example_stopped (Num 50) = Some example_stop_entry"
    by (simp add: checkRequestExists_def example_stopped_facts string_of_50)
  have b: "w_type example_stop_waiting = Stop" "w_socket example_stop_waiting = 9"
    "w_requestId example_stop_waiting = ''r5''" "w_timeout example_stop_waiting = 0"
    "w_sessionId example_stop_waiting = ''S''"
    by (simp_all add: example_stop_waiting_def)
  have c: "w_socket example_stop_waiting \<notin> set (destroyed example_stopped)"
    by (simp add: example_stopped_facts)
  have e: "length example_long_text > 2000"
    by (simp add: example_long_text_facts)
  show ?thesis
    using stop_reply_truncation[OF a b(1) c e, of "example_world []"] a e
    by (simp add: b example_long_text_facts string_of_2001 live_ids_def example_stopped_facts
          string_of_50)
qed

subsection \<open>Local resolution by the transcript\<close>

lemma example_tool_result:
  "findToolResult
     (files (example_world [Entry (Some ''user'') (Blocks [ToolResult (Some ''tu1'') False])]))
     (Some ''t.jsonl'') (Some ''tu1'') 0
   = Some \<lparr>found = True, isError = False, offset = 1\<rparr>"
  by (simp add: findToolResult_def example_world_def)

lemma example_poll_request:
  "poll_request (example_world [Entry (Some ''user'') (Blocks [ToolResult (Some ''tu1'') False])])
     ''42'' (example_parked\<lparr>isPollingTranscripts := True\<rparr>)
   = handleLocalResolution (Str ''42'') example_entry ResolvedApproved
       (example_parked\<lparr>isPollingTranscripts := True\<rparr>)"
  by (simp add: poll_request_def example_parked_facts checkPermissionResolution_def
        example_entry_def example_tool_result resolution_of_def Let_def)

lemma example_local_resolution:
  "snd (handleLocalResolution (Str ''42'') example_entry ResolvedApproved
          (example_parked\<lparr>isPollingTranscripts := True\<rparr>))
   = [DeleteMessage (Some 12345) (Str ''42''),
      SaveState (the_state (fst (handleLocalResolution (Str ''42'') example_entry
                   ResolvedApproved (example_parked\<lparr>isPollingTranscripts := True\<rparr>))))]"
  "pendingRequests (fst (handleLocalResolution (Str ''42'') example_entry ResolvedApproved
          (example_parked\<lparr>isPollingTranscripts := True\<rparr>))) = []"
  "requestsBySession (fst (handleLocalResolution (Str ''42'') example_entry ResolvedApproved
          (example_parked\<lparr>isPollingTranscripts := True\<rparr>))) = []"
  "waitingSockets (fst (handleLocalResolution (Str ''42'') example_entry ResolvedApproved
          (example_parked\<lparr>isPollingTranscripts := True\<rparr>))) = [(Num 42, example_waiting)]"
  by (simp_all add: handleLocalResolution_def example_parked_facts example_entry_def
        removeFromDualIndex_def Let_def)

lemma example_poll_requests:
  "poll_requests (example_world [Entry (Some ''user'') (Blocks [ToolResult (Some ''tu1'') False])])
     ''S'' 0 (example_parked\<lparr>isPollingTranscripts := True\<rparr>, [])
   = handleLocalResolution (Str ''42'') example_entry ResolvedApproved
       (example_parked\<lparr>isPollingTranscripts := True\<rparr>)"
  apply (subst poll_requests.simps)
  apply (simp add: live_ids_def example_parked_facts example_poll_request)
  apply (subst poll_requests.simps)
  apply (simp add: live_ids_def example_local_resolution)
  done

lemma example_resolved_eq:
  "example_resolved
   = ((fst (handleLocalResolution (Str ''42'') example_entry ResolvedApproved
              (example_parked\<lparr>isPollingTranscripts := True\<rparr>)))\<lparr>isPollingTranscripts := False\<rparr>,
      snd (handleLocalResolution (Str ''42'') example_entry ResolvedApproved
              (example_parked\<lparr>isPollingTranscripts := True\<rparr>)))"
  by (simp add: example_resolved_def pollTranscripts_def example_parked_facts poll_session_def
        example_poll_requests first_request_def live_ids_def example_local_resolution Let_def)

text \<open>
  Claim C4. When the transcript of a pending permission request gains the matching
  tool result, the tick should send \<open>{ status: "resolved_locally", resolution }\<close> on the
  parked reply channel if it is alive, delete the remote message, remove the pending and
  persist. In the example the hook waits on socket 7, which is alive, and the transcript
  holds the result; the tick deletes the message, removes the pending from both indices
  and saves the state, but it sends no frame, and the parked reply stays in
  \<open>waitingSockets\<close>: the tick looks it up under the string \<open>"42"\<close>, and it is parked
  under the number 42.
\<close>

theorem transcript_resolution_sends_no_reply:
  "map_of (waitingSockets example_parked) (Num 42) = Some example_waiting
   \<and> w_socket example_waiting \<notin> set (destroyed example_parked)
   \<and> findToolResult
       (files (example_world [Entry (Some ''user'') (Blocks [ToolResult (Some ''tu1'') False])]))
       (transcriptPath example_entry) (tool_use_id example_entry) 0
     = Some \<lparr>found = True, isError = False, offset = 1\<rparr>
   \<and> snd example_resolved
     = [DeleteMessage (Some 12345) (Str ''42''), SaveState (the_state (fst example_resolved))]
   \<and> pendingRequests (fst example_resolved) = []
   \<and> requestsBySession (fst example_resolved) = []
   \<and> waitingSockets (fst example_resolved) = [(Num 42, example_waiting)]
   \<and> map_of (waitingSockets example_parked) (Str ''42'') = None"
proof -
  have parked: "map_of (waitingSockets example_parked) (Num 42) = Some example_waiting"
    "map_of (waitingSockets example_parked) (Str ''42'') = None"
    "w_socket example_waiting \<notin> set (destroyed example_parked)"
    by (simp_all add: example_parked_facts example_waiting_def)
  have result: "findToolResult
       (files (example_world [Entry (Some ''user'') (Blocks [ToolResult (Some ''tu1'') False])]))
       (transcriptPath example_entry) (tool_use_id example_entry) 0
     = Some \<lparr>found = True, isError = False, offset = 1\<rparr>"
    using example_tool_result by (simp add: example_entry_def)
  have effects: "snd example_resolved
     = [DeleteMessage (Some 12345) (Str ''42''), SaveState (the_state (fst example_resolved))]"
    by (simp add: example_resolved_eq example_local_resolution(1) the_state_def)
  have state: "pendingRequests (fst example_resolved) = []"
    "requestsBySession (fst example_resolved) = []"
    "waitingSockets (fst example_resolved) = [(Num 42, example_waiting)]"
    by (simp_all add: example_resolved_eq example_local_resolution)
  show ?thesis
    using parked result effects state by blast
qed

end
